theory Spec2Isabelle
  imports Main "HOL-Library.AList"
begin

section \<open>Values: the dictionaries the exporter works on\<close>

text \<open>
  The exporter (src/spacemk/exporters/terraform.py) keeps every entity as a dictionary
  decoded from JSON and reads it through dotted key paths
  (\<^verbatim>\<open>workspace.get("attributes.terraform-version")\<close>).  A value is modelled as
  the JSON tree it is; a dictionary is an association list in insertion order whose keys
  are distinct, and a key path is the list of its segments, so
  \<^verbatim>\<open>"attributes.name"\<close> is written \<open>[''attributes'', ''name'']\<close>.
  JSON numbers are integers here: the code under study does no arithmetic on them.
\<close>

datatype json =
    JNull
  | JBool bool
  | JInt int
  | JStr string
  | JList "json list"
  | JObj "(string \<times> json) list"

text \<open>The exceptions the modelled code can raise.\<close>

datatype pyerr =
    TypeError
  | ValueError
  | AttributeError
  | IndexError
  | RuntimeError
  | JSONDecodeError
  | RegexError
  | TerraformExporterPlanError
  | AgentStartError
  | OSError

type_synonym keypath = "string list"

text \<open>Python truthiness, as used by \<^verbatim>\<open>if x:\<close>.\<close>

fun truthy :: "json \<Rightarrow> bool" where
  "truthy JNull = False"
| "truthy (JBool b) = b"
| "truthy (JInt i) = (i \<noteq> 0)"
| "truthy (JStr s) = (s \<noteq> [])"
| "truthy (JList xs) = (xs \<noteq> [])"
| "truthy (JObj kvs) = (kvs \<noteq> [])"

text \<open>
  Python's \<^verbatim>\<open>==\<close> on decoded values: \<^verbatim>\<open>True == 1\<close> and
  \<^verbatim>\<open>False == 0\<close> hold, every other pair of scalars is equal only when it is
  the same value.  Containers are compared as written.
\<close>

fun py_eq :: "json \<Rightarrow> json \<Rightarrow> bool" where
  "py_eq (JBool b) (JInt i) = (i = (if b then 1 else 0))"
| "py_eq (JInt i) (JBool b) = (i = (if b then 1 else 0))"
| "py_eq a b = (a = b)"

text \<open>\<^verbatim>\<open>d.get(keypath)\<close>: the value at the path, \<^verbatim>\<open>None\<close> when any segment is missing.\<close>

fun kp_get :: "json \<Rightarrow> keypath \<Rightarrow> json" where
  "kp_get j [] = j"
| "kp_get (JObj kvs) (k # ks) = (case map_of kvs k of None \<Rightarrow> JNull | Some v \<Rightarrow> kp_get v ks)"
| "kp_get _ (k # ks) = JNull"

text \<open>\<^verbatim>\<open>keypath in d\<close>: the path exists, whatever value it holds.\<close>

fun kp_in :: "json \<Rightarrow> keypath \<Rightarrow> bool" where
  "kp_in j [] = True"
| "kp_in (JObj kvs) (k # ks) = (case map_of kvs k of None \<Rightarrow> False | Some v \<Rightarrow> kp_in v ks)"
| "kp_in _ (k # ks) = False"

text \<open>
  \<^verbatim>\<open>d[keypath] = v\<close>: intermediate dictionaries are created on the way, and an
  intermediate value that is no dictionary is replaced by a new one.
\<close>

fun kp_set :: "json \<Rightarrow> keypath \<Rightarrow> json \<Rightarrow> json" where
  "kp_set j [] v = v"
| "kp_set (JObj kvs) (k # ks) v =
     JObj (AList.update k (kp_set (case map_of kvs k of None \<Rightarrow> JObj [] | Some s \<Rightarrow> s) ks v) kvs)"
| "kp_set _ (k # ks) v = JObj [(k, kp_set (JObj []) ks v)]"

text \<open>\<^verbatim>\<open>pydash.omit(obj, paths)\<close>: the object without the values at the given paths.\<close>

fun omit_path :: "keypath \<Rightarrow> json \<Rightarrow> json" where
  "omit_path [] j = j"
| "omit_path [k] (JObj kvs) = JObj (AList.delete k kvs)"
| "omit_path (k # ks) (JObj kvs) = JObj (AList.map_entry k (omit_path ks) kvs)"
| "omit_path (k # ks) j = j"

definition omit :: "json \<Rightarrow> keypath list \<Rightarrow> json" where
  "omit j paths = fold omit_path paths j"

section \<open>The API client\<close>

text \<open>
  The remote server is the environment.  A request is answered by \<open>http\<close>, which may
  change the state \<open>'w\<close> of the server; the answer is what
  \<^verbatim>\<open>requests.request\<close> gives back: a response with its status code and content, or one
  of the transport exceptions.  A response document is a JSON object (the API is JSON:API).
\<close>

datatype content =
    NoContent
  | Document "(string \<times> json) list"
  | NotJson

datatype http_outcome =
    Response nat content
  | ReadTimeout
  | ConnectionError
  | RequestException

type_synonym 'w http = "string \<Rightarrow> string \<Rightarrow> json option \<Rightarrow> 'w \<Rightarrow> http_outcome \<times> 'w"

text \<open>
  \<^verbatim>\<open>_call_api(url, drop_response_properties, method, request_data)\<close>, lines 54-100.
  \<^verbatim>\<open>raise_for_status\<close> raises for the statuses 400 to 599; of these only 404 is turned
  into the plain dictionary \<^verbatim>\<open>{"data": {}}\<close>, every other one and every transport
  exception becomes a \<^verbatim>\<open>RuntimeError\<close>.
\<close>

definition call_api ::
  "'w http \<Rightarrow> string \<Rightarrow> keypath list \<Rightarrow> string \<Rightarrow> json option \<Rightarrow> 'w \<Rightarrow> (pyerr + json) \<times> 'w" where
  "call_api http url drop_response_properties method request_data w =
     (case http method url request_data w of
        (ReadTimeout, w') \<Rightarrow> (Inl RuntimeError, w')
      | (ConnectionError, w') \<Rightarrow> (Inl RuntimeError, w')
      | (RequestException, w') \<Rightarrow> (Inl RuntimeError, w')
      | (Response status body, w') \<Rightarrow>
          if 400 \<le> status \<and> status < 600 then
            (if status = 404 then (Inr (JObj [(''data'', JObj [])]), w')
             else (Inl RuntimeError, w'))
          else if drop_response_properties \<noteq> [] then
            (case body of
               Document d \<Rightarrow> (Inr (omit (JObj d) drop_response_properties), w')
             | _ \<Rightarrow> (Inl JSONDecodeError, w'))
          else if body = NoContent then (Inr (JObj []), w')
          else
            (case body of
               Document d \<Rightarrow> (Inr (JObj d), w')
             | _ \<Rightarrow> (Inl JSONDecodeError, w')))"

text \<open>
  One turn of the \<^verbatim>\<open>while True\<close> loop of \<^verbatim>\<open>_extract_data_from_api\<close>, lines
  917-921: a dictionary is appended, anything else that is truthy is iterated over.
\<close>

fun add_page :: "json list \<Rightarrow> json \<Rightarrow> pyerr + json list" where
  "add_page raw (JObj kvs) = Inr (if kvs = [] then raw else raw @ [JObj kvs])"
| "add_page raw (JList xs) = Inr (raw @ xs)"
| "add_page raw (JStr s) = Inr (raw @ map (\<lambda>c. JStr [c]) s)"
| "add_page raw JNull = Inr raw"
| "add_page raw (JBool b) = (if b then Inl TypeError else Inr raw)"
| "add_page raw (JInt i) = (if i \<noteq> 0 then Inl TypeError else Inr raw)"

text \<open>
  Lines 923-927: the link to the next page.  A truthy link that is no string is handed to
  the HTTP library as it is, which rejects it as an invalid URL.
\<close>

fun next_link :: "json \<Rightarrow> pyerr + string option" where
  "next_link (JStr u) = Inr (if u = [] then None else Some u)"
| "next_link j = (if truthy j then Inl RuntimeError else Inr None)"

text \<open>
  The loop of lines 911-927.  It runs as long as the server keeps sending a next link,
  so it is a partial function: \<open>None\<close> is the loop that never ends.
\<close>

partial_function (option) fetch_pages ::
  "'w http \<Rightarrow> keypath list \<Rightarrow> string \<Rightarrow> json option \<Rightarrow> string \<Rightarrow> json list \<Rightarrow> 'w
     \<Rightarrow> ((pyerr + json list) \<times> 'w) option" where
  "fetch_pages http drop_response_properties method request_data url raw_data w =
     (case call_api http url drop_response_properties method request_data w of
        (Inl e, w') \<Rightarrow> Some (Inl e, w')
      | (Inr response_payload, w') \<Rightarrow>
          (case add_page raw_data (kp_get response_payload [''data'']) of
             Inl e \<Rightarrow> Some (Inl e, w')
           | Inr raw_data' \<Rightarrow>
               (case next_link (kp_get response_payload [''links'', ''next'']) of
                  Inl e \<Rightarrow> Some (Inl e, w')
                | Inr None \<Rightarrow> Some (Inr raw_data', w')
                | Inr (Some url') \<Rightarrow>
                    fetch_pages http drop_response_properties method request_data url' raw_data' w')))"

text \<open>
  Lines 936-941: the projection of one raw object on the requested properties.
\<close>

definition project :: "keypath list \<Rightarrow> json \<Rightarrow> json" where
  "project properties raw_datum =
     fold (\<lambda>property datum. kp_set datum property (kp_get raw_datum property)) properties (JObj [])"

text \<open>
  Lines 931-941.  \<open>include_regex\<close> is the compiled include pattern:
  \<open>include_regex s\<close> holds when \<^verbatim>\<open>include_regex.match(s)\<close> is not \<^verbatim>\<open>None\<close>.
  An object is skipped when it has a name that does not match; an object that is kept
  is appended only when there are properties to project on.
\<close>

fun select_data :: "(string \<Rightarrow> bool) \<Rightarrow> keypath list option \<Rightarrow> json list \<Rightarrow> pyerr + json list" where
  "select_data include_regex properties [] = Inr []"
| "select_data include_regex properties (JObj kvs # raw_data) =
     (case kp_get (JObj kvs) [''attributes'', ''name''] of
        JStr name \<Rightarrow>
          (if name \<noteq> [] \<and> \<not> include_regex name then select_data include_regex properties raw_data
           else
             (case select_data include_regex properties raw_data of
                Inl e \<Rightarrow> Inl e
              | Inr data \<Rightarrow>
                  (case properties of
                     None \<Rightarrow> Inr data
                   | Some ps \<Rightarrow> if ps = [] then Inr data else Inr (project ps (JObj kvs) # data))))
      | name \<Rightarrow>
          (if truthy name then Inl TypeError
           else
             (case select_data include_regex properties raw_data of
                Inl e \<Rightarrow> Inl e
              | Inr data \<Rightarrow>
                  (case properties of
                     None \<Rightarrow> Inr data
                   | Some ps \<Rightarrow> if ps = [] then Inr data else Inr (project ps (JObj kvs) # data)))))"
| "select_data include_regex properties (_ # raw_data) = Inl AttributeError"

text \<open>
  What the exporter needs around it: the server, the regular expression compiler
  (\<open>None\<close> for a pattern \<^verbatim>\<open>re.compile\<close> rejects) and the configured endpoint.
\<close>

record 'w client =
  http :: "'w http"
  re_compile :: "string \<Rightarrow> (string \<Rightarrow> bool) option"
  api_endpoint :: string

text \<open>\<^verbatim>\<open>_extract_data_from_api\<close>, lines 894-945.\<close>

definition extract_data_from_api ::
  "'w client \<Rightarrow> string \<Rightarrow> keypath list \<Rightarrow> string option \<Rightarrow> string \<Rightarrow> keypath list option
     \<Rightarrow> json option \<Rightarrow> 'w \<Rightarrow> ((pyerr + json list) \<times> 'w) option" where
  "extract_data_from_api c path drop_response_properties include_pattern method properties
       request_data w =
     (let include_pattern' = (case include_pattern of None \<Rightarrow> ''.*'' | Some p \<Rightarrow> p);
          url = api_endpoint c @ ''/api/v2'' @ path
      in case fetch_pages (http c) drop_response_properties method request_data url [] w of
           None \<Rightarrow> None
         | Some (Inl e, w') \<Rightarrow> Some (Inl e, w')
         | Some (Inr raw_data, w') \<Rightarrow>
             (case re_compile c include_pattern' of
                None \<Rightarrow> Some (Inl RegexError, w')
              | Some include_regex \<Rightarrow> Some (select_data include_regex properties raw_data, w')))"

text \<open>\<^verbatim>\<open>_delete_agent_pool\<close>, lines 266-271: the result of the call is dropped.\<close>

definition delete_agent_pool :: "'w client \<Rightarrow> string \<Rightarrow> 'w \<Rightarrow> ((pyerr + json list) \<times> 'w) option" where
  "delete_agent_pool c pool_id w =
     extract_data_from_api c (''/agent-pools/'' @ pool_id) [] None ''DELETE'' None None w"

subsection \<open>The pages a server sends\<close>





subsection \<open>Servers to run the client against\<close>

text \<open>
  A server that answers every request with one page of one agent pool, and a client that
  talks to it; the pattern \<^verbatim>\<open>.*\<close> matches every name.
\<close>

definition one_page_client :: "nat client" where
  "one_page_client =
     \<lparr> http = (\<lambda>m u d w. (Response 200 (Document [(''data'', JList [JObj [(''id'', JStr ''apool-1''), (''type'', JStr ''agent-pools'')]])]), Suc w)),
       re_compile = (\<lambda>p. if p = ''.*'' then Some (\<lambda>s. True) else None),
       api_endpoint = ''https://app.terraform.io'' \<rparr>"




section \<open>The schema mapper\<close>

subsection \<open>Strings and iteration\<close>

text \<open>\<^verbatim>\<open>for x in v\<close>: what Python iterates over, and the \<^verbatim>\<open>TypeError\<close> when it cannot.\<close>

fun py_iter :: "json \<Rightarrow> pyerr + json list" where
  "py_iter (JList xs) = Inr xs"
| "py_iter (JStr s) = Inr (map (\<lambda>c. JStr [c]) s)"
| "py_iter (JObj kvs) = Inr (map (\<lambda>kv. JStr (fst kv)) kvs)"
| "py_iter _ = Inl TypeError"

definition startswith :: "string \<Rightarrow> string \<Rightarrow> bool" where
  "startswith s p = (take (length p) s = p)"

text \<open>\<^verbatim>\<open>s.replace("-", "_")\<close>.\<close>

definition replace_char :: "char \<Rightarrow> char \<Rightarrow> string \<Rightarrow> string" where
  "replace_char a b s = map (\<lambda>c. if c = a then b else c) s"

text \<open>\<^verbatim>\<open>s.split(c)\<close> and \<^verbatim>\<open>sep.join(xs)\<close>.\<close>

fun split_on :: "char \<Rightarrow> string \<Rightarrow> string list" where
  "split_on c [] = [[]]"
| "split_on c (x # xs) =
     (if x = c then [] # split_on c xs
      else (case split_on c xs of [] \<Rightarrow> [[x]] | y # ys \<Rightarrow> (x # y) # ys))"

fun join :: "string \<Rightarrow> string list \<Rightarrow> string" where
  "join sep [] = []"
| "join sep [x] = x"
| "join sep (x # y # ys) = x @ sep @ join sep (y # ys)"

text \<open>
  \<^verbatim>\<open>re.search("^[a-zA-Z_]+[a-zA-Z0-9_]*$", s) is not None\<close>.  In Python \<^verbatim>\<open>$\<close>
  also matches just before a newline that ends the string.
\<close>

definition name_start :: "char \<Rightarrow> bool" where
  "name_start c = (c \<in> set ''abcdefghijklmnopqrstuvwxyzABCDEFGHIJKLMNOPQRSTUVWXYZ_'')"

definition name_char :: "char \<Rightarrow> bool" where
  "name_char c = (c \<in> set ''abcdefghijklmnopqrstuvwxyzABCDEFGHIJKLMNOPQRSTUVWXYZ0123456789_'')"

definition valid_name :: "string \<Rightarrow> bool" where
  "valid_name s =
     (let t = (if s \<noteq> [] \<and> last s = CHR 0x0A then butlast s else s)
      in t \<noteq> [] \<and> name_start (hd t) \<and> list_all name_char t)"

subsection \<open>The exporter and the libraries it calls\<close>

text \<open>
  The mapper calls two libraries that are not part of the repository,
  \<^verbatim>\<open>slugify\<close> and \<^verbatim>\<open>semver.match\<close> (which raises \<^verbatim>\<open>ValueError\<close> on a string
  that is no version), and reads the option \<^verbatim>\<open>auto_fix_variable_names\<close> of its
  configuration.  They are fields of the exporter; the theorems hold for every exporter.
\<close>

record exporter =
  slugify :: "string \<Rightarrow> string"
  semver_match :: "string \<Rightarrow> string \<Rightarrow> pyerr + bool"
  auto_fix_variable_names :: bool

text \<open>The flags \<^verbatim>\<open>self.is_gitlab\<close> and \<^verbatim>\<open>self.is_ado\<close>.\<close>

record flags =
  is_gitlab :: bool
  is_ado :: bool

text \<open>
  \<^verbatim>\<open>_generate_migration_id(*args)\<close>, lines 1329-1330:
  \<^verbatim>\<open>slugify("_".join(args)).replace("-", "_")\<close>; joining anything but strings is a
  \<^verbatim>\<open>TypeError\<close>.
\<close>

fun str_args :: "json list \<Rightarrow> string list option" where
  "str_args [] = Some []"
| "str_args (JStr s # js) = (case str_args js of None \<Rightarrow> None | Some ss \<Rightarrow> Some (s # ss))"
| "str_args (_ # js) = None"

definition generate_migration_id :: "exporter \<Rightarrow> json list \<Rightarrow> pyerr + string" where
  "generate_migration_id x args =
     (case str_args args of
        None \<Rightarrow> Inl TypeError
      | Some ss \<Rightarrow> Inr (replace_char CHR ''-'' CHR ''_'' (slugify x (join ''_'' ss))))"

text \<open>\<^verbatim>\<open>_build_stack_slug\<close>, lines 51-52; \<^verbatim>\<open>slugify\<close> rejects what is no string.\<close>

definition build_stack_slug :: "exporter \<Rightarrow> json \<Rightarrow> pyerr + string" where
  "build_stack_slug x workspace =
     (case kp_get workspace [''attributes'', ''name''] of
        JStr name \<Rightarrow> Inr (slugify x name)
      | _ \<Rightarrow> Inl TypeError)"

subsection \<open>Stacks\<close>

definition supported_providers :: "(string \<times> string) list" where
  "supported_providers =
     [(''github'', ''github_custom''),
      (''github_app'', ''github_custom''),
      (''github_enterprise'', ''github_custom''),
      (''bitbucket_server'', ''bitbucket_datacenter''),
      (''gitlab_hosted'', ''gitlab''),
      (''ado_services'', ''azure_devops'')]"

text \<open>Lines 1662-1679: the provider, mapped to the target's name for it.\<close>

fun lookup_provider :: "json \<Rightarrow> pyerr + json" where
  "lookup_provider JNull = Inr JNull"
| "lookup_provider (JStr p) =
     (case map_of supported_providers p of None \<Rightarrow> Inl ValueError | Some q \<Rightarrow> Inr (JStr q))"
| "lookup_provider (JList xs) = Inl TypeError"
| "lookup_provider (JObj kvs) = Inl TypeError"
| "lookup_provider _ = Inl ValueError"

text \<open>\<^verbatim>\<open>identifier.split("/")\<close> for a truthy identifier.\<close>

fun segments_of :: "json \<Rightarrow> pyerr + string list" where
  "segments_of (JStr s) = Inr (split_on CHR ''/'' s)"
| "segments_of _ = Inl AttributeError"

definition vcs_info :: "json \<Rightarrow> json \<Rightarrow> json \<Rightarrow> json" where
  "vcs_info vcs_namespace vcs_repository provider =
     JObj [(''vcs_namespace'', vcs_namespace), (''vcs_repository'', vcs_repository),
           (''provider'', provider)]"

text \<open>\<^verbatim>\<open>_determine_provider\<close>, lines 1661-1699.\<close>

definition determine_provider :: "flags \<Rightarrow> json \<Rightarrow> pyerr + json \<times> flags" where
  "determine_provider fl info =
     (case lookup_provider (kp_get info [''attributes'', ''vcs-repo'', ''service-provider'']) of
        Inl e \<Rightarrow> Inl e
      | Inr provider \<Rightarrow>
          (let identifier = kp_get info [''attributes'', ''vcs-repo'', ''identifier'']
           in if provider = JStr ''gitlab'' \<and> truthy identifier then
                (case segments_of identifier of
                   Inl e \<Rightarrow> Inl e
                 | Inr segments \<Rightarrow>
                     Inr (vcs_info (JStr (join ''/'' (butlast segments))) (JStr (last segments)) provider,
                          fl\<lparr>is_gitlab := True\<rparr>))
              else if provider = JStr ''azure_devops'' \<and> truthy identifier then
                (case segments_of identifier of
                   Inl e \<Rightarrow> Inl e
                 | Inr segments \<Rightarrow>
                     if length segments < 4 then Inl IndexError
                     else Inr (vcs_info (JStr (segments ! 1)) (JStr (segments ! 3)) provider,
                               fl\<lparr>is_ado := True\<rparr>))
              else if provider \<noteq> JStr ''gitlab'' \<and> provider \<noteq> JStr ''azure_devops''
                      \<and> truthy identifier then
                (case segments_of identifier of
                   Inl e \<Rightarrow> Inl e
                 | Inr segments \<Rightarrow>
                     if length segments < 2 then Inl IndexError
                     else Inr (vcs_info (JStr (segments ! 0)) (JStr (segments ! 1)) provider, fl))
              else Inr (vcs_info JNull JNull provider, fl)))"

text \<open>
  \<^verbatim>\<open>find_workspace_variable_with_invalid_name\<close>, lines 1702-1719, over the variables
  \<^verbatim>\<open>data.get("workspace_variables")\<close> iterates on.
\<close>

fun invalid_name_loop :: "json \<Rightarrow> string \<Rightarrow> json list \<Rightarrow> pyerr + json list" where
  "invalid_name_loop workspace_id type' [] = Inr []"
| "invalid_name_loop workspace_id type' (JObj kvs # variables) =
     (let variable = JObj kvs;
          sensitive = kp_get variable [''attributes'', ''sensitive'']
      in if (sensitive = JBool True \<and> type' = ''plain'') \<or> (sensitive = JBool False \<and> type' = ''secret'')
         then invalid_name_loop workspace_id type' variables
         else if py_eq (kp_get variable [''relationships'', ''workspace'', ''data'', ''id'']) workspace_id
         then
           (case kp_get variable [''attributes'', ''key''] of
              JStr key \<Rightarrow>
                (case invalid_name_loop workspace_id type' variables of
                   Inl e \<Rightarrow> Inl e
                 | Inr found \<Rightarrow> Inr (if valid_name key then found else variable # found))
            | _ \<Rightarrow> Inl TypeError)
         else invalid_name_loop workspace_id type' variables)"
| "invalid_name_loop workspace_id type' (_ # variables) = Inl AttributeError"

definition find_workspace_variable_with_invalid_name :: "json \<Rightarrow> json \<Rightarrow> string \<Rightarrow> pyerr + json list" where
  "find_workspace_variable_with_invalid_name data workspace_id type' =
     (case py_iter (kp_get data [''workspace_variables'']) of
        Inl e \<Rightarrow> Inl e
      | Inr variables \<Rightarrow> invalid_name_loop workspace_id type' variables)"

text \<open>Lines 1739-1749: the Terraform version and the workflow tool of a stack.\<close>

definition terraform_workflow :: "exporter \<Rightarrow> json \<Rightarrow> pyerr + string \<times> string" where
  "terraform_workflow x terraform_version =
     (case terraform_version of
        JStr v \<Rightarrow>
          if v = ''latest'' then Inr (''1.5.7'', ''TERRAFORM_FOSS'')
          else if startswith v ''~'' \<or> startswith v ''^'' then Inr (v, ''OPEN_TOFU'')
          else
            (case semver_match x v ''>1.5.7'' of
               Inl e \<Rightarrow> Inl e
             | Inr newer \<Rightarrow> Inr (v, if newer then ''OPEN_TOFU'' else ''TERRAFORM_FOSS''))
      | _ \<Rightarrow> Inl AttributeError)"

text \<open>Lines 1751-1754, the same in the three mappers that use it.\<close>

definition space_id_of :: "json \<Rightarrow> json" where
  "space_id_of entity =
     (if kp_in entity [''relationships'', ''project'', ''data'', ''id'']
      then kp_get entity [''relationships'', ''project'', ''data'', ''id'']
      else kp_get entity [''relationships'', ''organization'', ''data'', ''id''])"

text \<open>The body of the loop of \<^verbatim>\<open>_map_stacks_data\<close>, lines 1724-1780, for one workspace.\<close>

definition map_stack :: "exporter \<Rightarrow> json \<Rightarrow> flags \<Rightarrow> json \<Rightarrow> pyerr + json \<times> flags" where
  "map_stack x src_data fl workspace =
     (case workspace of
        JObj kvs \<Rightarrow>
          (case find_workspace_variable_with_invalid_name src_data (kp_get workspace [''id'']) ''plain'' of
             Inl e \<Rightarrow> Inl e
           | Inr variables_with_invalid_name \<Rightarrow>
          (case find_workspace_variable_with_invalid_name src_data (kp_get workspace [''id'']) ''secret'' of
             Inl e \<Rightarrow> Inl e
           | Inr secret_variables_with_invalid_name \<Rightarrow>
          (case determine_provider fl workspace of
             Inl e \<Rightarrow> Inl e
           | Inr (info, fl') \<Rightarrow>
          (case terraform_workflow x (kp_get workspace [''attributes'', ''terraform-version'']) of
             Inl e \<Rightarrow> Inl e
           | Inr (terraform_version, terraform_workflow_tool) \<Rightarrow>
          (case build_stack_slug x workspace of
             Inl e \<Rightarrow> Inl e
           | Inr slug \<Rightarrow>
              Inr (JObj
                [(''_relationships'', JObj [(''space'', space_id_of workspace)]),
                 (''_source_id'', kp_get workspace [''id'']),
                 (''autodeploy'', kp_get workspace [''attributes'', ''auto-apply'']),
                 (''description'', kp_get workspace [''attributes'', ''description'']),
                 (''has_variables_with_invalid_name'',
                    JBool (length variables_with_invalid_name > 0 \<and> \<not> auto_fix_variable_names x)),
                 (''has_secret_variables_with_invalid_name'',
                    JBool (length secret_variables_with_invalid_name > 0 \<and> \<not> auto_fix_variable_names x)),
                 (''name'', kp_get workspace [''attributes'', ''name'']),
                 (''labels'',
                    if kp_get workspace [''attributes'', ''tag-names''] \<noteq> JNull
                    then kp_get workspace [''attributes'', ''tag-names''] else JList []),
                 (''slug'', JStr slug),
                 (''terraform'',
                    JObj [(''version'', JStr terraform_version),
                          (''workflow_tool'', JStr terraform_workflow_tool)]),
                 (''vcs'',
                    JObj [(''branch'', kp_get workspace [''attributes'', ''vcs-repo'', ''branch'']),
                          (''namespace'', kp_get info [''vcs_namespace'']),
                          (''project_root'', kp_get workspace [''attributes'', ''working-directory'']),
                          (''provider'', kp_get info [''provider'']),
                          (''repository'', kp_get info [''vcs_repository''])])],
                fl'))))))
      | _ \<Rightarrow> Inl AttributeError)"

fun map_stacks_loop :: "exporter \<Rightarrow> json \<Rightarrow> flags \<Rightarrow> json list \<Rightarrow> pyerr + json list \<times> flags" where
  "map_stacks_loop x src_data fl [] = Inr ([], fl)"
| "map_stacks_loop x src_data fl (workspace # workspaces) =
     (case map_stack x src_data fl workspace of
        Inl e \<Rightarrow> Inl e
      | Inr (stack, fl') \<Rightarrow>
          (case map_stacks_loop x src_data fl' workspaces of
             Inl e \<Rightarrow> Inl e
           | Inr (data, fl'') \<Rightarrow> Inr (stack # data, fl'')))"

text \<open>\<^verbatim>\<open>_map_stacks_data\<close>, lines 1701-1784.\<close>

definition map_stacks_data :: "exporter \<Rightarrow> flags \<Rightarrow> json \<Rightarrow> pyerr + json list \<times> flags" where
  "map_stacks_data x fl src_data =
     (case py_iter (kp_get src_data [''workspaces'']) of
        Inl e \<Rightarrow> Inl e
      | Inr workspaces \<Rightarrow> map_stacks_loop x src_data fl workspaces)"

subsection \<open>Stack variables\<close>

text \<open>\<^verbatim>\<open>find_workspace\<close>, lines 1612-1619: the workspace with the id, or \<^verbatim>\<open>None\<close>.\<close>

fun find_workspace_loop :: "json \<Rightarrow> json list \<Rightarrow> pyerr + json" where
  "find_workspace_loop workspace_id [] = Inr JNull"
| "find_workspace_loop workspace_id (JObj kvs # workspaces) =
     (if py_eq (kp_get (JObj kvs) [''id'']) workspace_id then Inr (JObj kvs)
      else find_workspace_loop workspace_id workspaces)"
| "find_workspace_loop workspace_id (_ # workspaces) = Inl AttributeError"

definition find_workspace :: "json \<Rightarrow> json \<Rightarrow> pyerr + json" where
  "find_workspace data workspace_id =
     (case py_iter (kp_get data [''workspaces'']) of
        Inl e \<Rightarrow> Inl e
      | Inr workspaces \<Rightarrow> find_workspace_loop workspace_id workspaces)"

text \<open>The body of the loop of \<^verbatim>\<open>_map_stack_variables_data\<close>, lines 1626-1655.\<close>

definition map_stack_variable :: "exporter \<Rightarrow> json \<Rightarrow> json \<Rightarrow> pyerr + json" where
  "map_stack_variable x src_data variable =
     (case variable of
        JObj kvs \<Rightarrow>
          (case find_workspace src_data (kp_get variable [''relationships'', ''workspace'', ''data'', ''id'']) of
             Inl e \<Rightarrow> Inl e
           | Inr workspace \<Rightarrow>
               (case kp_get variable [''attributes'', ''key''] of
                  JStr key \<Rightarrow>
                    (let is_name_valid = valid_name key
                     in case workspace of
                          JObj ws \<Rightarrow>
                            Inr (JObj
                              [(''_relationships'',
                                  JObj [(''space'', space_id_of workspace),
                                        (''stack'', kp_get variable [''relationships'', ''workspace'', ''data'', ''id''])]),
                               (''_source_id'', kp_get variable [''id'']),
                               (''description'', kp_get variable [''attributes'', ''description'']),
                               (''hcl'', kp_get variable [''attributes'', ''hcl'']),
                               (''name'', JStr key),
                               (''replacement_name'',
                                  if auto_fix_variable_names x \<and> \<not> is_name_valid
                                  then JStr (replace_char CHR ''-'' CHR ''_'' key) else JStr key),
                               (''type'',
                                  if py_eq (kp_get variable [''attributes'', ''category'']) (JStr ''terraform'')
                                  then JStr ''terraform'' else JStr ''env_var''),
                               (''valid_name'', JBool is_name_valid),
                               (''value'', kp_get variable [''attributes'', ''value'']),
                               (''write_only'', kp_get variable [''attributes'', ''sensitive''])])
                        | _ \<Rightarrow> Inl TypeError)
                | _ \<Rightarrow> Inl TypeError))
      | _ \<Rightarrow> Inl AttributeError)"

fun map_stack_variables_loop :: "exporter \<Rightarrow> json \<Rightarrow> json list \<Rightarrow> pyerr + json list" where
  "map_stack_variables_loop x src_data [] = Inr []"
| "map_stack_variables_loop x src_data (variable # variables) =
     (case map_stack_variable x src_data variable of
        Inl e \<Rightarrow> Inl e
      | Inr v \<Rightarrow>
          (case map_stack_variables_loop x src_data variables of
             Inl e \<Rightarrow> Inl e
           | Inr data \<Rightarrow> Inr (v # data)))"

text \<open>\<^verbatim>\<open>_map_stack_variables_data\<close>, lines 1611-1659.\<close>

definition map_stack_variables_data :: "exporter \<Rightarrow> json \<Rightarrow> pyerr + json list" where
  "map_stack_variables_data x src_data =
     (case py_iter (kp_get src_data [''workspace_variables'']) of
        Inl e \<Rightarrow> Inl e
      | Inr variables \<Rightarrow> map_stack_variables_loop x src_data variables)"

subsection \<open>Contexts\<close>

text \<open>\<^verbatim>\<open>len(v)\<close>.\<close>

fun py_len :: "json \<Rightarrow> pyerr + nat" where
  "py_len (JList xs) = Inr (length xs)"
| "py_len (JStr s) = Inr (length s)"
| "py_len (JObj kvs) = Inr (length kvs)"
| "py_len _ = Inl TypeError"

text \<open>
  The test of lines 1470-1474 and 1495-1499: the path is in the variable set, its value
  is not \<^verbatim>\<open>None\<close> and has a positive length.
\<close>

definition attached :: "json \<Rightarrow> keypath \<Rightarrow> pyerr + bool" where
  "attached variable_set path =
     (if kp_in variable_set path \<and> kp_get variable_set path \<noteq> JNull then
        (case py_len (kp_get variable_set path) of Inl e \<Rightarrow> Inl e | Inr n \<Rightarrow> Inr (n > 0))
      else Inr False)"

text \<open>Lines 1475-1491: one copy of the context for each project.\<close>

fun context_copies :: "exporter \<Rightarrow> json \<Rightarrow> json list \<Rightarrow> pyerr + json list" where
  "context_copies x variable_set [] = Inr []"
| "context_copies x variable_set (JObj kvs # projects) =
     (case generate_migration_id x [kp_get variable_set [''id'']] of
        Inl e \<Rightarrow> Inl e
      | Inr migration_id \<Rightarrow>
     (case generate_migration_id x [kp_get (JObj kvs) [''id'']] of
        Inl e \<Rightarrow> Inl e
      | Inr space_migration_id \<Rightarrow>
     (case (kp_get (JObj kvs) [''id''], kp_get variable_set [''id'']) of
        (JStr project_id, JStr variable_set_id) \<Rightarrow>
          (case context_copies x variable_set projects of
             Inl e \<Rightarrow> Inl e
           | Inr data \<Rightarrow>
               Inr (JObj
                 [(''_migration_id'', JStr migration_id),
                  (''_relationships'',
                     JObj [(''space'', JObj [(''_migration_id'', JStr space_migration_id)]),
                           (''stacks'', JList [])]),
                  (''_source_id'', JStr (project_id @ ''_'' @ variable_set_id)),
                  (''description'', kp_get variable_set [''attributes'', ''description'']),
                  (''labels'', JList [JStr ''autoattach:*'']),
                  (''name'', kp_get variable_set [''attributes'', ''name''])] # data))
      | _ \<Rightarrow> Inl TypeError)))"
| "context_copies x variable_set (_ # projects) = Inl AttributeError"

text \<open>Lines 1500-1502: the stacks of the workspaces a variable set is attached to.\<close>

fun stack_refs :: "exporter \<Rightarrow> json list \<Rightarrow> pyerr + json list" where
  "stack_refs x [] = Inr []"
| "stack_refs x (JObj kvs # workspaces) =
     (case generate_migration_id x [kp_get (JObj kvs) [''id'']] of
        Inl e \<Rightarrow> Inl e
      | Inr migration_id \<Rightarrow>
          (case stack_refs x workspaces of
             Inl e \<Rightarrow> Inl e
           | Inr stacks \<Rightarrow> Inr (JObj [(''_migration_id'', JStr migration_id)] # stacks)))"
| "stack_refs x (_ # workspaces) = Inl AttributeError"

text \<open>
  The context of a variable set that is not copied, lines 1453-1469 and 1504-1520: they
  differ in the stacks and the labels.
\<close>

definition single_context :: "exporter \<Rightarrow> json \<Rightarrow> json list \<Rightarrow> json list \<Rightarrow> pyerr + json list" where
  "single_context x variable_set stacks labels =
     (case generate_migration_id x [kp_get variable_set [''id'']] of
        Inl e \<Rightarrow> Inl e
      | Inr migration_id \<Rightarrow>
     (case generate_migration_id x [kp_get variable_set [''relationships'', ''organization'', ''data'', ''id'']] of
        Inl e \<Rightarrow> Inl e
      | Inr space_migration_id \<Rightarrow>
          Inr [JObj
            [(''_migration_id'', JStr migration_id),
             (''_relationships'',
                JObj [(''space'', JObj [(''_migration_id'', JStr space_migration_id)]),
                      (''stacks'', JList stacks)]),
             (''_source_id'', kp_get variable_set [''id'']),
             (''description'', kp_get variable_set [''attributes'', ''description'']),
             (''labels'', JList labels),
             (''name'', kp_get variable_set [''attributes'', ''name''])]]))"

text \<open>
  The body of the loop of \<^verbatim>\<open>_map_contexts_data\<close>, lines 1451-1520: the contexts one
  variable set is mapped to.
\<close>

definition map_context :: "exporter \<Rightarrow> json \<Rightarrow> pyerr + json list" where
  "map_context x variable_set =
     (case variable_set of
        JObj kvs \<Rightarrow>
          if truthy (kp_get variable_set [''attributes'', ''global'']) then
            single_context x variable_set [] [JStr ''autoattach:*'']
          else
            (case attached variable_set [''relationships'', ''projects'', ''data''] of
               Inl e \<Rightarrow> Inl e
             | Inr True \<Rightarrow>
                 (case py_iter (kp_get variable_set [''relationships'', ''projects'', ''data'']) of
                    Inl e \<Rightarrow> Inl e
                  | Inr projects \<Rightarrow> context_copies x variable_set projects)
             | Inr False \<Rightarrow>
                 (case attached variable_set [''relationships'', ''workspaces'', ''data''] of
                    Inl e \<Rightarrow> Inl e
                  | Inr True \<Rightarrow>
                      (case py_iter (kp_get variable_set [''relationships'', ''workspaces'', ''data'']) of
                         Inl e \<Rightarrow> Inl e
                       | Inr workspaces \<Rightarrow>
                           (case stack_refs x workspaces of
                              Inl e \<Rightarrow> Inl e
                            | Inr stacks \<Rightarrow> single_context x variable_set stacks []))
                  | Inr False \<Rightarrow> Inr []))
      | _ \<Rightarrow> Inl AttributeError)"

fun map_contexts_loop :: "exporter \<Rightarrow> json list \<Rightarrow> pyerr + json list" where
  "map_contexts_loop x [] = Inr []"
| "map_contexts_loop x (variable_set # variable_sets) =
     (case map_context x variable_set of
        Inl e \<Rightarrow> Inl e
      | Inr contexts \<Rightarrow>
          (case map_contexts_loop x variable_sets of
             Inl e \<Rightarrow> Inl e
           | Inr data \<Rightarrow> Inr (contexts @ data)))"

text \<open>\<^verbatim>\<open>_map_contexts_data\<close>, lines 1447-1524.\<close>

definition map_contexts_data :: "exporter \<Rightarrow> json \<Rightarrow> pyerr + json list" where
  "map_contexts_data x src_data =
     (case py_iter (kp_get src_data [''variable_sets'']) of
        Inl e \<Rightarrow> Inl e
      | Inr variable_sets \<Rightarrow> map_contexts_loop x variable_sets)"

subsection \<open>An exporter to run the mapper with\<close>

text \<open>
  Stand-ins for the two libraries, exact on the inputs they are run on below:
  \<open>slugify_ascii\<close> is \<^verbatim>\<open>slugify\<close> on ASCII text without quotes, commas or
  character entities (lower case, every run of other characters than letters and digits
  becomes one hyphen, no hyphen at either end); \<open>semver_match_plain\<close> is
  \<^verbatim>\<open>semver.match\<close> on versions of the form MAJOR.MINOR.PATCH.
\<close>

definition lower :: "char \<Rightarrow> char" where
  "lower c =
     (case map_of (zip ''ABCDEFGHIJKLMNOPQRSTUVWXYZ'' ''abcdefghijklmnopqrstuvwxyz'') c of
        None \<Rightarrow> c | Some l \<Rightarrow> l)"

fun collapse :: "string \<Rightarrow> string" where
  "collapse (a # b # cs) =
     (if a = CHR ''-'' \<and> b = CHR ''-'' then collapse (b # cs) else a # collapse (b # cs))"
| "collapse cs = cs"

definition slugify_ascii :: "string \<Rightarrow> string" where
  "slugify_ascii text' =
     (let dashed = map (\<lambda>c. if lower c \<in> set ''abcdefghijklmnopqrstuvwxyz0123456789''
                              then lower c else CHR ''-'') text'
      in rev (dropWhile (\<lambda>c. c = CHR ''-'') (rev (dropWhile (\<lambda>c. c = CHR ''-'') (collapse dashed)))))"

definition digit_val :: "char \<Rightarrow> nat option" where
  "digit_val c = map_of (zip ''0123456789'' [0, 1, 2, 3, 4, 5, 6, 7, 8, 9]) c"

fun parse_digits :: "nat \<Rightarrow> string \<Rightarrow> nat option" where
  "parse_digits n [] = Some n"
| "parse_digits n (c # cs) =
     (case digit_val c of None \<Rightarrow> None | Some d \<Rightarrow> parse_digits (10 * n + d) cs)"

definition parse_number :: "string \<Rightarrow> nat option" where
  "parse_number s =
     (if s = [] \<or> (hd s = CHR ''0'' \<and> tl s \<noteq> []) then None else parse_digits 0 s)"

definition parse_version :: "string \<Rightarrow> (nat \<times> nat \<times> nat) option" where
  "parse_version s =
     (case map parse_number (split_on CHR ''.'' s) of
        [Some major, Some minor, Some patch] \<Rightarrow> Some (major, minor, patch)
      | _ \<Rightarrow> None)"

definition version_less :: "nat \<times> nat \<times> nat \<Rightarrow> nat \<times> nat \<times> nat \<Rightarrow> bool" where
  "version_less a b =
     (case (a, b) of
        ((a1, a2, a3), (b1, b2, b3)) \<Rightarrow>
          a1 < b1 \<or> (a1 = b1 \<and> (a2 < b2 \<or> (a2 = b2 \<and> a3 < b3))))"

definition compare_versions :: "string \<Rightarrow> string \<Rightarrow> string \<Rightarrow> pyerr + bool" where
  "compare_versions op v m =
     (case (parse_version v, parse_version m) of
        (Some a, Some b) \<Rightarrow>
          Inr (if op = ''>'' then version_less b a
               else if op = ''<'' then version_less a b
               else if op = ''>='' then \<not> version_less a b
               else if op = ''<='' then \<not> version_less b a
               else if op = ''=='' then a = b
               else a \<noteq> b)
      | _ \<Rightarrow> Inl ValueError)"

definition semver_match_plain :: "string \<Rightarrow> string \<Rightarrow> pyerr + bool" where
  "semver_match_plain version match_expr =
     (if take 2 match_expr \<in> set [''>='', ''<='', ''=='', ''!='']
      then compare_versions (take 2 match_expr) version (drop 2 match_expr)
      else if take 1 match_expr \<in> set [''>'', ''<'']
      then compare_versions (take 1 match_expr) version (drop 1 match_expr)
      else if match_expr \<noteq> [] \<and> hd match_expr \<in> set ''0123456789''
      then compare_versions ''=='' version match_expr
      else Inl ValueError)"

definition plain_exporter :: "bool \<Rightarrow> exporter" where
  "plain_exporter auto_fix =
     \<lparr> slugify = slugify_ascii, semver_match = semver_match_plain,
       auto_fix_variable_names = auto_fix \<rparr>"

text \<open>Source data to run the mapper on: workspaces and their variables, as extracted.\<close>

definition workspace_of :: "string \<Rightarrow> string \<Rightarrow> string \<Rightarrow> json" where
  "workspace_of workspace_id name version =
     JObj [(''attributes'',
              JObj [(''auto-apply'', JBool False), (''description'', JNull), (''name'', JStr name),
                    (''terraform-version'', JStr version),
                    (''vcs-repo'', JObj [(''branch'', JNull), (''identifier'', JNull),
                                         (''service-provider'', JNull)]),
                    (''working-directory'', JNull), (''tag-names'', JList [])]),
           (''id'', JStr workspace_id),
           (''relationships'',
              JObj [(''organization'', JObj [(''data'', JObj [(''id'', JStr ''org-a'')])]),
                    (''project'', JObj [(''data'', JObj [(''id'', JStr ''prj-1'')])])])]"

definition variable_of :: "string \<Rightarrow> string \<Rightarrow> string \<Rightarrow> bool \<Rightarrow> json" where
  "variable_of variable_id workspace_id key sensitive =
     JObj [(''attributes'',
              JObj [(''category'', JStr ''env''), (''description'', JNull), (''hcl'', JBool False),
                    (''key'', JStr key), (''sensitive'', JBool sensitive), (''value'', JNull)]),
           (''id'', JStr variable_id),
           (''relationships'', JObj [(''workspace'', JObj [(''data'', JObj [(''id'', JStr workspace_id)])])])]"

definition four_workspaces :: json where
  "four_workspaces =
     JObj [(''workspaces'',
              JList [workspace_of ''ws-1'' ''net'' ''latest'', workspace_of ''ws-2'' ''db'' ''~1.6.0'',
                     workspace_of ''ws-3'' ''app'' ''1.6.1'', workspace_of ''ws-4'' ''dns'' ''1.5.7'']),
           (''workspace_variables'', JList [])]"

definition secret_bad_name :: json where
  "secret_bad_name =
     JObj [(''workspaces'', JList [workspace_of ''ws-1'' ''net'' ''latest'']),
           (''workspace_variables'', JList [variable_of ''var-1'' ''ws-1'' ''bad-name'' True])]"

definition plain_bad_name :: json where
  "plain_bad_name =
     JObj [(''workspaces'', JList [workspace_of ''ws-1'' ''net'' ''latest'']),
           (''workspace_variables'', JList [variable_of ''var-1'' ''ws-1'' ''bad-name'' False])]"

definition variable_set_of :: "string \<Rightarrow> string \<Rightarrow> json \<Rightarrow> json \<Rightarrow> json" where
  "variable_set_of variable_set_id name projects workspaces =
     JObj [(''attributes'',
              JObj [(''description'', JStr ''shared settings''), (''global'', JBool False),
                    (''name'', JStr name)]),
           (''id'', JStr variable_set_id),
           (''relationships'',
              JObj [(''organization'', JObj [(''data'', JObj [(''id'', JStr ''org-a'')])]),
                    (''projects'', JObj [(''data'', projects)]),
                    (''workspaces'', JObj [(''data'', workspaces)])])]"

definition reference :: "string \<Rightarrow> string \<Rightarrow> json" where
  "reference type' ref_id = JObj [(''id'', JStr ref_id), (''type'', JStr type')]"

definition two_project_set :: json where
  "two_project_set =
     variable_set_of ''varset-1'' ''prod'' 
       (JList [reference ''projects'' ''prj-1'', reference ''projects'' ''prj-2'']) (JList [])"

definition workspace_level_set :: json where
  "workspace_level_set =
     variable_set_of ''varset-2'' ''dev'' (JList [])
       (JList [reference ''workspaces'' ''ws-1'', reference ''workspaces'' ''ws-2''])"

subsection \<open>The relationship expander\<close>

text \<open>
  \<^verbatim>\<open>_expand_relationships\<close>, lines 797-847, works on the mapped data: a dictionary
  from the name of a collection to the list of its records.  The dictionary is kept as
  the list of its items; as in every dictionary here, no key has a dot in it.
\<close>

type_synonym dataset = "(string \<times> json) list"

text \<open>
  Lines 801-802: \<^verbatim>\<open>if not type_.endswith("s"): type_ = f"{type_}s"\<close>.
\<close>

definition pluralize :: "string \<Rightarrow> string" where
  "pluralize type' = (if type' \<noteq> [] \<and> last type' = CHR ''s'' then type' else type' @ ''s'')"

text \<open>
  Lines 804-815: the first record with the \<^verbatim>\<open>_source_id\<close>, cloned and without its
  \<^verbatim>\<open>_relationships\<close>, or \<^verbatim>\<open>None\<close>.
\<close>

fun find_in :: "json \<Rightarrow> json list \<Rightarrow> pyerr + json" where
  "find_in ref_id [] = Inr JNull"
| "find_in ref_id (JObj kvs # src_data) =
     (if py_eq (kp_get (JObj kvs) [''_source_id'']) ref_id
      then Inr (JObj (AList.delete ''_relationships'' kvs))
      else find_in ref_id src_data)"
| "find_in ref_id (_ # src_data) = Inl AttributeError"

text \<open>
  \<^verbatim>\<open>find_entity\<close>, lines 798-815.  \<^verbatim>\<open>data.get(type_)\<close> is \<^verbatim>\<open>None\<close> when
  there is no such collection, and iterating over it is a \<^verbatim>\<open>TypeError\<close>.
\<close>

definition find_entity :: "dataset \<Rightarrow> string \<Rightarrow> json \<Rightarrow> pyerr + json" where
  "find_entity data type' ref_id =
     (case py_iter (case map_of data (pluralize type') of None \<Rightarrow> JNull | Some v \<Rightarrow> v) of
        Inl e \<Rightarrow> Inl e
      | Inr src_data \<Rightarrow> find_in ref_id src_data)"

text \<open>
  Line 823, the list comprehension, and lines 822-825, the two kinds of reference.
\<close>

fun find_entities :: "dataset \<Rightarrow> string \<Rightarrow> json list \<Rightarrow> pyerr + json list" where
  "find_entities data type' [] = Inr []"
| "find_entities data type' (ref_id # ids) =
     (case find_entity data type' ref_id of
        Inl e \<Rightarrow> Inl e
      | Inr entity \<Rightarrow>
          (case find_entities data type' ids of
             Inl e \<Rightarrow> Inl e
           | Inr entities \<Rightarrow> Inr (entity # entities)))"

fun expand_ids :: "dataset \<Rightarrow> string \<Rightarrow> json \<Rightarrow> pyerr + json" where
  "expand_ids data type' (JList ids) =
     (case find_entities data type' ids of Inl e \<Rightarrow> Inl e | Inr entities \<Rightarrow> Inr (JList entities))"
| "expand_ids data type' ids = find_entity data type' ids"

text \<open>
  Lines 821-825: the loop over the items of \<^verbatim>\<open>_relationships\<close>.
\<close>

fun expand_types :: "dataset \<Rightarrow> (string \<times> json) list \<Rightarrow> pyerr + (string \<times> json) list" where
  "expand_types data [] = Inr []"
| "expand_types data ((type', ids) # items) =
     (case expand_ids data type' ids of
        Inl e \<Rightarrow> Inl e
      | Inr entity \<Rightarrow>
          (case expand_types data items of
             Inl e \<Rightarrow> Inl e
           | Inr relationships \<Rightarrow> Inr ((type', entity) # relationships)))"

text \<open>
  Lines 819-829, the body of the loop of \<^verbatim>\<open>expand_relationship\<close>: the record with
  its relationships resolved in the data as they are now, and its migration id.
\<close>

definition expand_datum :: "exporter \<Rightarrow> dataset \<Rightarrow> json \<Rightarrow> pyerr + json" where
  "expand_datum x data datum =
     (case datum of
        JObj kvs \<Rightarrow>
          (case (if truthy (kp_get datum [''_relationships'']) then
                   (case kp_get datum [''_relationships''] of
                      JObj items \<Rightarrow> expand_types data items
                    | _ \<Rightarrow> Inl AttributeError)
                 else Inr []) of
             Inl e \<Rightarrow> Inl e
           | Inr relationships \<Rightarrow>
               (case generate_migration_id x [kp_get datum [''name'']] of
                  Inl e \<Rightarrow> Inl e
                | Inr migration_id \<Rightarrow>
                    Inr (JObj (AList.update ''_relationships'' (JObj relationships)
                                (AList.update ''_migration_id'' (JStr migration_id) kvs)))))
      | _ \<Rightarrow> Inl AttributeError)"

text \<open>
  \<^verbatim>\<open>expand_relationship\<close>, lines 817-829.  The records are updated in place, one after
  the other, so a record that is looked up later is found as it is then:
  \<open>expand_from x entity_type i n\<close> updates the \<open>n\<close> records from index \<open>i\<close> on.
\<close>

fun expand_from :: "exporter \<Rightarrow> string \<Rightarrow> nat \<Rightarrow> nat \<Rightarrow> dataset \<Rightarrow> pyerr + dataset" where
  "expand_from x entity_type i 0 data = Inr data"
| "expand_from x entity_type i (Suc n) data =
     (case map_of data entity_type of
        Some (JList entity_data) \<Rightarrow>
          (case expand_datum x data (entity_data ! i) of
             Inl e \<Rightarrow> Inl e
           | Inr datum \<Rightarrow>
               expand_from x entity_type (Suc i) n
                 (AList.update entity_type (JList (entity_data[i := datum])) data))
      | _ \<Rightarrow> Inl TypeError)"

definition expand_relationship :: "exporter \<Rightarrow> string \<Rightarrow> dataset \<Rightarrow> pyerr + dataset" where
  "expand_relationship x entity_type data =
     (case map_of data entity_type of
        Some (JList entity_data) \<Rightarrow> expand_from x entity_type 0 (length entity_data) data
      | Some entity_data \<Rightarrow>
          (case py_iter entity_data of
             Inl e \<Rightarrow> Inl e
           | Inr items \<Rightarrow> if items = [] then Inr data else Inl AttributeError)
      | None \<Rightarrow> Inr data)"

text \<open>
  Lines 833-838: the loop over the collections, in the order of the dictionary, without
  the contexts and the context variables.
\<close>

fun expand_all :: "exporter \<Rightarrow> string list \<Rightarrow> dataset \<Rightarrow> pyerr + dataset" where
  "expand_all x [] data = Inr data"
| "expand_all x (entity_type # entity_types) data =
     (if entity_type \<in> set [''contexts'', ''context_variables'']
      then expand_all x entity_types data
      else
        (case expand_relationship x entity_type data of
           Inl e \<Rightarrow> Inl e
         | Inr data' \<Rightarrow> expand_all x entity_types data'))"

definition expand_relationships :: "exporter \<Rightarrow> dataset \<Rightarrow> pyerr + dataset" where
  "expand_relationships x data = expand_all x (map fst data) data"

text \<open>
  Mapped data to run the expander on: a stack in a space that exists and one in a space
  that does not, and a variable with a list of references.
\<close>

definition small_graph :: dataset where
  "small_graph =
     [(''spaces'', JList [JObj [(''_source_id'', JStr ''org-a''), (''name'', JStr ''org-a'')],
                          JObj [(''_source_id'', JStr ''prj-1''), (''name'', JStr ''prod'')]]),
      (''contexts'', JList []),
      (''context_variables'', JList []),
      (''stacks'', JList [JObj [(''_relationships'', JObj [(''space'', JStr ''prj-1'')]),
                                (''_source_id'', JStr ''ws-1''), (''name'', JStr ''net'')],
                          JObj [(''_relationships'', JObj [(''space'', JStr ''prj-9'')]),
                                (''_source_id'', JStr ''ws-2''), (''name'', JStr ''db'')]]),
      (''modules'', JList []),
      (''stack_variables'',
         JList [JObj [(''_relationships'', JObj [(''space'', JStr ''prj-1''), (''stack'', JList [JStr ''ws-1'', JStr ''ws-3''])]),
                      (''_source_id'', JStr ''var-1''), (''name'', JStr ''dev'')]])]"


text \<open>
  What the specification says of a resolved reference: it is \<^verbatim>\<open>null\<close> when no record of
  the target collection has the id as its \<^verbatim>\<open>_source_id\<close>, and otherwise a record with
  that \<^verbatim>\<open>_source_id\<close> and without \<^verbatim>\<open>_relationships\<close>; a list of references is
  resolved one by one, in order.
\<close>

definition is_record :: "json \<Rightarrow> bool" where
  "is_record datum = (case datum of JObj kvs \<Rightarrow> True | _ \<Rightarrow> False)"

definition has_source_id :: "json \<Rightarrow> json list \<Rightarrow> bool" where
  "has_source_id ref_id collection =
     list_ex (\<lambda>s. py_eq s ref_id) (map (\<lambda>d. kp_get d [''_source_id'']) collection)"

definition resolves :: "json list \<Rightarrow> json \<Rightarrow> json \<Rightarrow> bool" where
  "resolves collection ref_id r =
     (if has_source_id ref_id collection then
        (case r of
           JObj kvs \<Rightarrow> py_eq (kp_get r [''_source_id'']) ref_id \<and> map_of kvs ''_relationships'' = None
         | _ \<Rightarrow> False)
      else r = JNull)"

definition target :: "dataset \<Rightarrow> string \<Rightarrow> json list" where
  "target data type' =
     (case map_of data (pluralize type') of Some (JList collection) \<Rightarrow> collection | _ \<Rightarrow> [])"

fun resolved :: "dataset \<Rightarrow> string \<Rightarrow> json \<Rightarrow> json \<Rightarrow> bool" where
  "resolved data type' (JList ids) r =
     (case r of JList rs \<Rightarrow> list_all2 (resolves (target data type')) ids rs | _ \<Rightarrow> False)"
| "resolved data type' ref_id r = resolves (target data type') ref_id r"

text \<open>
  The references of a record, and the data the expander is run on: the names of the
  collections are distinct, every collection is a list of records, and in the
  collections that are expanded every record has a string as its name and references
  to collections that exist.
\<close>

definition references :: "json \<Rightarrow> (string \<times> json) list" where
  "references datum = (case kp_get datum [''_relationships''] of JObj items \<Rightarrow> items | _ \<Rightarrow> [])"

definition record_ok :: "dataset \<Rightarrow> json \<Rightarrow> bool" where
  "record_ok data datum =
     (is_record datum
      \<and> (case kp_get datum [''name''] of JStr name \<Rightarrow> True | _ \<Rightarrow> False)
      \<and> (case kp_get datum [''_relationships''] of
            JObj items \<Rightarrow>
              distinct (map fst items)
              \<and> list_all (\<lambda>item. pluralize (fst item) \<in> set (map fst data)) items
          | r \<Rightarrow> \<not> truthy r))"

definition collection_ok :: "json \<Rightarrow> bool" where
  "collection_ok v = (case v of JList collection \<Rightarrow> list_all is_record collection | _ \<Rightarrow> False)"

definition well_formed :: "dataset \<Rightarrow> bool" where
  "well_formed data =
     (distinct (map fst data)
      \<and> list_all (\<lambda>entry. collection_ok (snd entry)) data
      \<and> list_all (\<lambda>entry. fst entry \<in> set [''contexts'', ''context_variables'']
                     \<or> (case snd entry of JList collection \<Rightarrow> list_all (record_ok data) collection
                         | _ \<Rightarrow> False)) data)"

text \<open>
  What stays true while the records are updated one after the other: the collections
  keep their names, and their records keep their \<^verbatim>\<open>_source_id\<close>.  A record is
  \<open>expanded\<close> when it has its migration id and every reference of the record it was is
  resolved.
\<close>

definition same_ids :: "json \<Rightarrow> json \<Rightarrow> bool" where
  "same_ids v0 v =
     (case (v0, v) of
        (JList ds0, JList ds) \<Rightarrow>
          list_all is_record ds
          \<and> map (\<lambda>d. kp_get d [''_source_id'']) ds = map (\<lambda>d. kp_get d [''_source_id'']) ds0
      | _ \<Rightarrow> False)"

definition keeps_ids :: "dataset \<Rightarrow> dataset \<Rightarrow> bool" where
  "keeps_ids data0 data =
     (map fst data = map fst data0
      \<and> (\<forall>c v0. map_of data0 c = Some v0 \<longrightarrow> (\<exists>v. map_of data c = Some v \<and> same_ids v0 v)))"

definition expanded :: "exporter \<Rightarrow> dataset \<Rightarrow> json \<Rightarrow> json \<Rightarrow> bool" where
  "expanded x data0 d0 d =
     (is_record d
      \<and> kp_get d [''_source_id''] = kp_get d0 [''_source_id'']
      \<and> kp_get d [''name''] = kp_get d0 [''name'']
      \<and> (case generate_migration_id x [kp_get d0 [''name'']] of
            Inl e \<Rightarrow> False
          | Inr migration_id \<Rightarrow> kp_get d [''_migration_id''] = JStr migration_id)
      \<and> list_all (\<lambda>item. resolved data0 (fst item) (snd item) (kp_get d [''_relationships'', fst item]))
           (references d0))"

definition expansion_of :: "exporter \<Rightarrow> dataset \<Rightarrow> dataset \<Rightarrow> string \<Rightarrow> bool" where
  "expansion_of x data0 data' c =
     (case (map_of data0 c, map_of data' c) of
        (Some (JList ds0), Some (JList ds')) \<Rightarrow> list_all2 (expanded x data0) ds0 ds'
      | _ \<Rightarrow> False)"

text \<open>
  The contexts of \<open>two_project_set\<close>, and \<open>small_graph\<close> with its relationships expanded.
\<close>

definition two_project_contexts :: "json list" where
  "two_project_contexts =
     [JObj
        [(''_migration_id'', JStr ''varset_1''),
         (''_relationships'',
            JObj [(''space'', JObj [(''_migration_id'', JStr ''prj_1'')]), (''stacks'', JList [])]),
         (''_source_id'', JStr ''prj-1_varset-1''),
         (''description'', JStr ''shared settings''),
         (''labels'', JList [JStr ''autoattach:*'']),
         (''name'', JStr ''prod'')],
      JObj
        [(''_migration_id'', JStr ''varset_1''),
         (''_relationships'',
            JObj [(''space'', JObj [(''_migration_id'', JStr ''prj_2'')]), (''stacks'', JList [])]),
         (''_source_id'', JStr ''prj-2_varset-1''),
         (''description'', JStr ''shared settings''),
         (''labels'', JList [JStr ''autoattach:*'']),
         (''name'', JStr ''prod'')]]"

definition small_graph_expanded :: dataset where
  "small_graph_expanded =
     [(''spaces'',
         JList [JObj [(''_source_id'', JStr ''org-a''), (''name'', JStr ''org-a''),
                      (''_migration_id'', JStr ''org_a''), (''_relationships'', JObj [])],
                JObj [(''_source_id'', JStr ''prj-1''), (''name'', JStr ''prod''),
                      (''_migration_id'', JStr ''prod''), (''_relationships'', JObj [])]]),
      (''contexts'', JList []),
      (''context_variables'', JList []),
      (''stacks'',
         JList [JObj [(''_relationships'',
                         JObj [(''space'', JObj [(''_source_id'', JStr ''prj-1''), (''name'', JStr ''prod''),
                                                 (''_migration_id'', JStr ''prod'')])]),
                      (''_source_id'', JStr ''ws-1''), (''name'', JStr ''net''),
                      (''_migration_id'', JStr ''net'')],
                JObj [(''_relationships'', JObj [(''space'', JNull)]),
                      (''_source_id'', JStr ''ws-2''), (''name'', JStr ''db''),
                      (''_migration_id'', JStr ''db'')]]),
      (''modules'', JList []),
      (''stack_variables'',
         JList [JObj [(''_relationships'',
                         JObj [(''space'', JObj [(''_source_id'', JStr ''prj-1''), (''name'', JStr ''prod''),
                                                 (''_migration_id'', JStr ''prod'')]),
                               (''stack'',
                                  JList [JObj [(''_source_id'', JStr ''ws-1''), (''name'', JStr ''net''),
                                               (''_migration_id'', JStr ''net'')],
                                         JNull])]),
                      (''_source_id'', JStr ''var-1''), (''name'', JStr ''dev''),
                      (''_migration_id'', JStr ''dev'')]])]"

subsection \<open>The remote system the enrichment changes\<close>

text \<open>
  The enrichment of the workspace variables, \<^verbatim>\<open>_enrich_workspace_variable_data\<close>
  (lines 586-783), changes the remote system: it creates an agent pool and a container,
  and repoints workspaces at the pool.  The remote system is a state: the settings of
  each workspace that the code backs up and restores (\<^verbatim>\<open>execution-mode\<close>,
  \<^verbatim>\<open>setting-overwrites\<close>, the \<^verbatim>\<open>agent-pool\<close> relationship), the agent pools and the
  containers that exist, and the trace of the calls made, each with its outcome.
\<close>

record settings =
  execution_mode :: json
  setting_overwrites :: json
  agent_pool :: json

text \<open>
  The places a call is made from; the two restorations of a workspace are lines 758 and
  773.  The places from \<open>ListProjects\<close> on are those of the enrichment of the variable
  sets, \<^verbatim>\<open>_enrich_variable_set_data\<close> (lines 326-582), which makes the other calls as
  well; its two restorations of a variable set are lines 550 and 573.
\<close>

datatype site =
    CreatePool
  | CreateToken
  | DockerRun
  | Backup string
  | Repoint string
  | TriggerPlan string
  | ReadLog string
  | Restore string
  | PullLogs
  | RestoreFinally string
  | StopContainer
  | DeletePool
  | ListProjects
  | CreateWorkspace
  | PushConfiguration
  | BackupVarSet string
  | AttachVarSet string
  | PlanVarSet string
  | ReadVarSetLog string
  | ResetVarSet string
  | DeleteWorkspace string
  | ResetFinally string

record world =
  settings_of :: "string \<Rightarrow> settings option"
  pools :: "string list"
  containers :: "string list"
  trace :: "(site \<times> bool) list"

text \<open>One answer to \<^verbatim>\<open>GET /plans/{id}\<close>: an error, no data, or the plan.\<close>

datatype poll =
    PollError
  | PollEmpty
  | Plan json

text \<open>
  What the remote system decides: which calls fail (a call that fails raises and changes
  nothing), the id of a new agent pool, whether the container is seen running at the
  \<open>n\<close>-th look, the run and the plan that a workspace's plan request gives (\<open>None\<close> for a
  response without run data), the answers to the successive requests for a plan, and the
  log file of a run (\<open>None\<close> when there is no such file).
\<close>

record remote =
  fails :: "site \<Rightarrow> bool"
  new_pool :: string
  agent_seen :: "nat \<Rightarrow> bool"
  run_of :: "string \<Rightarrow> (string \<times> string) option"
  plan_polls :: "string \<Rightarrow> poll list"
  log_file :: "string \<Rightarrow> string option"

definition call :: "remote \<Rightarrow> site \<Rightarrow> 'a world_scheme \<Rightarrow> bool \<times> 'a world_scheme" where
  "call env s w = (\<not> fails env s, w\<lparr>trace := trace w @ [(s, \<not> fails env s)]\<rparr>)"

text \<open>\<^verbatim>\<open>_create_agent_pool\<close>, lines 223-242.\<close>

definition create_agent_pool ::
  "remote \<Rightarrow> 'a world_scheme \<Rightarrow> (pyerr + string) \<times> 'a world_scheme" where
  "create_agent_pool env w =
     (case call env CreatePool w of
        (False, w') \<Rightarrow> (Inl RuntimeError, w')
      | (True, w') \<Rightarrow> (Inr (new_pool env), w'\<lparr>pools := pools w' @ [new_pool env]\<rparr>))"

text \<open>
  The loop of lines 1853-1865: it looks for the running container and gives up when
  \<^verbatim>\<open>attempts\<close> has passed 10, also when the container has just been found.
\<close>

function agent_started :: "(nat \<Rightarrow> bool) \<Rightarrow> nat \<Rightarrow> bool" where
  "agent_started seen attempts =
     (let found = seen attempts; attempts' = attempts + 1
      in if attempts' > 10 then False
         else if found then True
         else agent_started seen attempts')"
  by pat_completeness auto
termination
  by (relation "measure (\<lambda>(seen, attempts). 11 - attempts)") auto

text \<open>\<^verbatim>\<open>_start_agent_container\<close>, lines 1836-1869.\<close>

definition start_agent_container ::
  "remote \<Rightarrow> string \<Rightarrow> 'a world_scheme \<Rightarrow> (pyerr + string) \<times> 'a world_scheme" where
  "start_agent_container env container_name w =
     (case call env CreateToken w of
        (False, w1) \<Rightarrow> (Inl RuntimeError, w1)
      | (True, w1) \<Rightarrow>
          (case call env DockerRun w1 of
             (False, w2) \<Rightarrow> (Inl RuntimeError, w2)
           | (True, w2) \<Rightarrow>
               (let w3 = w2\<lparr>containers := containers w2 @ [container_name]\<rparr>
                in if agent_started (agent_seen env) 0 then (Inr container_name, w3)
                   else (Inl AgentStartError, w3))))"

text \<open>Lines 670-679: the backup of the settings of a workspace.\<close>

definition backup_workspace :: "remote \<Rightarrow> string \<Rightarrow> world \<Rightarrow> (pyerr + settings) \<times> world" where
  "backup_workspace env workspace_id w =
     (case call env (Backup workspace_id) w of
        (False, w') \<Rightarrow> (Inl RuntimeError, w')
      | (True, w') \<Rightarrow>
          (case settings_of w' workspace_id of
             None \<Rightarrow> (Inl IndexError, w')
           | Some s \<Rightarrow> (Inr s, w')))"

text \<open>Lines 682-695: the workspace is pointed at the agent pool.\<close>

definition repoint_workspace ::
  "remote \<Rightarrow> string \<Rightarrow> string \<Rightarrow> 'a world_scheme \<Rightarrow> pyerr option \<times> 'a world_scheme" where
  "repoint_workspace env agent_pool_id workspace_id w =
     (case call env (Repoint workspace_id) w of
        (False, w') \<Rightarrow> (Some RuntimeError, w')
      | (True, w') \<Rightarrow>
          (None,
           w'\<lparr>settings_of := (settings_of w')(workspace_id \<mapsto>
                \<lparr>execution_mode = JStr ''agent'',
                 setting_overwrites = JObj [(''execution-mode'', JBool True), (''agent-pool'', JBool True)],
                 agent_pool = JStr agent_pool_id\<rparr>)\<rparr>))"

text \<open>
  Lines 699-722: the plan request.  A response without run data is a
  \<^verbatim>\<open>TerraformExporterPlanError\<close>.
\<close>

definition trigger_plan :: "remote \<Rightarrow> string \<Rightarrow> world \<Rightarrow> (pyerr + string \<times> string) \<times> world" where
  "trigger_plan env workspace_id w =
     (case call env (TriggerPlan workspace_id) w of
        (False, w') \<Rightarrow> (Inl RuntimeError, w')
      | (True, w') \<Rightarrow>
          (case run_of env workspace_id of
             None \<Rightarrow> (Inl TerraformExporterPlanError, w')
           | Some run \<Rightarrow> (Inr run, w')))"

text \<open>
  \<^verbatim>\<open>_get_plan\<close>, lines 1332-1350, over the answers the server gives one after the
  other.  The loop has no bound: when the answers end without a final status, it has
  not returned, which is \<open>None\<close>.
\<close>

fun get_plan :: "poll list \<Rightarrow> (pyerr + json) option" where
  "get_plan [] = None"
| "get_plan (PollError # polls) = Some (Inl RuntimeError)"
| "get_plan (PollEmpty # polls) = Some (Inl IndexError)"
| "get_plan (Plan data # polls) =
     (if kp_get data [''attributes'', ''status''] \<in> set [JStr ''errored'', JStr ''finished'']
      then Some (Inr data)
      else if kp_get data [''attributes'', ''status''] \<in> set [JStr ''canceled'', JStr ''unreachable'']
      then Some (Inr (JObj []))
      else get_plan polls)"

text \<open>
  \<^verbatim>\<open>_restore_workspace_exec_mode\<close>, lines 1871-1889, called from \<open>s\<close>: a \<^verbatim>\<open>PATCH\<close> with
  the values of the backup.
\<close>

definition restore_workspace_exec_mode ::
  "remote \<Rightarrow> site \<Rightarrow> string \<Rightarrow> settings \<Rightarrow> world \<Rightarrow> pyerr option \<times> world" where
  "restore_workspace_exec_mode env s workspace_id workspace_data_backup w =
     (case call env s w of
        (False, w') \<Rightarrow> (Some RuntimeError, w')
      | (True, w') \<Rightarrow>
          (None, w'\<lparr>settings_of := (settings_of w')(workspace_id \<mapsto> workspace_data_backup)\<rparr>))"

text \<open>\<^verbatim>\<open>_stop_agent_container\<close>, lines 1891-1896; the container removes itself when it stops.\<close>

definition stop_agent_container ::
  "remote \<Rightarrow> string \<Rightarrow> 'a world_scheme \<Rightarrow> pyerr option \<times> 'a world_scheme" where
  "stop_agent_container env container w =
     (case call env StopContainer w of
        (False, w') \<Rightarrow> (Some RuntimeError, w')
      | (True, w') \<Rightarrow> (None, w'\<lparr>containers := removeAll container (containers w')\<rparr>))"

text \<open>\<^verbatim>\<open>_delete_agent_pool\<close>, lines 266-271, as a change of the remote system.\<close>

definition remove_agent_pool ::
  "remote \<Rightarrow> string \<Rightarrow> 'a world_scheme \<Rightarrow> pyerr option \<times> 'a world_scheme" where
  "remove_agent_pool env pool_id w =
     (case call env DeletePool w of
        (False, w') \<Rightarrow> (Some RuntimeError, w')
      | (True, w') \<Rightarrow> (None, w'\<lparr>pools := removeAll pool_id (pools w')\<rparr>))"

subsection \<open>The plan log\<close>

text \<open>
  The record with the id in a list of records, changed by \<open>f\<close>: \<open>None\<close> when there is
  none (\<^verbatim>\<open>find_variable\<close> and \<^verbatim>\<open>find_workspace\<close>, lines 587-603, then an assignment).
\<close>

fun update_found :: "json \<Rightarrow> (json \<Rightarrow> json) \<Rightarrow> json list \<Rightarrow> pyerr + json list option" where
  "update_found ref_id f [] = Inr None"
| "update_found ref_id f (JObj kvs # ds) =
     (if py_eq (kp_get (JObj kvs) [''id'']) ref_id then Inr (Some (f (JObj kvs) # ds))
      else
        (case update_found ref_id f ds of
           Inl e \<Rightarrow> Inl e
         | Inr None \<Rightarrow> Inr None
         | Inr (Some ds') \<Rightarrow> Inr (Some (JObj kvs # ds'))))"
| "update_found ref_id f (_ # ds) = Inl AttributeError"

definition update_in :: "json \<Rightarrow> string \<Rightarrow> json \<Rightarrow> (json \<Rightarrow> json) \<Rightarrow> pyerr + json option" where
  "update_in data collection ref_id f =
     (case py_iter (kp_get data [collection]) of
        Inl e \<Rightarrow> Inl e
      | Inr ds \<Rightarrow>
          (case update_found ref_id f ds of
             Inl e \<Rightarrow> Inl e
           | Inr None \<Rightarrow> Inr None
           | Inr (Some ds') \<Rightarrow> Inr (Some (kp_set data [collection] (JList ds')))))"

text \<open>
  Lines 737-756, for one line of the log and the variables that are left: a line that
  starts with the name of a variable and \<^verbatim>\<open>=\<close> gives the variable its value, and a line
  with the branch gives the workspace its branch when it has none.  The result is the
  exception raised, if any, and the data as they are then.
\<close>

fun scan_line :: "string \<Rightarrow> string \<Rightarrow> (string \<times> string) list \<Rightarrow> json \<Rightarrow> pyerr option \<times> json" where
  "scan_line workspace_id line [] data = (None, data)"
| "scan_line workspace_id line ((workspace_variable_id, workspace_variable_name) # workspace_variables) data =
     (let prefix = workspace_variable_name @ ''=''
      in case (if startswith line prefix then
                 (case update_in data ''workspace_variables'' (JStr workspace_variable_id)
                         (\<lambda>variable. kp_set variable [''attributes'', ''value'']
                                        (JStr (drop (length prefix) line))) of
                    Inl e \<Rightarrow> Inl e
                  | Inr None \<Rightarrow> Inl TypeError
                  | Inr (Some data') \<Rightarrow> Inr data')
               else Inr data) of
           Inl e \<Rightarrow> (Some e, data)
         | Inr data1 \<Rightarrow>
             (case (if startswith line ''ATLAS_CONFIGURATION_VERSION_GITHUB_BRANCH='' then
                      (case update_in data1 ''workspaces'' (JStr workspace_id)
                              (\<lambda>workspace.
                                 if truthy workspace
                                    \<and> \<not> truthy (kp_get workspace [''attributes'', ''vcs-repo'', ''branch''])
                                 then kp_set workspace [''attributes'', ''vcs-repo'', ''branch'']
                                        (JStr (drop (length ''ATLAS_CONFIGURATION_VERSION_GITHUB_BRANCH='') line))
                                 else workspace) of
                         Inl e \<Rightarrow> Inl e
                       | Inr None \<Rightarrow> Inr data1
                       | Inr (Some data') \<Rightarrow> Inr data')
                    else Inr data1) of
                Inl e \<Rightarrow> (Some e, data1)
              | Inr data2 \<Rightarrow> scan_line workspace_id line workspace_variables data2))"

fun scan_lines :: "string \<Rightarrow> string list \<Rightarrow> (string \<times> string) list \<Rightarrow> json \<Rightarrow> pyerr option \<times> json" where
  "scan_lines workspace_id [] workspace_variables data = (None, data)"
| "scan_lines workspace_id (line # lines) workspace_variables data =
     (case scan_line workspace_id line workspace_variables data of
        (Some e, data') \<Rightarrow> (Some e, data')
      | (None, data') \<Rightarrow> scan_lines workspace_id lines workspace_variables data')"

text \<open>Lines 729-756: the log is read and scanned when the plan has a log.\<close>

definition scan_plan_log ::
  "remote \<Rightarrow> string \<Rightarrow> string \<Rightarrow> (string \<times> string) list \<Rightarrow> json \<Rightarrow> json \<Rightarrow> world
     \<Rightarrow> pyerr option \<times> json \<times> world" where
  "scan_plan_log env run_id workspace_id workspace_variables plan_data data w =
     (if truthy (kp_get plan_data [''attributes'', ''log-read-url'']) then
        (case call env (ReadLog workspace_id) w of
           (False, w') \<Rightarrow> (Some OSError, data, w')
         | (True, w') \<Rightarrow>
             (case log_file env run_id of
                None \<Rightarrow> (Some OSError, data, w')
              | Some logs_data \<Rightarrow>
                  (case scan_lines workspace_id (split_on CHR 0x0A logs_data) workspace_variables data of
                     (e, data') \<Rightarrow> (e, data', w'))))
      else (None, data, w))"

subsection \<open>The saga\<close>

text \<open>The variables of lines 639-643, which the \<^verbatim>\<open>finally\<close> block reads.\<close>

record locals =
  agent_pool_id :: "string option"
  agent_container :: "string option"
  current_workspace_id :: "string option"
  workspace_data_backup :: "settings option"
  restored_agent :: bool

text \<open>
  Lines 669-759, what is done with a workspace that has a configuration: backup,
  repoint, plan, log, restoration.  The result is the exception that ends the \<^verbatim>\<open>try\<close>
  block, if any, with the variables, the data and the remote system as they are then;
  it is \<open>None\<close> when the wait for the plan does not end.
\<close>

definition recover_values ::
  "remote \<Rightarrow> string \<Rightarrow> string \<Rightarrow> (string \<times> string) list \<Rightarrow> locals \<Rightarrow> json \<Rightarrow> world
     \<Rightarrow> (pyerr option \<times> locals \<times> json \<times> world) option" where
  "recover_values env pool_id workspace_id workspace_variables st data w =
     (case backup_workspace env workspace_id w of
        (Inl e, w1) \<Rightarrow> Some (Some e, st, data, w1)
      | (Inr backup, w1) \<Rightarrow>
          (let st1 = st\<lparr>workspace_data_backup := Some backup\<rparr>
           in case repoint_workspace env pool_id workspace_id w1 of
                (Some e, w2) \<Rightarrow> Some (Some e, st1, data, w2)
              | (None, w2) \<Rightarrow>
                  (let st2 = st1\<lparr>restored_agent := False\<rparr>
                   in case trigger_plan env workspace_id w2 of
                        (Inl e, w3) \<Rightarrow> Some (Some e, st2, data, w3)
                      | (Inr (run_id, plan_id), w3) \<Rightarrow>
                          (case get_plan (plan_polls env plan_id) of
                             None \<Rightarrow> None
                           | Some (Inl e) \<Rightarrow> Some (Some e, st2, data, w3)
                           | Some (Inr plan_data) \<Rightarrow>
                               (case scan_plan_log env run_id workspace_id workspace_variables
                                       plan_data data w3 of
                                  (Some e, data', w4) \<Rightarrow> Some (Some e, st2, data', w4)
                                | (None, data', w4) \<Rightarrow>
                                    (case restore_workspace_exec_mode env (Restore workspace_id)
                                            workspace_id backup w4 of
                                       (Some e, w5) \<Rightarrow> Some (Some e, st2, data', w5)
                                     | (None, w5) \<Rightarrow>
                                         Some (None, st2\<lparr>restored_agent := True\<rparr>, data', w5)))))))"

text \<open>
  The body of the loop over the workspaces, lines 658-759: a workspace without a current
  configuration is passed over.
\<close>

definition enrich_workspace ::
  "remote \<Rightarrow> string \<Rightarrow> string \<Rightarrow> (string \<times> string) list \<Rightarrow> locals \<Rightarrow> json \<Rightarrow> world
     \<Rightarrow> (pyerr option \<times> locals \<times> json \<times> world) option" where
  "enrich_workspace env pool_id workspace_id workspace_variables st0 data w =
     (let st = st0\<lparr>current_workspace_id := Some workspace_id\<rparr>
      in case find_workspace data (JStr workspace_id) of
           Inl e \<Rightarrow> Some (Some e, st, data, w)
         | Inr workspace \<Rightarrow>
             if workspace = JNull then Some (Some AttributeError, st, data, w)
             else if kp_get workspace [''relationships'', ''current-configuration-version'', ''data'', ''id''] = JNull
             then Some (None, st, data, w)
             else recover_values env pool_id workspace_id workspace_variables st data w)"

fun enrich_workspaces ::
  "remote \<Rightarrow> string \<Rightarrow> (string \<times> (string \<times> string) list) list \<Rightarrow> locals \<Rightarrow> json \<Rightarrow> world
     \<Rightarrow> (pyerr option \<times> locals \<times> json \<times> world) option" where
  "enrich_workspaces env pool_id [] st data w = Some (None, st, data, w)"
| "enrich_workspaces env pool_id ((workspace_id, workspace_variables) # workspaces) st data w =
     (case enrich_workspace env pool_id workspace_id workspace_variables st data w of
        None \<Rightarrow> None
      | Some (Some e, st', data', w') \<Rightarrow> Some (Some e, st', data', w')
      | Some (None, st', data', w') \<Rightarrow> enrich_workspaces env pool_id workspaces st' data' w')"

text \<open>The \<^verbatim>\<open>try\<close> block, lines 645-768, for one organization and its workspaces.\<close>

definition try_block ::
  "remote \<Rightarrow> string \<Rightarrow> (string \<times> (string \<times> string) list) list \<Rightarrow> json \<Rightarrow> world
     \<Rightarrow> (pyerr option \<times> locals \<times> json \<times> world) option" where
  "try_block env organization_id workspaces data w =
     (let st = \<lparr>agent_pool_id = None, agent_container = None, current_workspace_id = None,
                 workspace_data_backup = None, restored_agent = True\<rparr>
      in case create_agent_pool env w of
           (Inl e, w1) \<Rightarrow> Some (Some e, st, data, w1)
         | (Inr pool_id, w1) \<Rightarrow>
             (let st1 = st\<lparr>agent_pool_id := Some pool_id\<rparr>
              in case start_agent_container env (''smk-tfc-agent-'' @ organization_id) w1 of
                   (Inl e, w2) \<Rightarrow> Some (Some e, st1, data, w2)
                 | (Inr container, w2) \<Rightarrow>
                     (let st2 = st1\<lparr>agent_container := Some container\<rparr>
                      in case enrich_workspaces env pool_id workspaces st2 data w2 of
                           None \<Rightarrow> None
                         | Some (Some e, st3, data', w3) \<Rightarrow> Some (Some e, st3, data', w3)
                         | Some (None, st3, data', w3) \<Rightarrow>
                             (case call env PullLogs w3 of
                                (False, w4) \<Rightarrow> Some (Some RuntimeError, st3, data', w4)
                              | (True, w4) \<Rightarrow> Some (None, st3, data', w4)))))"

text \<open>
  The \<^verbatim>\<open>finally\<close> block, lines 769-779.  Its statements are not guarded: the first one
  that raises ends the block.
\<close>

definition finally_block :: "remote \<Rightarrow> locals \<Rightarrow> world \<Rightarrow> pyerr option \<times> world" where
  "finally_block env st w =
     (case (if \<not> restored_agent st then
              (case (current_workspace_id st, workspace_data_backup st) of
                 (Some workspace_id, Some backup) \<Rightarrow>
                   restore_workspace_exec_mode env (RestoreFinally workspace_id) workspace_id backup w
               | _ \<Rightarrow> (Some AttributeError, w))
            else (None, w)) of
        (Some e, w1) \<Rightarrow> (Some e, w1)
      | (None, w1) \<Rightarrow>
          (case (case agent_container st of
                   Some container \<Rightarrow> stop_agent_container env container w1
                 | None \<Rightarrow> (None, w1)) of
             (Some e, w2) \<Rightarrow> (Some e, w2)
           | (None, w2) \<Rightarrow>
               (case agent_pool_id st of
                  Some pool_id \<Rightarrow>
                    if pool_id \<noteq> [] then remove_agent_pool env pool_id w2 else (None, w2)
                | None \<Rightarrow> (None, w2))))"

text \<open>
  \<^verbatim>\<open>try\<close> and \<^verbatim>\<open>finally\<close> together: an exception of the \<^verbatim>\<open>finally\<close> block is the one
  that leaves the statement; without one, the exception of the \<^verbatim>\<open>try\<close> block does.
\<close>

definition enrich_organization ::
  "remote \<Rightarrow> string \<Rightarrow> (string \<times> (string \<times> string) list) list \<Rightarrow> json \<Rightarrow> world
     \<Rightarrow> (pyerr option \<times> json \<times> world) option" where
  "enrich_organization env organization_id workspaces data w =
     (case try_block env organization_id workspaces data w of
        None \<Rightarrow> None
      | Some (raised, st, data', w1) \<Rightarrow>
          (case finally_block env st w1 of
             (Some e, w2) \<Rightarrow> Some (Some e, data', w2)
           | (None, w2) \<Rightarrow> Some (raised, data', w2)))"


subsection \<open>What a saga leaves behind\<close>

text \<open>
  In a trace: the restorations issued for a workspace, and the mutations applied to it.
\<close>

definition restorations :: "string \<Rightarrow> (site \<times> bool) list \<Rightarrow> nat" where
  "restorations workspace_id tr =
     length (filter (\<lambda>c. fst c = Restore workspace_id \<or> fst c = RestoreFinally workspace_id) tr)"

definition mutations :: "string \<Rightarrow> (site \<times> bool) list \<Rightarrow> nat" where
  "mutations workspace_id tr = length (filter (\<lambda>c. c = (Repoint workspace_id, True)) tr)"

text \<open>
  \<open>quiet w w'\<close>: from \<open>w\<close> to \<open>w'\<close> nothing has changed but the trace, and in the trace
  neither the restorations nor the mutations.
\<close>

definition quiet :: "world \<Rightarrow> world \<Rightarrow> bool" where
  "quiet w w' =
     (settings_of w' = settings_of w \<and> pools w' = pools w \<and> containers w' = containers w
      \<and> (\<forall>workspace_id.
            restorations workspace_id (trace w') = restorations workspace_id (trace w)
            \<and> mutations workspace_id (trace w') = mutations workspace_id (trace w)))"



text \<open>
  The variables are \<open>armed\<close> when a restoration that is due has what it needs.
\<close>

definition armed :: "locals \<Rightarrow> bool" where
  "armed st =
     (restored_agent st \<or> (current_workspace_id st \<noteq> None \<and> workspace_data_backup st \<noteq> None))"

text \<open>
  A remote system with one workspace, and a server for it: the calls in \<open>failing\<close> fail,
  the plan request gives \<open>run\<close>, the plan is pending once and then finished, and the log
  has the value of the variable \<^verbatim>\<open>TOKEN\<close>.
\<close>

definition one_workspace :: json where
  "one_workspace =
     JObj [(''workspaces'',
              JList [JObj [(''attributes'', JObj [(''name'', JStr ''net''), (''vcs-repo'', JObj [(''branch'', JNull)])]),
                           (''id'', JStr ''ws-1''),
                           (''relationships'',
                              JObj [(''current-configuration-version'', JObj [(''data'', JObj [(''id'', JStr ''cv-1'')])]),
                                    (''organization'', JObj [(''data'', JObj [(''id'', JStr ''org-a'')])])])]]),
           (''workspace_variables'', JList [variable_of ''var-1'' ''ws-1'' ''TOKEN'' True])]"

definition remote_settings :: settings where
  "remote_settings =
     \<lparr>execution_mode = JStr ''remote'',
      setting_overwrites = JObj [(''execution-mode'', JBool False), (''agent-pool'', JBool False)],
      agent_pool = JNull\<rparr>"

definition one_workspace_world :: world where
  "one_workspace_world =
     \<lparr>settings_of = [''ws-1'' \<mapsto> remote_settings], pools = [], containers = [], trace = []\<rparr>"

definition server :: "site list \<Rightarrow> (string \<times> string) option \<Rightarrow> remote" where
  "server failing run =
     \<lparr>fails = (\<lambda>s. s \<in> set failing),
      new_pool = ''apool-1'',
      agent_seen = (\<lambda>n. 2 \<le> n),
      run_of = (\<lambda>workspace_id. run),
      plan_polls = (\<lambda>plan_id.
        [Plan (JObj [(''attributes'', JObj [(''log-read-url'', JNull), (''status'', JStr ''pending'')])]),
         Plan (JObj [(''attributes'', JObj [(''log-read-url'', JStr ''https://tfe/log''), (''status'', JStr ''finished'')])])]),
      log_file = (\<lambda>run_id. Some ''TOKEN=secret'')\<rparr>"

subsection \<open>The saga of the variable sets\<close>

text \<open>
  The enrichment of the variable sets, \<^verbatim>\<open>_enrich_variable_set_data\<close> (lines 326-582),
  works on a workspace of its own, which it creates and deletes, and attaches each
  variable set to it for the time of a plan.  What it backs up and restores of a
  variable set (lines 327-347) is an \<open>attachment\<close>: \<^verbatim>\<open>attributes.global\<close>,
  \<^verbatim>\<open>attributes.priority\<close>, \<^verbatim>\<open>relationships.workspaces.data\<close> and
  \<^verbatim>\<open>relationships.projects.data\<close>.  The remote system has the attachment of each
  variable set besides what it has for the workspaces.
\<close>

record attachment =
  attr_global :: json
  attr_priority :: json
  rel_workspaces :: json
  rel_projects :: json

record varset_world = world +
  attachments_of :: "string \<Rightarrow> attachment option"

text \<open>
  The \<^verbatim>\<open>try\<close> block holds the loop over the organizations, so the remote system decides
  for each organization in turn, \<open>during\<close>, and then for the \<^verbatim>\<open>finally\<close> block,
  \<open>at_end\<close>.  \<open>new_workspace_of\<close> is the id of the workspace created for an organization,
  \<open>None\<close> for a response without data.  The run of the plan requested while a variable
  set is attached is \<open>run_of\<close> at the id of the variable set.
\<close>

record varset_remote =
  during :: "string \<Rightarrow> remote"
  new_workspace_of :: "string \<Rightarrow> string option"
  at_end :: remote

text \<open>
  The variables of the variable sets, as \<^verbatim>\<open>data.get("variable_set_variables")\<close> has
  them: the id of the variable set, the key, and the value when it is known.
\<close>

type_synonym varset_variable = "string \<times> string \<times> string option"

text \<open>Lines 371-377: the projects are listed, for the id of the default project.\<close>

definition list_projects :: "remote \<Rightarrow> varset_world \<Rightarrow> pyerr option \<times> varset_world" where
  "list_projects env w =
     (case call env ListProjects w of
        (False, w') \<Rightarrow> (Some RuntimeError, w')
      | (True, w') \<Rightarrow> (None, w'))"

text \<open>
  Lines 394-415: the workspace \<^verbatim>\<open>SMK\<close> is created, with \<open>made\<close> the id in the response;
  \<^verbatim>\<open>[0]\<close> of a response without data is an \<^verbatim>\<open>IndexError\<close>.
\<close>

definition create_workspace ::
  "remote \<Rightarrow> string option \<Rightarrow> varset_world \<Rightarrow> (pyerr + string) \<times> varset_world" where
  "create_workspace env made w =
     (case call env CreateWorkspace w of
        (False, w') \<Rightarrow> (Inl RuntimeError, w')
      | (True, w') \<Rightarrow>
          (case made of
             None \<Rightarrow> (Inl IndexError, w')
           | Some workspace_id \<Rightarrow>
               (Inr workspace_id,
                w'\<lparr>settings_of := (settings_of w')(workspace_id \<mapsto>
                     \<lparr>execution_mode = JStr ''remote'', setting_overwrites = JNull,
                      agent_pool = JNull\<rparr>)\<rparr>)))"

text \<open>Lines 418-430: the container that pushes a configuration to the workspace.\<close>

definition push_configuration :: "remote \<Rightarrow> varset_world \<Rightarrow> pyerr option \<times> varset_world" where
  "push_configuration env w =
     (case call env PushConfiguration w of
        (False, w') \<Rightarrow> (Some RuntimeError, w')
      | (True, w') \<Rightarrow> (None, w'))"

text \<open>Lines 458-468: the backup of the attachment of a variable set.\<close>

definition backup_variable_set ::
  "remote \<Rightarrow> string \<Rightarrow> varset_world \<Rightarrow> (pyerr + attachment) \<times> varset_world" where
  "backup_variable_set env var_set_id w =
     (case call env (BackupVarSet var_set_id) w of
        (False, w') \<Rightarrow> (Inl RuntimeError, w')
      | (True, w') \<Rightarrow>
          (case attachments_of w' var_set_id of
             None \<Rightarrow> (Inl IndexError, w')
           | Some a \<Rightarrow> (Inr a, w')))"

text \<open>Lines 473-497: the variable set is attached to the new workspace only.\<close>

definition attach_variable_set ::
  "remote \<Rightarrow> string \<Rightarrow> string \<Rightarrow> varset_world \<Rightarrow> pyerr option \<times> varset_world" where
  "attach_variable_set env var_set_id workspace_id w =
     (case call env (AttachVarSet var_set_id) w of
        (False, w') \<Rightarrow> (Some RuntimeError, w')
      | (True, w') \<Rightarrow>
          (None,
           w'\<lparr>attachments_of := (attachments_of w')(var_set_id \<mapsto>
                \<lparr>attr_global = JBool False, attr_priority = JBool True,
                 rel_workspaces = JList [JObj [(''id'', JStr workspace_id), (''type'', JStr ''workspaces'')]],
                 rel_projects = JList []\<rparr>)\<rparr>))"

text \<open>
  Lines 501-524: the plan request.  A response without run data is a
  \<^verbatim>\<open>TerraformExporterPlanError\<close>.
\<close>

definition plan_variable_set ::
  "remote \<Rightarrow> string \<Rightarrow> varset_world \<Rightarrow> (pyerr + string \<times> string) \<times> varset_world" where
  "plan_variable_set env var_set_id w =
     (case call env (PlanVarSet var_set_id) w of
        (False, w') \<Rightarrow> (Inl RuntimeError, w')
      | (True, w') \<Rightarrow>
          (case run_of env var_set_id of
             None \<Rightarrow> (Inl TerraformExporterPlanError, w')
           | Some run \<Rightarrow> (Inr run, w')))"

text \<open>
  \<^verbatim>\<open>reset_variable_set_relationships\<close>, lines 327-347, called from \<open>s\<close>: a \<^verbatim>\<open>PATCH\<close>
  with the attributes of the backup, and with those relationships of the backup that
  are not \<^verbatim>\<open>None\<close>; a relationship that is not in the request stays as it is.
\<close>

definition reset_request :: "attachment \<Rightarrow> attachment \<Rightarrow> attachment" where
  "reset_request backup now =
     \<lparr>attr_global = attr_global backup, attr_priority = attr_priority backup,
      rel_workspaces = (if rel_workspaces backup \<noteq> JNull then rel_workspaces backup
                        else rel_workspaces now),
      rel_projects = (if rel_projects backup \<noteq> JNull then rel_projects backup
                      else rel_projects now)\<rparr>"

definition reset_variable_set_relationships ::
  "remote \<Rightarrow> site \<Rightarrow> string \<Rightarrow> attachment \<Rightarrow> varset_world \<Rightarrow> pyerr option \<times> varset_world" where
  "reset_variable_set_relationships env s var_set_id variable_set_relationship_backup w =
     (case call env s w of
        (False, w') \<Rightarrow> (Some RuntimeError, w')
      | (True, w') \<Rightarrow>
          (None,
           (case attachments_of w' var_set_id of
              None \<Rightarrow> w'
            | Some now \<Rightarrow>
                w'\<lparr>attachments_of := (attachments_of w')(var_set_id \<mapsto>
                     reset_request variable_set_relationship_backup now)\<rparr>)))"

text \<open>Lines 565-570: the workspace \<^verbatim>\<open>SMK\<close> is deleted.\<close>

definition delete_workspace ::
  "remote \<Rightarrow> string \<Rightarrow> varset_world \<Rightarrow> pyerr option \<times> varset_world" where
  "delete_workspace env workspace_id w =
     (case call env (DeleteWorkspace workspace_id) w of
        (False, w') \<Rightarrow> (Some RuntimeError, w')
      | (True, w') \<Rightarrow> (None, w'\<lparr>settings_of := (settings_of w')(workspace_id := None)\<rparr>))"

text \<open>
  Lines 539-548, for one line of the log: a variable of the variable set whose key and
  \<^verbatim>\<open>=\<close> start the line gets the rest of the line as its value.
\<close>

definition scan_varset_line :: "string \<Rightarrow> string \<Rightarrow> varset_variable list \<Rightarrow> varset_variable list" where
  "scan_varset_line var_set_id line variables =
     map (\<lambda>(varset, key, value).
            if varset = var_set_id \<and> startswith line (key @ ''='')
            then (varset, key, Some (drop (length (key @ ''='')) line))
            else (varset, key, value))
         variables"

text \<open>Lines 531-548: the log is read and scanned when the plan has a log.\<close>

definition scan_varset_log ::
  "remote \<Rightarrow> string \<Rightarrow> string \<Rightarrow> json \<Rightarrow> varset_variable list \<Rightarrow> varset_world
     \<Rightarrow> pyerr option \<times> varset_variable list \<times> varset_world" where
  "scan_varset_log env run_id var_set_id plan_data variables w =
     (if truthy (kp_get plan_data [''attributes'', ''log-read-url'']) then
        (case call env (ReadVarSetLog var_set_id) w of
           (False, w') \<Rightarrow> (Some OSError, variables, w')
         | (True, w') \<Rightarrow>
             (case log_file env run_id of
                None \<Rightarrow> (Some OSError, variables, w')
              | Some logs_data \<Rightarrow>
                  (None,
                   foldl (\<lambda>vars line. scan_varset_line var_set_id line vars) variables
                     (split_on CHR 0x0A logs_data),
                   w')))
      else (None, variables, w))"

text \<open>
  The variables of lines 361-366, which the \<^verbatim>\<open>finally\<close> block reads;
  \<open>varset_agent_container\<close> and \<open>varset_agent_pool_id\<close> are \<^verbatim>\<open>agent_container\<close> and
  \<^verbatim>\<open>agent_pool_id\<close> there.
\<close>

record varset_locals =
  new_workspace :: "string option"
  variable_set_relationship_backup :: "attachment option"
  var_set_reset :: bool
  var_set_id :: "string option"
  varset_agent_container :: "string option"
  varset_agent_pool_id :: "string option"

text \<open>
  The body of the loop over the variable sets of an organization, lines 455-551: backup,
  attachment to the new workspace, plan, log, restoration.  \<^verbatim>\<open>var_set_reset\<close> is set to
  \<^verbatim>\<open>False\<close> before the request that attaches the variable set (line 471).  The result
  is the exception that ends the \<^verbatim>\<open>try\<close> block, if any, with the variables and the
  remote system as they are then; it is \<open>None\<close> when the wait for the plan does not end.
\<close>

definition recover_varset ::
  "remote \<Rightarrow> string \<Rightarrow> string \<Rightarrow> varset_locals \<Rightarrow> varset_variable list \<Rightarrow> varset_world
     \<Rightarrow> (pyerr option \<times> varset_locals \<times> varset_variable list \<times> varset_world) option" where
  "recover_varset env workspace_id vs_id st0 variables w =
     (let st = st0\<lparr>var_set_id := Some vs_id\<rparr>
      in case backup_variable_set env vs_id w of
           (Inl e, w1) \<Rightarrow> Some (Some e, st, variables, w1)
         | (Inr backup, w1) \<Rightarrow>
             (let st1 = st\<lparr>variable_set_relationship_backup := Some backup, var_set_reset := False\<rparr>
              in case attach_variable_set env vs_id workspace_id w1 of
                   (Some e, w2) \<Rightarrow> Some (Some e, st1, variables, w2)
                 | (None, w2) \<Rightarrow>
                     (case plan_variable_set env vs_id w2 of
                        (Inl e, w3) \<Rightarrow> Some (Some e, st1, variables, w3)
                      | (Inr (run_id, plan_id), w3) \<Rightarrow>
                          (case get_plan (plan_polls env plan_id) of
                             None \<Rightarrow> None
                           | Some (Inl e) \<Rightarrow> Some (Some e, st1, variables, w3)
                           | Some (Inr plan_data) \<Rightarrow>
                               (case scan_varset_log env run_id vs_id plan_data variables w3 of
                                  (Some e, variables', w4) \<Rightarrow> Some (Some e, st1, variables', w4)
                                | (None, variables', w4) \<Rightarrow>
                                    (case reset_variable_set_relationships env (ResetVarSet vs_id)
                                            vs_id backup w4 of
                                       (Some e, w5) \<Rightarrow> Some (Some e, st1, variables', w5)
                                     | (None, w5) \<Rightarrow>
                                         Some (None, st1\<lparr>var_set_reset := True\<rparr>, variables', w5)))))))"

fun recover_varsets ::
  "remote \<Rightarrow> string \<Rightarrow> string list \<Rightarrow> varset_locals \<Rightarrow> varset_variable list \<Rightarrow> varset_world
     \<Rightarrow> (pyerr option \<times> varset_locals \<times> varset_variable list \<times> varset_world) option" where
  "recover_varsets env workspace_id [] st variables w = Some (None, st, variables, w)"
| "recover_varsets env workspace_id (vs_id # var_sets) st variables w =
     (case recover_varset env workspace_id vs_id st variables w of
        None \<Rightarrow> None
      | Some (Some e, st', variables', w') \<Rightarrow> Some (Some e, st', variables', w')
      | Some (None, st', variables', w') \<Rightarrow> recover_varsets env workspace_id var_sets st' variables' w')"

text \<open>
  The body of the loop over the organizations, lines 370-560, with \<open>variable_sets\<close> the
  variable sets of \<^verbatim>\<open>data\<close>, each with the id of its organization: the projects, the
  agent pool, the container, the new workspace, the push, the workspace pointed at the
  agent pool, the variable sets of the organization, and the logs of the container.
\<close>

definition enrich_organization_varsets ::
  "varset_remote \<Rightarrow> string \<Rightarrow> (string \<times> string) list \<Rightarrow> varset_locals \<Rightarrow> varset_variable list
     \<Rightarrow> varset_world
     \<Rightarrow> (pyerr option \<times> varset_locals \<times> varset_variable list \<times> varset_world) option" where
  "enrich_organization_varsets srv organization_id variable_sets st variables w =
     (let env = during srv organization_id
      in case list_projects env w of
           (Some e, w1) \<Rightarrow> Some (Some e, st, variables, w1)
         | (None, w1) \<Rightarrow>
             (case create_agent_pool env w1 of
                (Inl e, w2) \<Rightarrow> Some (Some e, st, variables, w2)
              | (Inr pool_id, w2) \<Rightarrow>
                  (let st1 = st\<lparr>varset_agent_pool_id := Some pool_id\<rparr>
                   in case start_agent_container env (''smk-tfc-agent-'' @ organization_id) w2 of
                        (Inl e, w3) \<Rightarrow> Some (Some e, st1, variables, w3)
                      | (Inr container, w3) \<Rightarrow>
                          (let st2 = st1\<lparr>varset_agent_container := Some container\<rparr>
                           in case create_workspace env (new_workspace_of srv organization_id) w3 of
                                (Inl e, w4) \<Rightarrow> Some (Some e, st2, variables, w4)
                              | (Inr workspace_id, w4) \<Rightarrow>
                                  (let st3 = st2\<lparr>new_workspace := Some workspace_id\<rparr>
                                   in case push_configuration env w4 of
                                        (Some e, w5) \<Rightarrow> Some (Some e, st3, variables, w5)
                                      | (None, w5) \<Rightarrow>
                                          (case repoint_workspace env pool_id workspace_id w5 of
                                             (Some e, w6) \<Rightarrow> Some (Some e, st3, variables, w6)
                                           | (None, w6) \<Rightarrow>
                                               (case recover_varsets env workspace_id
                                                       (map fst (filter (\<lambda>variable_set. snd variable_set = organization_id)
                                                                   variable_sets))
                                                       st3 variables w6 of
                                                  None \<Rightarrow> None
                                                | Some (Some e, st4, variables', w7) \<Rightarrow>
                                                    Some (Some e, st4, variables', w7)
                                                | Some (None, st4, variables', w7) \<Rightarrow>
                                                    (case call env PullLogs w7 of
                                                       (False, w8) \<Rightarrow> Some (Some RuntimeError, st4, variables', w8)
                                                     | (True, w8) \<Rightarrow> Some (None, st4, variables', w8)))))))))"

text \<open>The loop of the \<^verbatim>\<open>try\<close> block, lines 369-560, over the ids of the organizations.\<close>

fun enrich_organizations_varsets ::
  "varset_remote \<Rightarrow> string list \<Rightarrow> (string \<times> string) list \<Rightarrow> varset_locals \<Rightarrow> varset_variable list
     \<Rightarrow> varset_world
     \<Rightarrow> (pyerr option \<times> varset_locals \<times> varset_variable list \<times> varset_world) option" where
  "enrich_organizations_varsets srv [] variable_sets st variables w = Some (None, st, variables, w)"
| "enrich_organizations_varsets srv (organization_id # organizations) variable_sets st variables w =
     (case enrich_organization_varsets srv organization_id variable_sets st variables w of
        None \<Rightarrow> None
      | Some (Some e, st', variables', w') \<Rightarrow> Some (Some e, st', variables', w')
      | Some (None, st', variables', w') \<Rightarrow>
          enrich_organizations_varsets srv organizations variable_sets st' variables' w')"

text \<open>The \<^verbatim>\<open>try\<close> block, lines 361-560.\<close>

definition varset_try_block ::
  "varset_remote \<Rightarrow> string list \<Rightarrow> (string \<times> string) list \<Rightarrow> varset_variable list \<Rightarrow> varset_world
     \<Rightarrow> (pyerr option \<times> varset_locals \<times> varset_variable list \<times> varset_world) option" where
  "varset_try_block srv organizations variable_sets variables w =
     enrich_organizations_varsets srv organizations variable_sets
       \<lparr>new_workspace = None, variable_set_relationship_backup = None, var_set_reset = True,
        var_set_id = None, varset_agent_container = None, varset_agent_pool_id = None\<rparr>
       variables w"

text \<open>
  The \<^verbatim>\<open>finally\<close> block, lines 562-579: the new workspace is deleted first, then the
  variable set is restored when \<^verbatim>\<open>var_set_reset\<close> is \<^verbatim>\<open>False\<close>, the container is stopped
  and the agent pool is deleted.  Its statements are not guarded: the first one that
  raises ends the block.
\<close>

definition varset_finally_block ::
  "remote \<Rightarrow> varset_locals \<Rightarrow> varset_world \<Rightarrow> pyerr option \<times> varset_world" where
  "varset_finally_block env st w =
     (case (case new_workspace st of
              Some workspace_id \<Rightarrow> delete_workspace env workspace_id w
            | None \<Rightarrow> (None, w)) of
        (Some e, w1) \<Rightarrow> (Some e, w1)
      | (None, w1) \<Rightarrow>
          (case (if \<not> var_set_reset st then
                   (case (var_set_id st, variable_set_relationship_backup st) of
                      (Some vs_id, Some backup) \<Rightarrow>
                        reset_variable_set_relationships env (ResetFinally vs_id) vs_id backup w1
                    | _ \<Rightarrow> (Some AttributeError, w1))
                 else (None, w1)) of
             (Some e, w2) \<Rightarrow> (Some e, w2)
           | (None, w2) \<Rightarrow>
               (case (case varset_agent_container st of
                        Some container \<Rightarrow> stop_agent_container env container w2
                      | None \<Rightarrow> (None, w2)) of
                  (Some e, w3) \<Rightarrow> (Some e, w3)
                | (None, w3) \<Rightarrow>
                    (case varset_agent_pool_id st of
                       Some pool_id \<Rightarrow>
                         if pool_id \<noteq> [] then remove_agent_pool env pool_id w3 else (None, w3)
                     | None \<Rightarrow> (None, w3)))))"

text \<open>
  \<^verbatim>\<open>try\<close> and \<^verbatim>\<open>finally\<close> together, as in \<open>enrich_organization\<close>: an exception of the
  \<^verbatim>\<open>finally\<close> block is the one that leaves the statement.
\<close>

definition enrich_variable_set_data ::
  "varset_remote \<Rightarrow> string list \<Rightarrow> (string \<times> string) list \<Rightarrow> varset_variable list \<Rightarrow> varset_world
     \<Rightarrow> (pyerr option \<times> varset_variable list \<times> varset_world) option" where
  "enrich_variable_set_data srv organizations variable_sets variables w =
     (case varset_try_block srv organizations variable_sets variables w of
        None \<Rightarrow> None
      | Some (raised, st, variables', w1) \<Rightarrow>
          (case varset_finally_block (at_end srv) st w1 of
             (Some e, w2) \<Rightarrow> Some (Some e, variables', w2)
           | (None, w2) \<Rightarrow> Some (raised, variables', w2)))"

subsection \<open>The calls of a cleanup\<close>

text \<open>
  The places the \<^verbatim>\<open>finally\<close> block of each saga calls from, in the order of the block:
  a call is made when the variables ask for it.
\<close>

definition cleanup_sites :: "locals \<Rightarrow> site list" where
  "cleanup_sites st =
     (case (restored_agent st, current_workspace_id st) of
        (False, Some workspace_id) \<Rightarrow> [RestoreFinally workspace_id]
      | _ \<Rightarrow> [])
     @ (case agent_container st of Some container \<Rightarrow> [StopContainer] | None \<Rightarrow> [])
     @ (case agent_pool_id st of
          Some pool_id \<Rightarrow> if pool_id \<noteq> [] then [DeletePool] else []
        | None \<Rightarrow> [])"

definition varset_cleanup_sites :: "varset_locals \<Rightarrow> site list" where
  "varset_cleanup_sites st =
     (case new_workspace st of Some workspace_id \<Rightarrow> [DeleteWorkspace workspace_id] | None \<Rightarrow> [])
     @ (case (var_set_reset st, var_set_id st) of
          (False, Some vs_id) \<Rightarrow> [ResetFinally vs_id]
        | _ \<Rightarrow> [])
     @ (case varset_agent_container st of Some container \<Rightarrow> [StopContainer] | None \<Rightarrow> [])
     @ (case varset_agent_pool_id st of
          Some pool_id \<Rightarrow> if pool_id \<noteq> [] then [DeletePool] else []
        | None \<Rightarrow> [])"

text \<open>
  The calls made from a list of places when the first call that fails ends the block:
  every call up to that one, and none after it.
\<close>

fun attempted :: "(site \<Rightarrow> bool) \<Rightarrow> site list \<Rightarrow> (site \<times> bool) list" where
  "attempted failing [] = []"
| "attempted failing (s # ss) =
     (if failing s then [(s, False)] else (s, True) # attempted failing ss)"

definition varset_armed :: "varset_locals \<Rightarrow> bool" where
  "varset_armed st =
     (var_set_reset st \<or> (var_set_id st \<noteq> None \<and> variable_set_relationship_backup st \<noteq> None))"

text \<open>
  A remote system with one variable set, attached to the workspace \<^verbatim>\<open>ws-1\<close>, and a
  server for it: the calls in \<open>failing\<close> fail in the \<^verbatim>\<open>try\<close> block, those in \<open>failing_end\<close>
  in the \<^verbatim>\<open>finally\<close> block.
\<close>

definition one_varset_world :: varset_world where
  "one_varset_world =
     \<lparr>settings_of = Map.empty, pools = [], containers = [], trace = [],
      attachments_of = [''varset-1'' \<mapsto>
        \<lparr>attr_global = JBool False, attr_priority = JBool False,
         rel_workspaces = JList [JObj [(''id'', JStr ''ws-1''), (''type'', JStr ''workspaces'')]],
         rel_projects = JList []\<rparr>]\<rparr>"

definition varset_server :: "site list \<Rightarrow> site list \<Rightarrow> (string \<times> string) option \<Rightarrow> varset_remote" where
  "varset_server failing failing_end run =
     \<lparr>during = (\<lambda>organization_id. server failing run),
      new_workspace_of = (\<lambda>organization_id. Some ''ws-smk''),
      at_end = server failing_end run\<rparr>"

section \<open>A missing endpoint is an empty result\<close>

text \<open>
  C2.  Whatever the method, the URL, the request body and the properties to drop: when
  the server answers with status 404, \<^verbatim>\<open>_call_api\<close> raises nothing and returns the
  dictionary \<^verbatim>\<open>{"data": {}}\<close>, which is a page without items and without a next link:
  the pagination loop ends there with the items it had.
\<close>

theorem call_api_not_found:
  "srv method url request_data w = (Response 404 body, w') \<Longrightarrow>
   call_api srv url drop_response_properties method request_data w
     = (Inr (JObj [(''data'', JObj [])]), w')
   \<and> fetch_pages srv drop_response_properties method request_data url raw_data w
     = Some (Inr raw_data, w')"
  by (subst fetch_pages.simps) (simp add: call_api_def)

theorem call_api_not_found_witness:
  "(\<lambda>m u d (w::nat). (Response 404 NotJson, Suc w)) ''DELETE'' ''/agent-pools/p'' None 0
     = (Response 404 NotJson, Suc 0)
   \<and> call_api (\<lambda>m u d (w::nat). (Response 404 NotJson, Suc w)) ''/agent-pools/p'' [] ''DELETE'' None 0
     = (Inr (JObj [(''data'', JObj [])]), Suc 0)
   \<and> fetch_pages (\<lambda>m u d (w::nat). (Response 404 NotJson, Suc w)) [] ''DELETE'' None
        ''/agent-pools/p'' [] 0
     = Some (Inr [], Suc 0)"
  using call_api_not_found [of "\<lambda>m u d (w::nat). (Response 404 NotJson, Suc w)"
      "''DELETE''" "''/agent-pools/p''" None 0 NotJson "Suc 0" "[]" "[]"]
  by simp

section \<open>Extraction without a projection\<close>

lemma select_data_no_properties:
  "select_data rx properties raw = Inr data \<Longrightarrow> properties = None \<or> properties = Some []
     \<Longrightarrow> data = []"
  by (induction rx properties raw arbitrary: data rule: select_data.induct)
     (auto split: json.splits if_splits sum.splits option.splits)

text \<open>
  C10.  When \<^verbatim>\<open>_extract_data_from_api\<close> is called without properties
  (\<^verbatim>\<open>None\<close> or the empty list) and returns, it returns the empty list, whatever the
  server has sent; so does the call made by \<^verbatim>\<open>_delete_agent_pool\<close>.
\<close>

theorem extract_without_properties_is_empty:
  "(properties = None \<or> properties = Some [] \<longrightarrow>
      extract_data_from_api c path dp include_pattern method properties request_data w
        = Some (Inr data, w') \<longrightarrow> data = [])
   \<and> (delete_agent_pool c pool_id w = Some (Inr data, w') \<longrightarrow> data = [])"
  unfolding delete_agent_pool_def extract_data_from_api_def
  by (auto simp: Let_def split: option.splits prod.splits sum.splits
           dest: select_data_no_properties)

lemma one_page_client_fetch:
  "fetch_pages (http one_page_client) [] m rd url [] 0
     = Some (Inr [JObj [(''id'', JStr ''apool-1''), (''type'', JStr ''agent-pools'')]], Suc 0)"
  by (subst fetch_pages.simps) (simp add: one_page_client_def call_api_def)

lemma one_page_client_extract:
  "extract_data_from_api one_page_client path [] None m None rd 0 = Some (Inr [], Suc 0)"
  by (simp add: extract_data_from_api_def one_page_client_fetch)
     (simp add: one_page_client_def)

theorem extract_without_properties_is_empty_witness:
  "extract_data_from_api one_page_client ''/workspaces/ws-1'' [] None ''PATCH'' None None 0
     = Some (Inr [], Suc 0)
   \<and> delete_agent_pool one_page_client ''apool-1'' 0 = Some (Inr [], Suc 0)"
  using extract_without_properties_is_empty [of None one_page_client "''/workspaces/ws-1''" "[]"
      None "''PATCH''" None 0 "[]" "Suc 0" "''apool-1''"]
  by (simp add: one_page_client_extract delete_agent_pool_def)

section \<open>Pagination\<close>







section \<open>The workflow tool of a stack\<close>

lemma map_stack_terraform:
  "map_stack x src fl workspace = Inr (stack, fl') \<Longrightarrow>
   \<exists>version tool.
     terraform_workflow x (kp_get workspace [''attributes'', ''terraform-version'']) = Inr (version, tool)
     \<and> kp_get stack [''terraform'', ''version''] = JStr version
     \<and> kp_get stack [''terraform'', ''workflow_tool''] = JStr tool"
  by (auto simp: map_stack_def split: json.splits sum.splits prod.splits)

lemma map_stacks_loop_nth:
  "map_stacks_loop x src fl workspaces = Inr (stacks, fl') \<Longrightarrow>
   length stacks = length workspaces
   \<and> (\<forall>i < length workspaces. \<exists>fa fb. map_stack x src fa (workspaces ! i) = Inr (stacks ! i, fb))"
proof (induction workspaces arbitrary: fl stacks)
  case Nil
  then show ?case by simp
next
  case (Cons w ws)
  from Cons.prems obtain s f1 ss where
    s: "map_stack x src fl w = Inr (s, f1)" and
    ss: "map_stacks_loop x src f1 ws = Inr (ss, fl')" and
    st: "stacks = s # ss"
    by (auto split: sum.splits prod.splits)
  from Cons.IH [OF ss] have len: "length ss = length ws"
    and nth: "\<And>i. i < length ws \<Longrightarrow> \<exists>fa fb. map_stack x src fa (ws ! i) = Inr (ss ! i, fb)"
    by auto
  show ?case
  proof (intro conjI allI impI)
    show "length stacks = length (w # ws)" using st len by simp
  next
    fix i assume "i < length (w # ws)"
    then show "\<exists>fa fb. map_stack x src fa ((w # ws) ! i) = Inr (stacks ! i, fb)"
      using s st nth by (cases i) auto
  qed
qed

text \<open>
  C5.  For every workspace that \<^verbatim>\<open>_map_stacks_data\<close> maps to a stack, the version is a
  string \<open>v\<close> and: when \<open>v\<close> is \<^verbatim>\<open>latest\<close>, the stack has the version 1.5.7 and the
  tool \<^verbatim>\<open>TERRAFORM_FOSS\<close>; otherwise, when \<open>v\<close> starts with \<^verbatim>\<open>~\<close> or \<^verbatim>\<open>^\<close>
  or \<^verbatim>\<open>semver.match(v, ">1.5.7")\<close> holds, the tool is \<^verbatim>\<open>OPEN_TOFU\<close>; otherwise it is
  \<^verbatim>\<open>TERRAFORM_FOSS\<close>.
\<close>

theorem workflow_tool_selection:
  assumes "map_stacks_data x fl src_data = Inr (stacks, fl')"
    and "py_iter (kp_get src_data [''workspaces'']) = Inr workspaces"
    and "i < length workspaces"
  shows "length stacks = length workspaces
    \<and> (\<exists>v. kp_get (workspaces ! i) [''attributes'', ''terraform-version''] = JStr v
         \<and> (if v = ''latest'' then
               kp_get (stacks ! i) [''terraform'', ''version''] = JStr ''1.5.7''
               \<and> kp_get (stacks ! i) [''terraform'', ''workflow_tool''] = JStr ''TERRAFORM_FOSS''
             else if startswith v ''~'' \<or> startswith v ''^'' \<or> semver_match x v ''>1.5.7'' = Inr True then
               kp_get (stacks ! i) [''terraform'', ''version''] = JStr v
               \<and> kp_get (stacks ! i) [''terraform'', ''workflow_tool''] = JStr ''OPEN_TOFU''
             else
               kp_get (stacks ! i) [''terraform'', ''version''] = JStr v
               \<and> kp_get (stacks ! i) [''terraform'', ''workflow_tool''] = JStr ''TERRAFORM_FOSS''))"
proof -
  from assms(1,2) have loop: "map_stacks_loop x src_data fl workspaces = Inr (stacks, fl')"
    by (simp add: map_stacks_data_def)
  from map_stacks_loop_nth [OF loop] assms(3) obtain fa fb where
    len: "length stacks = length workspaces" and
    m: "map_stack x src_data fa (workspaces ! i) = Inr (stacks ! i, fb)"
    by blast
  from map_stack_terraform [OF m] obtain version tool where
    t: "terraform_workflow x (kp_get (workspaces ! i) [''attributes'', ''terraform-version'']) = Inr (version, tool)"
    and v: "kp_get (stacks ! i) [''terraform'', ''version''] = JStr version"
    and w: "kp_get (stacks ! i) [''terraform'', ''workflow_tool''] = JStr tool"
    by blast
  from t obtain s where s: "kp_get (workspaces ! i) [''attributes'', ''terraform-version''] = JStr s"
    by (auto simp: terraform_workflow_def split: json.splits)
  from t s v w len show ?thesis
    by (auto simp: terraform_workflow_def split: if_splits sum.splits)
qed

lemma slugify_ascii_examples:
  "slugify_ascii ''net'' = ''net''" "slugify_ascii ''db'' = ''db''"
  "slugify_ascii ''app'' = ''app''" "slugify_ascii ''dns'' = ''dns''"
  "slugify_ascii ''prod'' = ''prod''" "slugify_ascii ''dev'' = ''dev''"
  "slugify_ascii ''org-a'' = ''org-a''"
  "slugify_ascii ''prj-1'' = ''prj-1''" "slugify_ascii ''prj-2'' = ''prj-2''"
  "slugify_ascii ''ws-1'' = ''ws-1''" "slugify_ascii ''ws-2'' = ''ws-2''"
  "slugify_ascii ''varset-1'' = ''varset-1''" "slugify_ascii ''varset-2'' = ''varset-2''"
  by code_simp+

lemma semver_match_plain_examples:
  "semver_match_plain ''1.6.1'' ''>1.5.7'' = Inr True"
  "semver_match_plain ''1.5.7'' ''>1.5.7'' = Inr False"
  by code_simp+

lemma bad_name_invalid: "\<not> valid_name ''bad-name''"
  by code_simp

lemma four_workspaces_mapped:
  "\<exists>stacks. map_stacks_data (plain_exporter False) \<lparr>is_gitlab = False, is_ado = False\<rparr> four_workspaces
     = Inr (stacks, \<lparr>is_gitlab = False, is_ado = False\<rparr>)"
  by (simp add: map_stacks_data_def map_stack_def plain_exporter_def four_workspaces_def
        workspace_of_def find_workspace_variable_with_invalid_name_def determine_provider_def
        terraform_workflow_def build_stack_slug_def space_id_of_def vcs_info_def startswith_def
        slugify_ascii_examples semver_match_plain_examples)


lemma four_workspaces_iter:
  "py_iter (kp_get four_workspaces [''workspaces''])
     = Inr [workspace_of ''ws-1'' ''net'' ''latest'', workspace_of ''ws-2'' ''db'' ''~1.6.0'',
            workspace_of ''ws-3'' ''app'' ''1.6.1'', workspace_of ''ws-4'' ''dns'' ''1.5.7'']"
  by (simp add: four_workspaces_def)

lemma workspace_of_version:
  "kp_get (workspace_of i n v) [''attributes'', ''terraform-version''] = JStr v"
  by (simp add: workspace_of_def)

lemma semver_plain_examples:
  "semver_match (plain_exporter a) ''1.6.1'' ''>1.5.7'' = Inr True"
  "semver_match (plain_exporter a) ''1.5.7'' ''>1.5.7'' = Inr False"
  by (simp_all add: plain_exporter_def semver_match_plain_examples)

theorem workflow_tool_selection_witness:
  "\<exists>stacks.
     map_stacks_data (plain_exporter False) \<lparr>is_gitlab = False, is_ado = False\<rparr> four_workspaces
       = Inr (stacks, \<lparr>is_gitlab = False, is_ado = False\<rparr>)
     \<and> length stacks = 4
     \<and> kp_get (stacks ! 0) [''terraform'', ''version''] = JStr ''1.5.7''
     \<and> kp_get (stacks ! 0) [''terraform'', ''workflow_tool''] = JStr ''TERRAFORM_FOSS''
     \<and> kp_get (stacks ! 1) [''terraform'', ''workflow_tool''] = JStr ''OPEN_TOFU''
     \<and> kp_get (stacks ! 2) [''terraform'', ''workflow_tool''] = JStr ''OPEN_TOFU''
     \<and> kp_get (stacks ! 3) [''terraform'', ''workflow_tool''] = JStr ''TERRAFORM_FOSS''"
proof -
  from four_workspaces_mapped obtain stacks where
    m: "map_stacks_data (plain_exporter False) \<lparr>is_gitlab = False, is_ado = False\<rparr> four_workspaces
          = Inr (stacks, \<lparr>is_gitlab = False, is_ado = False\<rparr>)"
    by blast
  note sel = workflow_tool_selection [OF m four_workspaces_iter]
  have "length stacks = 4" using sel [of 0] by simp
  moreover have "kp_get (stacks ! 0) [''terraform'', ''version''] = JStr ''1.5.7''
      \<and> kp_get (stacks ! 0) [''terraform'', ''workflow_tool''] = JStr ''TERRAFORM_FOSS''"
    using sel [of 0] by (simp add: workspace_of_version)
  moreover have "kp_get (stacks ! 1) [''terraform'', ''workflow_tool''] = JStr ''OPEN_TOFU''"
    using sel [of 1] by (simp add: workspace_of_version startswith_def)
  moreover have "kp_get (stacks ! 2) [''terraform'', ''workflow_tool''] = JStr ''OPEN_TOFU''"
    using sel [of 2] by (simp add: workspace_of_version startswith_def semver_plain_examples)
  moreover have "kp_get (stacks ! 3) [''terraform'', ''workflow_tool''] = JStr ''TERRAFORM_FOSS''"
    using sel [of 3] by (simp add: workspace_of_version startswith_def semver_plain_examples)
  ultimately show ?thesis using m by blast
qed

section \<open>Variables with an invalid name\<close>

lemma invalid_name_loop_step:
  assumes "invalid_name_loop workspace_id ty (JObj kvs # variables) = Inr found"
  shows "\<exists>found'. invalid_name_loop workspace_id ty variables = Inr found'
          \<and> set found' \<subseteq> set found
          \<and> (\<forall>key. py_eq (kp_get (JObj kvs) [''relationships'', ''workspace'', ''data'', ''id'']) workspace_id
                 \<and> kp_get (JObj kvs) [''attributes'', ''key''] = JStr key \<and> \<not> valid_name key
                 \<and> \<not> ((kp_get (JObj kvs) [''attributes'', ''sensitive''] = JBool True \<and> ty = ''plain'')
                       \<or> (kp_get (JObj kvs) [''attributes'', ''sensitive''] = JBool False \<and> ty = ''secret''))
                 \<longrightarrow> JObj kvs \<in> set found)"
proof (cases "(kp_get (JObj kvs) [''attributes'', ''sensitive''] = JBool True \<and> ty = ''plain'')
      \<or> (kp_get (JObj kvs) [''attributes'', ''sensitive''] = JBool False \<and> ty = ''secret'')")
  case True
  with assms show ?thesis
    by (simp add: Let_def del: kp_get.simps)
next
  case skip: False
  show ?thesis
  proof (cases "py_eq (kp_get (JObj kvs) [''relationships'', ''workspace'', ''data'', ''id'']) workspace_id")
    case False
    with assms show ?thesis
      by (simp add: Let_def skip del: kp_get.simps)
  next
    case True
    show ?thesis
    proof (cases "kp_get (JObj kvs) [''attributes'', ''key'']")
      case (JStr key)
      with True assms show ?thesis
        by (cases "invalid_name_loop workspace_id ty variables")
           (auto simp add: Let_def skip simp del: kp_get.simps)
    qed (use True assms in \<open>simp_all add: Let_def skip del: kp_get.simps\<close>)
  qed
qed

lemma invalid_name_loop_mem:
  "invalid_name_loop workspace_id ty variables = Inr found \<Longrightarrow>
   variable \<in> set variables \<Longrightarrow>
   py_eq (kp_get variable [''relationships'', ''workspace'', ''data'', ''id'']) workspace_id \<Longrightarrow>
   kp_get variable [''attributes'', ''key''] = JStr key \<Longrightarrow>
   \<not> valid_name key \<Longrightarrow>
   \<not> ((kp_get variable [''attributes'', ''sensitive''] = JBool True \<and> ty = ''plain'')
      \<or> (kp_get variable [''attributes'', ''sensitive''] = JBool False \<and> ty = ''secret'')) \<Longrightarrow>
   variable \<in> set found"
proof (induction variables arbitrary: found)
  case Nil
  then show ?case by simp
next
  case (Cons v vs)
  from Cons.prems(1) obtain kvs where v: "v = JObj kvs"
    by (cases v) simp_all
  from invalid_name_loop_step [OF Cons.prems(1) [unfolded v]] obtain found' where
    rest: "invalid_name_loop workspace_id ty vs = Inr found'" and
    sub: "set found' \<subseteq> set found" and
    hd: "\<And>key. py_eq (kp_get (JObj kvs) [''relationships'', ''workspace'', ''data'', ''id'']) workspace_id
                 \<Longrightarrow> kp_get (JObj kvs) [''attributes'', ''key''] = JStr key \<Longrightarrow> \<not> valid_name key
                 \<Longrightarrow> \<not> ((kp_get (JObj kvs) [''attributes'', ''sensitive''] = JBool True \<and> ty = ''plain'')
                       \<or> (kp_get (JObj kvs) [''attributes'', ''sensitive''] = JBool False \<and> ty = ''secret''))
                 \<Longrightarrow> JObj kvs \<in> set found"
    by blast
  show ?case
  proof (cases "variable = v")
    case True
    with v hd [of key] Cons.prems(3-6) show ?thesis by blast
  next
    case False
    with Cons.prems(2) have "variable \<in> set vs" by simp
    from Cons.IH [OF rest this Cons.prems(3-6)] sub show ?thesis by blast
  qed
qed


lemma map_stack_flags:
  "map_stack x src fl workspace = Inr (stack, fl') \<Longrightarrow>
   \<exists>plain secret.
     find_workspace_variable_with_invalid_name src (kp_get workspace [''id'']) ''plain'' = Inr plain
     \<and> find_workspace_variable_with_invalid_name src (kp_get workspace [''id'']) ''secret'' = Inr secret
     \<and> kp_get stack [''has_variables_with_invalid_name'']
         = JBool (plain \<noteq> [] \<and> \<not> auto_fix_variable_names x)
     \<and> kp_get stack [''has_secret_variables_with_invalid_name'']
         = JBool (secret \<noteq> [] \<and> \<not> auto_fix_variable_names x)"
  by (auto simp: map_stack_def split: json.splits sum.splits prod.splits)

lemma map_stack_variables_loop_nth:
  "map_stack_variables_loop x src variables = Inr mapped \<Longrightarrow>
   length mapped = length variables
   \<and> (\<forall>j < length variables. map_stack_variable x src (variables ! j) = Inr (mapped ! j))"
proof (induction variables arbitrary: mapped)
  case Nil
  then show ?case by simp
next
  case (Cons v vs)
  from Cons.prems obtain m ms where
    m: "map_stack_variable x src v = Inr m" and
    ms: "map_stack_variables_loop x src vs = Inr ms" and
    mapped: "mapped = m # ms"
    by (auto split: sum.splits)
  from Cons.IH [OF ms] have len: "length ms = length vs"
    and nth: "\<And>j. j < length vs \<Longrightarrow> map_stack_variable x src (vs ! j) = Inr (ms ! j)"
    by auto
  show ?case
  proof (intro conjI allI impI)
    show "length mapped = length (v # vs)" using mapped len by simp
  next
    fix j assume "j < length (v # vs)"
    then show "map_stack_variable x src ((v # vs) ! j) = Inr (mapped ! j)"
      using m mapped nth by (cases j) auto
  qed
qed

lemma map_stack_variable_names:
  "map_stack_variable x src variable = Inr mapped \<Longrightarrow>
   \<exists>key. kp_get variable [''attributes'', ''key''] = JStr key
     \<and> kp_get mapped [''name''] = JStr key
     \<and> kp_get mapped [''valid_name''] = JBool (valid_name key)
     \<and> kp_get mapped [''replacement_name'']
         = JStr (if auto_fix_variable_names x \<and> \<not> valid_name key
                 then replace_char CHR ''-'' CHR ''_'' key else key)"
  by (auto simp: map_stack_variable_def Let_def split: json.splits sum.splits)

text \<open>
  C6, as the code has it.  Let a workspace variable have a key that does not match
  \<^verbatim>\<open>^[a-zA-Z_]+[a-zA-Z0-9_]*$\<close>, and let a workspace have the id the variable refers
  to.  The mapped variable keeps the key as its \<^verbatim>\<open>name\<close>.  With auto-fix enabled its
  \<^verbatim>\<open>replacement_name\<close> is the key with hyphens replaced by underscores and both
  invalid-name flags of the stack are false.  With auto-fix disabled its
  \<^verbatim>\<open>replacement_name\<close> is the key; the stack has
  \<^verbatim>\<open>has_variables_with_invalid_name\<close> set when the variable is not marked sensitive
  (\<^verbatim>\<open>attributes.sensitive\<close> is not \<^verbatim>\<open>True\<close>), and
  \<^verbatim>\<open>has_secret_variables_with_invalid_name\<close> set when \<^verbatim>\<open>attributes.sensitive\<close> is
  not \<^verbatim>\<open>False\<close>.
\<close>

theorem invalid_variable_names:
  assumes "map_stacks_data x fl src_data = Inr (stacks, fl')"
    and "map_stack_variables_data x src_data = Inr mapped"
    and "py_iter (kp_get src_data [''workspaces'']) = Inr workspaces"
    and "py_iter (kp_get src_data [''workspace_variables'']) = Inr variables"
    and "i < length workspaces" and "j < length variables"
    and "py_eq (kp_get (variables ! j) [''relationships'', ''workspace'', ''data'', ''id''])
               (kp_get (workspaces ! i) [''id''])"
    and "kp_get (variables ! j) [''attributes'', ''key''] = JStr key"
    and "\<not> valid_name key"
  shows "kp_get (mapped ! j) [''name''] = JStr key
    \<and> (if auto_fix_variable_names x then
          kp_get (mapped ! j) [''replacement_name''] = JStr (replace_char CHR ''-'' CHR ''_'' key)
          \<and> kp_get (stacks ! i) [''has_variables_with_invalid_name''] = JBool False
          \<and> kp_get (stacks ! i) [''has_secret_variables_with_invalid_name''] = JBool False
        else
          kp_get (mapped ! j) [''replacement_name''] = JStr key
          \<and> (kp_get (variables ! j) [''attributes'', ''sensitive''] \<noteq> JBool True \<longrightarrow>
               kp_get (stacks ! i) [''has_variables_with_invalid_name''] = JBool True)
          \<and> (kp_get (variables ! j) [''attributes'', ''sensitive''] \<noteq> JBool False \<longrightarrow>
               kp_get (stacks ! i) [''has_secret_variables_with_invalid_name''] = JBool True))"
proof -
  let ?v = "variables ! j" and ?w = "workspaces ! i"
  from assms(1,3) have "map_stacks_loop x src_data fl workspaces = Inr (stacks, fl')"
    by (simp add: map_stacks_data_def)
  from map_stacks_loop_nth [OF this] assms(5) obtain fa fb where
    st: "map_stack x src_data fa ?w = Inr (stacks ! i, fb)"
    by blast
  from map_stack_flags [OF st] obtain plain secret where
    plain: "find_workspace_variable_with_invalid_name src_data (kp_get ?w [''id'']) ''plain'' = Inr plain" and
    secret: "find_workspace_variable_with_invalid_name src_data (kp_get ?w [''id'']) ''secret'' = Inr secret" and
    f1: "kp_get (stacks ! i) [''has_variables_with_invalid_name'']
           = JBool (plain \<noteq> [] \<and> \<not> auto_fix_variable_names x)" and
    f2: "kp_get (stacks ! i) [''has_secret_variables_with_invalid_name'']
           = JBool (secret \<noteq> [] \<and> \<not> auto_fix_variable_names x)"
    by blast
  from plain assms(4) have lp: "invalid_name_loop (kp_get ?w [''id'']) ''plain'' variables = Inr plain"
    by (simp add: find_workspace_variable_with_invalid_name_def)
  from secret assms(4) have ls: "invalid_name_loop (kp_get ?w [''id'']) ''secret'' variables = Inr secret"
    by (simp add: find_workspace_variable_with_invalid_name_def)
  have mem: "?v \<in> set variables" using assms(6) by simp
  have p: "plain \<noteq> []" if "kp_get ?v [''attributes'', ''sensitive''] \<noteq> JBool True"
  proof -
    have "?v \<in> set plain"
      using invalid_name_loop_mem [OF lp mem assms(7,8,9)] that by simp
    then show ?thesis by auto
  qed
  have s: "secret \<noteq> []" if "kp_get ?v [''attributes'', ''sensitive''] \<noteq> JBool False"
  proof -
    have "?v \<in> set secret"
      using invalid_name_loop_mem [OF ls mem assms(7,8,9)] that by simp
    then show ?thesis by auto
  qed
  from assms(2,4) have "map_stack_variables_loop x src_data variables = Inr mapped"
    by (simp add: map_stack_variables_data_def)
  from map_stack_variables_loop_nth [OF this] assms(6) have
    "map_stack_variable x src_data ?v = Inr (mapped ! j)"
    by blast
  from map_stack_variable_names [OF this] assms(8,9) have
    n: "kp_get (mapped ! j) [''name''] = JStr key" and
    r: "kp_get (mapped ! j) [''replacement_name'']
         = JStr (if auto_fix_variable_names x then replace_char CHR ''-'' CHR ''_'' key else key)"
    by auto
  show ?thesis
    using n r f1 f2 p s by (simp del: kp_get.simps)
qed


lemmas run_mapper =
  map_stacks_data_def map_stack_def plain_exporter_def workspace_of_def variable_of_def
  find_workspace_variable_with_invalid_name_def determine_provider_def terraform_workflow_def
  build_stack_slug_def space_id_of_def vcs_info_def slugify_ascii_examples bad_name_invalid
  map_stack_variables_data_def map_stack_variable_def find_workspace_def

lemma plain_bad_name_stacks:
  "\<exists>stacks. map_stacks_data (plain_exporter a) \<lparr>is_gitlab = False, is_ado = False\<rparr> plain_bad_name
     = Inr (stacks, \<lparr>is_gitlab = False, is_ado = False\<rparr>)"
  by (simp add: run_mapper plain_bad_name_def)

lemma plain_bad_name_variables:
  "\<exists>mapped. map_stack_variables_data (plain_exporter a) plain_bad_name = Inr mapped"
  by (simp add: run_mapper plain_bad_name_def)

theorem invalid_variable_names_witness:
  "\<exists>stacks mapped stacks' mapped'.
     map_stacks_data (plain_exporter False) \<lparr>is_gitlab = False, is_ado = False\<rparr> plain_bad_name
       = Inr (stacks, \<lparr>is_gitlab = False, is_ado = False\<rparr>)
     \<and> map_stack_variables_data (plain_exporter False) plain_bad_name = Inr mapped
     \<and> kp_get (mapped ! 0) [''name''] = JStr ''bad-name''
     \<and> kp_get (mapped ! 0) [''replacement_name''] = JStr ''bad-name''
     \<and> kp_get (stacks ! 0) [''has_variables_with_invalid_name''] = JBool True
     \<and> map_stacks_data (plain_exporter True) \<lparr>is_gitlab = False, is_ado = False\<rparr> plain_bad_name
       = Inr (stacks', \<lparr>is_gitlab = False, is_ado = False\<rparr>)
     \<and> map_stack_variables_data (plain_exporter True) plain_bad_name = Inr mapped'
     \<and> kp_get (mapped' ! 0) [''name''] = JStr ''bad-name''
     \<and> kp_get (mapped' ! 0) [''replacement_name''] = JStr ''bad_name''
     \<and> kp_get (stacks' ! 0) [''has_variables_with_invalid_name''] = JBool False
     \<and> kp_get (stacks' ! 0) [''has_secret_variables_with_invalid_name''] = JBool False"
proof -
  let ?ws = "[workspace_of ''ws-1'' ''net'' ''latest'']"
  let ?vs = "[variable_of ''var-1'' ''ws-1'' ''bad-name'' False]"
  have ws: "py_iter (kp_get plain_bad_name [''workspaces'']) = Inr ?ws"
    by (simp add: plain_bad_name_def)
  have vs: "py_iter (kp_get plain_bad_name [''workspace_variables'']) = Inr ?vs"
    by (simp add: plain_bad_name_def)
  have own: "py_eq (kp_get (?vs ! 0) [''relationships'', ''workspace'', ''data'', ''id''])
                   (kp_get (?ws ! 0) [''id''])"
    by (simp add: workspace_of_def variable_of_def)
  have key: "kp_get (?vs ! 0) [''attributes'', ''key''] = JStr ''bad-name''"
    by (simp add: variable_of_def)
  have sens: "kp_get (?vs ! 0) [''attributes'', ''sensitive''] = JBool False"
    by (simp add: variable_of_def)
  from plain_bad_name_stacks [of False] obtain stacks where
    s: "map_stacks_data (plain_exporter False) \<lparr>is_gitlab = False, is_ado = False\<rparr> plain_bad_name
          = Inr (stacks, \<lparr>is_gitlab = False, is_ado = False\<rparr>)" by blast
  from plain_bad_name_variables [of False] obtain mapped where
    m: "map_stack_variables_data (plain_exporter False) plain_bad_name = Inr mapped" by blast
  from plain_bad_name_stacks [of True] obtain stacks' where
    s': "map_stacks_data (plain_exporter True) \<lparr>is_gitlab = False, is_ado = False\<rparr> plain_bad_name
          = Inr (stacks', \<lparr>is_gitlab = False, is_ado = False\<rparr>)" by blast
  from plain_bad_name_variables [of True] obtain mapped' where
    m': "map_stack_variables_data (plain_exporter True) plain_bad_name = Inr mapped'" by blast
  have off: "kp_get (mapped ! 0) [''name''] = JStr ''bad-name''
     \<and> kp_get (mapped ! 0) [''replacement_name''] = JStr ''bad-name''
     \<and> kp_get (stacks ! 0) [''has_variables_with_invalid_name''] = JBool True"
    using invalid_variable_names [OF s m ws vs _ _ own key bad_name_invalid] sens
    by (simp add: plain_exporter_def del: kp_get.simps)
  have on: "kp_get (mapped' ! 0) [''name''] = JStr ''bad-name''
     \<and> kp_get (mapped' ! 0) [''replacement_name''] = JStr ''bad_name''
     \<and> kp_get (stacks' ! 0) [''has_variables_with_invalid_name''] = JBool False
     \<and> kp_get (stacks' ! 0) [''has_secret_variables_with_invalid_name''] = JBool False"
    using invalid_variable_names [OF s' m' ws vs _ _ own key bad_name_invalid]
    by (simp add: plain_exporter_def replace_char_def del: kp_get.simps)
  from s m s' m' off on show ?thesis by blast
qed

text \<open>
  The claim as it is written fails for a sensitive variable: with auto-fix disabled the
  stack of its workspace has \<^verbatim>\<open>has_variables_with_invalid_name\<close> false; the flag
  that is set is \<^verbatim>\<open>has_secret_variables_with_invalid_name\<close>.
\<close>

theorem sensitive_invalid_name_not_flagged:
  "kp_get (variable_of ''var-1'' ''ws-1'' ''bad-name'' True) [''attributes'', ''key''] = JStr ''bad-name''
   \<and> \<not> valid_name ''bad-name''
   \<and> \<not> auto_fix_variable_names (plain_exporter False)
   \<and> map_stacks_data (plain_exporter False) \<lparr>is_gitlab = False, is_ado = False\<rparr> secret_bad_name
     = Inr ([JObj
        [(''_relationships'', JObj [(''space'', JStr ''prj-1'')]),
         (''_source_id'', JStr ''ws-1''), (''autodeploy'', JBool False),
         (''description'', JNull),
         (''has_variables_with_invalid_name'', JBool False),
         (''has_secret_variables_with_invalid_name'', JBool True),
         (''name'', JStr ''net''), (''labels'', JList []),
         (''slug'', JStr ''net''),
         (''terraform'',
          JObj [(''version'', JStr ''1.5.7''), (''workflow_tool'', JStr ''TERRAFORM_FOSS'')]),
         (''vcs'',
          JObj [(''branch'', JNull), (''namespace'', JNull), (''project_root'', JNull),
                (''provider'', JNull), (''repository'', JNull)])]],
        \<lparr>is_gitlab = False, is_ado = False\<rparr>)"
  by code_simp

section \<open>Contexts of a variable set\<close>

lemma kp_get_in: "kp_get j path \<noteq> JNull \<Longrightarrow> kp_in j path"
  by (induction j path rule: kp_get.induct) (auto split: option.splits)

lemma generate_migration_id_str:
  "generate_migration_id x [JStr s] = Inr (replace_char CHR ''-'' CHR ''_'' (slugify x s))"
  by (simp add: generate_migration_id_def)

lemma stack_refs_ok:
  "\<forall>w \<in> set workspaces. \<exists>kvs s. w = JObj kvs \<and> kp_get w [''id''] = JStr s \<Longrightarrow>
   \<exists>stacks. stack_refs x workspaces = Inr stacks"
proof (induction workspaces)
  case Nil
  then show ?case by simp
next
  case (Cons w ws)
  then obtain kvs s where w: "w = JObj kvs" and s: "kp_get (JObj kvs) [''id''] = JStr s"
    by auto
  from Cons obtain stacks where "stack_refs x ws = Inr stacks" by auto
  with w s show ?case
    by (simp add: generate_migration_id_str del: kp_get.simps)
qed

text \<open>
  C7.  Let a variable set be not global and have a string as its id.  When it is
  attached to exactly two projects, with the ids \<open>a\<close> and \<open>b\<close>, \<open>a \<noteq> b\<close>, the mapping
  gives exactly two contexts, with the \<^verbatim>\<open>_source_id\<close> \<open>a_v\<close> and \<open>b_v\<close>, which differ,
  and with the name and the description of the variable set.  When it is attached to no
  project and to workspaces (each with a string as its id, in an organization with a
  string as its id), the mapping gives exactly one context, whose \<^verbatim>\<open>_source_id\<close> is the
  id of the variable set.
\<close>

theorem variable_set_contexts:
  assumes "variable_set = JObj kvs"
    and "\<not> truthy (kp_get variable_set [''attributes'', ''global''])"
    and "kp_get variable_set [''id''] = JStr v"
  shows "(kp_get variable_set [''relationships'', ''projects'', ''data''] = JList [JObj p1, JObj p2]
          \<and> kp_get (JObj p1) [''id''] = JStr a \<and> kp_get (JObj p2) [''id''] = JStr b \<and> a \<noteq> b
          \<longrightarrow> (\<exists>r1 r2. map_context x variable_set = Inr [r1, r2]
                 \<and> kp_get r1 [''_source_id''] = JStr (a @ ''_'' @ v)
                 \<and> kp_get r2 [''_source_id''] = JStr (b @ ''_'' @ v)
                 \<and> kp_get r1 [''_source_id''] \<noteq> kp_get r2 [''_source_id'']
                 \<and> kp_get r1 [''name''] = kp_get variable_set [''attributes'', ''name'']
                 \<and> kp_get r2 [''name''] = kp_get variable_set [''attributes'', ''name'']
                 \<and> kp_get r1 [''description''] = kp_get variable_set [''attributes'', ''description'']
                 \<and> kp_get r2 [''description''] = kp_get variable_set [''attributes'', ''description'']))
    \<and> (attached variable_set [''relationships'', ''projects'', ''data''] = Inr False
          \<and> kp_get variable_set [''relationships'', ''workspaces'', ''data''] = JList workspaces
          \<and> workspaces \<noteq> []
          \<and> (\<forall>w \<in> set workspaces. \<exists>kvs s. w = JObj kvs \<and> kp_get w [''id''] = JStr s)
          \<and> kp_get variable_set [''relationships'', ''organization'', ''data'', ''id''] = JStr org
          \<longrightarrow> (\<exists>r. map_context x variable_set = Inr [r]
                 \<and> kp_get r [''_source_id''] = JStr v))"
proof (intro conjI impI)
  assume h: "kp_get variable_set [''relationships'', ''projects'', ''data''] = JList [JObj p1, JObj p2]
          \<and> kp_get (JObj p1) [''id''] = JStr a \<and> kp_get (JObj p2) [''id''] = JStr b \<and> a \<noteq> b"
  then have inp: "kp_in variable_set [''relationships'', ''projects'', ''data'']"
    by (intro kp_get_in) simp
  have att: "attached variable_set [''relationships'', ''projects'', ''data''] = Inr True"
    using h inp by (simp add: attached_def del: kp_get.simps kp_in.simps)
  have copies: "context_copies x variable_set [JObj p1, JObj p2] =
      Inr [JObj
             [(''_migration_id'', JStr (replace_char CHR ''-'' CHR ''_'' (slugify x v))),
              (''_relationships'',
                 JObj [(''space'', JObj [(''_migration_id'', JStr (replace_char CHR ''-'' CHR ''_'' (slugify x a)))]),
                       (''stacks'', JList [])]),
              (''_source_id'', JStr (a @ ''_'' @ v)),
              (''description'', kp_get variable_set [''attributes'', ''description'']),
              (''labels'', JList [JStr ''autoattach:*'']),
              (''name'', kp_get variable_set [''attributes'', ''name''])],
           JObj
             [(''_migration_id'', JStr (replace_char CHR ''-'' CHR ''_'' (slugify x v))),
              (''_relationships'',
                 JObj [(''space'', JObj [(''_migration_id'', JStr (replace_char CHR ''-'' CHR ''_'' (slugify x b)))]),
                       (''stacks'', JList [])]),
              (''_source_id'', JStr (b @ ''_'' @ v)),
              (''description'', kp_get variable_set [''attributes'', ''description'']),
              (''labels'', JList [JStr ''autoattach:*'']),
              (''name'', kp_get variable_set [''attributes'', ''name''])]]"
    using h assms(3) by (simp add: generate_migration_id_str del: kp_get.simps)
  have "map_context x variable_set = context_copies x variable_set [JObj p1, JObj p2]"
    using assms(1,2) att h by (simp add: map_context_def del: kp_get.simps)
  with copies h show "\<exists>r1 r2. map_context x variable_set = Inr [r1, r2]
                 \<and> kp_get r1 [''_source_id''] = JStr (a @ ''_'' @ v)
                 \<and> kp_get r2 [''_source_id''] = JStr (b @ ''_'' @ v)
                 \<and> kp_get r1 [''_source_id''] \<noteq> kp_get r2 [''_source_id'']
                 \<and> kp_get r1 [''name''] = kp_get variable_set [''attributes'', ''name'']
                 \<and> kp_get r2 [''name''] = kp_get variable_set [''attributes'', ''name'']
                 \<and> kp_get r1 [''description''] = kp_get variable_set [''attributes'', ''description'']
                 \<and> kp_get r2 [''description''] = kp_get variable_set [''attributes'', ''description'']"
    by simp
next
  assume h: "attached variable_set [''relationships'', ''projects'', ''data''] = Inr False
          \<and> kp_get variable_set [''relationships'', ''workspaces'', ''data''] = JList workspaces
          \<and> workspaces \<noteq> []
          \<and> (\<forall>w \<in> set workspaces. \<exists>kvs s. w = JObj kvs \<and> kp_get w [''id''] = JStr s)
          \<and> kp_get variable_set [''relationships'', ''organization'', ''data'', ''id''] = JStr org"
  then have inw: "kp_in variable_set [''relationships'', ''workspaces'', ''data'']"
    by (intro kp_get_in) simp
  have att: "attached variable_set [''relationships'', ''workspaces'', ''data''] = Inr True"
    using h inw by (simp add: attached_def del: kp_get.simps kp_in.simps)
  from h stack_refs_ok [of workspaces x] obtain stacks where
    st: "stack_refs x workspaces = Inr stacks" by blast
  have "map_context x variable_set = single_context x variable_set stacks []"
    using assms(1,2) att h st by (simp add: map_context_def del: kp_get.simps)
  then have "map_context x variable_set =
      Inr [JObj
             [(''_migration_id'', JStr (replace_char CHR ''-'' CHR ''_'' (slugify x v))),
              (''_relationships'',
                 JObj [(''space'', JObj [(''_migration_id'', JStr (replace_char CHR ''-'' CHR ''_'' (slugify x org)))]),
                       (''stacks'', JList stacks)]),
              (''_source_id'', JStr v),
              (''description'', kp_get variable_set [''attributes'', ''description'']),
              (''labels'', JList []),
              (''name'', kp_get variable_set [''attributes'', ''name''])]]"
    using h assms(3) by (simp add: single_context_def generate_migration_id_str del: kp_get.simps)
  then show "\<exists>r. map_context x variable_set = Inr [r] \<and> kp_get r [''_source_id''] = JStr v"
    by simp
qed


lemma two_project_set_mapped:
  "map_context (plain_exporter a) two_project_set =
     Inr [JObj
            [(''_migration_id'', JStr ''varset_1''),
             (''_relationships'',
                JObj [(''space'', JObj [(''_migration_id'', JStr ''prj_1'')]), (''stacks'', JList [])]),
             (''_source_id'', JStr ''prj-1_varset-1''),
             (''description'', JStr ''shared settings''),
             (''labels'', JList [JStr ''autoattach:*'']),
             (''name'', JStr ''prod'')],
          JObj
            [(''_migration_id'', JStr ''varset_1''),
             (''_relationships'',
                JObj [(''space'', JObj [(''_migration_id'', JStr ''prj_2'')]), (''stacks'', JList [])]),
             (''_source_id'', JStr ''prj-2_varset-1''),
             (''description'', JStr ''shared settings''),
             (''labels'', JList [JStr ''autoattach:*'']),
             (''name'', JStr ''prod'')]]"
  by code_simp

lemma workspace_level_set_mapped:
  "map_context (plain_exporter a) workspace_level_set =
     Inr [JObj
            [(''_migration_id'', JStr ''varset_2''),
             (''_relationships'',
                JObj [(''space'', JObj [(''_migration_id'', JStr ''org_a'')]),
                      (''stacks'', JList [JObj [(''_migration_id'', JStr ''ws_1'')],
                                          JObj [(''_migration_id'', JStr ''ws_2'')]])]),
             (''_source_id'', JStr ''varset-2''),
             (''description'', JStr ''shared settings''), (''labels'', JList []),
             (''name'', JStr ''dev'')]]"
  by code_simp

theorem variable_set_contexts_witness:
  "(\<exists>r1 r2. map_context (plain_exporter False) two_project_set = Inr [r1, r2]
       \<and> kp_get r1 [''_source_id''] = JStr ''prj-1_varset-1''
       \<and> kp_get r2 [''_source_id''] = JStr ''prj-2_varset-1''
       \<and> kp_get r1 [''_source_id''] \<noteq> kp_get r2 [''_source_id'']
       \<and> kp_get r1 [''name''] = JStr ''prod'' \<and> kp_get r2 [''name''] = JStr ''prod''
       \<and> kp_get r1 [''description''] = JStr ''shared settings''
       \<and> kp_get r2 [''description''] = JStr ''shared settings'')
   \<and> (\<exists>r. map_context (plain_exporter False) workspace_level_set = Inr [r]
       \<and> kp_get r [''_source_id''] = JStr ''varset-2'')"
proof -
  have a: "\<exists>r1 r2. map_context (plain_exporter False) two_project_set = Inr [r1, r2]
       \<and> kp_get r1 [''_source_id''] = JStr ''prj-1_varset-1''
       \<and> kp_get r2 [''_source_id''] = JStr ''prj-2_varset-1''
       \<and> kp_get r1 [''_source_id''] \<noteq> kp_get r2 [''_source_id'']
       \<and> kp_get r1 [''name''] = JStr ''prod'' \<and> kp_get r2 [''name''] = JStr ''prod''
       \<and> kp_get r1 [''description''] = JStr ''shared settings''
       \<and> kp_get r2 [''description''] = JStr ''shared settings''"
    using variable_set_contexts [of two_project_set _ "''varset-1''"
        "[(''id'', JStr ''prj-1''), (''type'', JStr ''projects'')]"
        "[(''id'', JStr ''prj-2''), (''type'', JStr ''projects'')]"
        "''prj-1''" "''prj-2''" "plain_exporter False" "[]" "''org-a''"]
    by (simp add: two_project_set_def variable_set_of_def reference_def)
  have b: "\<exists>r. map_context (plain_exporter False) workspace_level_set = Inr [r]
       \<and> kp_get r [''_source_id''] = JStr ''varset-2''"
    using variable_set_contexts [of workspace_level_set _ "''varset-2''" "[]" "[]" "[]" "[]"
        "plain_exporter False"
        "[reference ''workspaces'' ''ws-1'', reference ''workspaces'' ''ws-2'']" "''org-a''"]
    by (simp add: workspace_level_set_def variable_set_of_def reference_def attached_def)
  from a b show ?thesis by blast
qed

section \<open>The relationship expander\<close>

lemma find_in_resolves:
  "list_all is_record collection \<Longrightarrow>
   \<exists>r. find_in ref_id collection = Inr r \<and> resolves collection ref_id r"
proof (induction collection)
  case Nil
  then show ?case by (simp add: resolves_def has_source_id_def)
next
  case (Cons d ds)
  then obtain kvs where d: "d = JObj kvs" by (cases d) (simp_all add: is_record_def)
  show ?case
  proof (cases "py_eq (kp_get (JObj kvs) [''_source_id'']) ref_id")
    case True
    then have "resolves (d # ds) ref_id (JObj (AList.delete ''_relationships'' kvs))"
      by (simp add: resolves_def has_source_id_def d delete_conv')
    with True d show ?thesis by (simp del: kp_get.simps)
  next
    case False
    from Cons obtain r where r: "find_in ref_id ds = Inr r" "resolves ds ref_id r" by auto
    from False have "has_source_id ref_id (d # ds) = has_source_id ref_id ds"
      by (simp add: has_source_id_def d del: kp_get.simps)
    with r False d show ?thesis by (simp add: resolves_def del: kp_get.simps)
  qed
qed

lemma resolves_same_ids:
  "map (\<lambda>d. kp_get d [''_source_id'']) ds = map (\<lambda>d. kp_get d [''_source_id'']) ds0 \<Longrightarrow>
   resolves ds ref_id r = resolves ds0 ref_id r"
  by (simp add: resolves_def has_source_id_def del: kp_get.simps)

lemma well_formed_collection:
  assumes "well_formed data0" and "c \<in> set (map fst data0)"
  shows "\<exists>ds0. map_of data0 c = Some (JList ds0)"
proof -
  from assms(2) obtain v0 where v0: "map_of data0 c = Some v0"
    by (metis map_of_eq_None_iff not_Some_eq set_map)
  then have "(c, v0) \<in> set data0" by (rule map_of_SomeD)
  with assms(1) have "collection_ok v0"
    by (auto simp: well_formed_def list_all_iff)
  with v0 show ?thesis by (cases v0) (simp_all add: collection_ok_def)
qed

lemma find_entity_spec:
  assumes "keeps_ids data0 data" and "well_formed data0"
    and "pluralize type' \<in> set (map fst data0)"
  shows "\<exists>r. find_entity data type' ref_id = Inr r \<and> resolves (target data0 type') ref_id r"
proof -
  from well_formed_collection [OF assms(2,3)] obtain ds0 where
    ds0: "map_of data0 (pluralize type') = Some (JList ds0)" by blast
  with assms(1) obtain v where v: "map_of data (pluralize type') = Some v" "same_ids (JList ds0) v"
    by (auto simp: keeps_ids_def)
  then obtain ds where ds: "v = JList ds" "list_all is_record ds"
    "map (\<lambda>d. kp_get d [''_source_id'']) ds = map (\<lambda>d. kp_get d [''_source_id'']) ds0"
    by (cases v) (simp_all add: same_ids_def)
  from find_in_resolves [OF ds(2)] obtain r where
    r: "find_in ref_id ds = Inr r" "resolves ds ref_id r" by blast
  have "find_entity data type' ref_id = Inr r"
    using v ds r by (simp add: find_entity_def)
  moreover have "resolves (target data0 type') ref_id r"
    using r(2) resolves_same_ids [OF ds(3)] ds0 by (simp add: target_def)
  ultimately show ?thesis by blast
qed

lemma find_entities_spec:
  assumes "keeps_ids data0 data" and "well_formed data0"
    and "pluralize type' \<in> set (map fst data0)"
  shows "\<exists>rs. find_entities data type' ids = Inr rs
           \<and> list_all2 (resolves (target data0 type')) ids rs"
proof (induction ids)
  case Nil
  then show ?case by simp
next
  case (Cons i ids)
  from find_entity_spec [OF assms] obtain r where
    "find_entity data type' i = Inr r" "resolves (target data0 type') i r" by blast
  with Cons show ?case by auto
qed

lemma expand_ids_spec:
  assumes "keeps_ids data0 data" and "well_formed data0"
    and "pluralize type' \<in> set (map fst data0)"
  shows "\<exists>r. expand_ids data type' ids = Inr r \<and> resolved data0 type' ids r"
proof (cases ids)
  case (JList xs)
  from find_entities_spec [OF assms, of xs] obtain rs where
    "find_entities data type' xs = Inr rs" "list_all2 (resolves (target data0 type')) xs rs"
    by blast
  with JList show ?thesis by simp
qed (use find_entity_spec [OF assms] in simp_all)

lemma expand_types_spec:
  assumes "keeps_ids data0 data" and "well_formed data0"
  shows "list_all (\<lambda>item. pluralize (fst item) \<in> set (map fst data0)) items \<Longrightarrow>
         \<exists>rels. expand_types data items = Inr rels
           \<and> list_all2 (\<lambda>item rel. fst rel = fst item \<and> resolved data0 (fst item) (snd item) (snd rel))
                items rels"
proof (induction items)
  case Nil
  then show ?case by simp
next
  case (Cons item items)
  obtain t ids where item: "item = (t, ids)" by (cases item)
  with Cons.prems have "pluralize t \<in> set (map fst data0)" by simp
  from expand_ids_spec [OF assms this] obtain r where
    r: "expand_ids data t ids = Inr r" "resolved data0 t ids r" by blast
  from Cons obtain rels where
    "expand_types data items = Inr rels"
    "list_all2 (\<lambda>item rel. fst rel = fst item \<and> resolved data0 (fst item) (snd item) (snd rel)) items rels"
    by auto
  with r item show ?case by simp
qed

lemma resolved_lookup:
  "list_all2 (\<lambda>item rel. fst rel = fst item \<and> P (fst item) (snd item) (snd rel)) items rels \<Longrightarrow>
   distinct (map fst items) \<Longrightarrow> (t, ids) \<in> set items \<Longrightarrow>
   \<exists>r. map_of rels t = Some r \<and> P t ids r"
proof (induction items rels rule: list_all2_induct)
  case Nil
  then show ?case by simp
next
  case (Cons item items rel rels)
  show ?case
  proof (cases "fst item = t")
    case True
    with Cons.prems have "item = (t, ids)"
      by (cases item) (auto simp: rev_image_eqI)
    with Cons.hyps(1) show ?thesis by (cases rel) auto
  next
    case False
    with Cons show ?thesis by (cases rel) auto
  qed
qed


lemma expand_datum_spec:
  assumes "keeps_ids data0 data" and "well_formed data0" and "record_ok data0 d0"
  shows "\<exists>d. expand_datum x data d0 = Inr d \<and> expanded x data0 d0 d"
proof -
  from assms(3) obtain kvs where d0: "d0 = JObj kvs"
    by (cases d0) (simp_all add: record_ok_def is_record_def)
  from assms(3) obtain name where name: "kp_get d0 [''name''] = JStr name"
    by (cases "kp_get d0 [''name'']") (simp_all add: record_ok_def del: kp_get.simps)
  let ?m = "replace_char CHR ''-'' CHR ''_'' (slugify x name)"
  have gen: "generate_migration_id x [kp_get d0 [''name'']] = Inr ?m"
    using name by (simp add: generate_migration_id_def)
  have "\<exists>rels. (if truthy (kp_get d0 [''_relationships'']) then
                   (case kp_get d0 [''_relationships''] of
                      JObj items \<Rightarrow> expand_types data items
                    | _ \<Rightarrow> Inl AttributeError)
                 else Inr []) = Inr rels
          \<and> list_all (\<lambda>item. \<exists>r. map_of rels (fst item) = Some r
                 \<and> resolved data0 (fst item) (snd item) r) (references d0)"
  proof (cases "kp_get d0 [''_relationships'']")
    case (JObj items)
    with assms(3) have dist: "distinct (map fst items)"
      and ok: "list_all (\<lambda>item. pluralize (fst item) \<in> set (map fst data0)) items"
      by (simp_all add: record_ok_def del: kp_get.simps)
    from expand_types_spec [OF assms(1,2) ok] obtain rels where
      rels: "expand_types data items = Inr rels"
      and all: "list_all2 (\<lambda>item rel. fst rel = fst item
                  \<and> resolved data0 (fst item) (snd item) (snd rel)) items rels"
      by blast
    have look: "list_all (\<lambda>item. \<exists>r. map_of rels (fst item) = Some r
                 \<and> resolved data0 (fst item) (snd item) r) items"
      unfolding list_all_iff
    proof
      fix item assume "item \<in> set items"
      then have "(fst item, snd item) \<in> set items" by simp
      from resolved_lookup [OF all dist this]
      show "\<exists>r. map_of rels (fst item) = Some r \<and> resolved data0 (fst item) (snd item) r" .
    qed
    show ?thesis
    proof (cases "items = []")
      case True
      with JObj show ?thesis by (simp add: references_def del: kp_get.simps)
    next
      case False
      with JObj rels look show ?thesis by (simp add: references_def del: kp_get.simps)
    qed
  qed (use assms(3) in \<open>simp_all add: record_ok_def references_def del: kp_get.simps\<close>)
  then obtain rels where
    rels: "(if truthy (kp_get d0 [''_relationships'']) then
                   (case kp_get d0 [''_relationships''] of
                      JObj items \<Rightarrow> expand_types data items
                    | _ \<Rightarrow> Inl AttributeError)
                 else Inr []) = Inr rels"
    and look: "list_all (\<lambda>item. \<exists>r. map_of rels (fst item) = Some r
                 \<and> resolved data0 (fst item) (snd item) r) (references d0)"
    by blast
  let ?d = "JObj (AList.update ''_relationships'' (JObj rels)
                   (AList.update ''_migration_id'' (JStr ?m) kvs))"
  have run: "expand_datum x data d0 = Inr ?d"
    unfolding expand_datum_def using rels gen d0 by (simp del: kp_get.simps)
  have "list_all (\<lambda>item. resolved data0 (fst item) (snd item) (kp_get ?d [''_relationships'', fst item]))
          (references d0)"
    using look by (auto simp: list_all_iff update_conv')
  then have "expanded x data0 d0 ?d"
    unfolding expanded_def using gen d0 name
    by (simp add: is_record_def update_conv')
  with run show ?thesis by blast
qed

lemma keeps_ids_update:
  assumes "keeps_ids data0 data"
    and "map_of data0 c = Some (JList ds0)" and "map_of data c = Some (JList ds)"
    and "i < length ds" and "is_record d"
    and "kp_get d [''_source_id''] = kp_get (ds ! i) [''_source_id'']"
  shows "keeps_ids data0 (AList.update c (JList (ds[i := d])) data)"
proof -
  from assms(1,2) obtain v where "map_of data c = Some v" "same_ids (JList ds0) v"
    unfolding keeps_ids_def by blast
  with assms(3) have same: "same_ids (JList ds0) (JList ds)" by simp
  have c: "c \<in> fst ` set data"
    using assms(3) by (metis map_of_eq_None_iff option.distinct(1))
  have "map fst (AList.update c (JList (ds[i := d])) data) = map fst data"
    using c by (simp add: update_keys)
  with assms(1) have keys: "map fst (AList.update c (JList (ds[i := d])) data) = map fst data0"
    by (simp add: keeps_ids_def)
  have "map (\<lambda>d. kp_get d [''_source_id'']) (ds[i := d]) = map (\<lambda>d. kp_get d [''_source_id'']) ds"
    using assms(4,6) by (simp add: map_update list_update_same_conv del: kp_get.simps)
  moreover have "list_all is_record (ds[i := d])"
    using same assms(5) by (auto simp: same_ids_def list_all_iff dest: set_update_subset_insert [THEN subsetD])
  ultimately have "same_ids (JList ds0) (JList (ds[i := d]))"
    using same by (simp add: same_ids_def del: kp_get.simps)
  with assms(1,2) keys show ?thesis
    by (auto simp: keeps_ids_def update_conv')
qed


lemma expand_from_spec:
  assumes wf: "well_formed data0"
    and c0: "map_of data0 c = Some (JList ds0)"
    and ok: "list_all (record_ok data0) ds0"
  shows "keeps_ids data0 data \<Longrightarrow> map_of data c = Some (JList ds) \<Longrightarrow>
         length ds = length ds0 \<Longrightarrow> i + n = length ds0 \<Longrightarrow>
         (\<forall>j < i. expanded x data0 (ds0 ! j) (ds ! j)) \<Longrightarrow>
         (\<forall>j. i \<le> j \<and> j < length ds0 \<longrightarrow> ds ! j = ds0 ! j) \<Longrightarrow>
         \<exists>data' ds'. expand_from x c i n data = Inr data' \<and> keeps_ids data0 data'
           \<and> map_of data' c = Some (JList ds') \<and> length ds' = length ds0
           \<and> (\<forall>j < length ds0. expanded x data0 (ds0 ! j) (ds' ! j))
           \<and> (\<forall>c'. c' \<noteq> c \<longrightarrow> map_of data' c' = map_of data c')"
proof (induction n arbitrary: i data ds)
  case 0
  then show ?case by auto
next
  case (Suc n)
  from Suc.prems(4) have i: "i < length ds0" by simp
  with Suc.prems(6) have same: "ds ! i = ds0 ! i" by simp
  from ok i have "record_ok data0 (ds0 ! i)" by (simp add: list_all_length)
  from expand_datum_spec [OF Suc.prems(1) wf this, of x] obtain d where
    d: "expand_datum x data (ds0 ! i) = Inr d" and e: "expanded x data0 (ds0 ! i) d"
    by blast
  let ?ds = "ds[i := d]"
  let ?data = "AList.update c (JList ?ds) data"
  have keeps: "keeps_ids data0 ?data"
    using Suc.prems(1) c0 Suc.prems(2) i Suc.prems(3) e same
    by (intro keeps_ids_update) (simp_all add: expanded_def del: kp_get.simps)
  have at: "map_of ?data c = Some (JList ?ds)" by (simp add: update_conv')
  have len: "length ?ds = length ds0" using Suc.prems(3) by simp
  have sum: "Suc i + n = length ds0" using Suc.prems(4) by simp
  have before: "\<forall>j < Suc i. expanded x data0 (ds0 ! j) (?ds ! j)"
  proof (intro allI impI)
    fix j assume "j < Suc i"
    then show "expanded x data0 (ds0 ! j) (?ds ! j)"
      using Suc.prems(5) e i Suc.prems(3) by (cases "j = i") auto
  qed
  have after: "\<forall>j. Suc i \<le> j \<and> j < length ds0 \<longrightarrow> ?ds ! j = ds0 ! j"
    using Suc.prems(6) by auto
  from Suc.IH [OF keeps at len sum before after] obtain data' ds' where
    r: "expand_from x c (Suc i) n ?data = Inr data'" "keeps_ids data0 data'"
       "map_of data' c = Some (JList ds')" "length ds' = length ds0"
       "\<forall>j < length ds0. expanded x data0 (ds0 ! j) (ds' ! j)"
       "\<forall>c'. c' \<noteq> c \<longrightarrow> map_of data' c' = map_of ?data c'"
    by blast
  have "expand_from x c i (Suc n) data = Inr data'"
    using Suc.prems(2) d same r(1) by simp
  moreover have "\<forall>c'. c' \<noteq> c \<longrightarrow> map_of data' c' = map_of data c'"
    using r(6) by (simp add: update_conv')
  ultimately show ?case using r(2-5) by blast
qed

lemma well_formed_records:
  assumes "well_formed data0" and "map_of data0 c = Some (JList ds0)"
    and "c \<notin> set [''contexts'', ''context_variables'']"
  shows "list_all (record_ok data0) ds0"
proof -
  from assms(2) have "(c, JList ds0) \<in> set data0" by (rule map_of_SomeD)
  with assms(1,3) show ?thesis
    by (auto simp: well_formed_def list_all_iff)
qed

lemma expand_relationship_spec:
  assumes wf: "well_formed data0" and keeps: "keeps_ids data0 data"
    and c: "c \<in> set (map fst data0)" "c \<notin> set [''contexts'', ''context_variables'']"
    and same: "map_of data c = map_of data0 c"
  shows "\<exists>data'. expand_relationship x c data = Inr data' \<and> keeps_ids data0 data'
           \<and> expansion_of x data0 data' c
           \<and> (\<forall>c'. c' \<noteq> c \<longrightarrow> map_of data' c' = map_of data c')"
proof -
  from well_formed_collection [OF wf c(1)] obtain ds0 where
    ds0: "map_of data0 c = Some (JList ds0)" by blast
  from well_formed_records [OF wf ds0 c(2)] have ok: "list_all (record_ok data0) ds0" .
  from same ds0 have at: "map_of data c = Some (JList ds0)" by simp
  from expand_from_spec [OF wf ds0 ok keeps at, of 0 "length ds0" x] obtain data' ds' where
    r: "expand_from x c 0 (length ds0) data = Inr data'" "keeps_ids data0 data'"
       "map_of data' c = Some (JList ds')" "length ds' = length ds0"
       "\<forall>j < length ds0. expanded x data0 (ds0 ! j) (ds' ! j)"
       "\<forall>c'. c' \<noteq> c \<longrightarrow> map_of data' c' = map_of data c'"
    by auto
  have "expand_relationship x c data = Inr data'"
    using at r(1) by (simp add: expand_relationship_def)
  moreover have "expansion_of x data0 data' c"
    using ds0 r(3,4,5) by (simp add: expansion_of_def list_all2_conv_all_nth)
  ultimately show ?thesis using r(2,6) by blast
qed

lemma expansion_of_cong:
  "map_of data'' c = map_of data' c \<Longrightarrow> expansion_of x data0 data'' c = expansion_of x data0 data' c"
  by (simp add: expansion_of_def)

lemma expand_all_spec:
  assumes wf: "well_formed data0"
  shows "keeps_ids data0 data \<Longrightarrow> distinct cs \<Longrightarrow> set cs \<subseteq> set (map fst data0) \<Longrightarrow>
         (\<forall>c \<in> set cs. map_of data c = map_of data0 c) \<Longrightarrow>
         \<exists>data'. expand_all x cs data = Inr data' \<and> keeps_ids data0 data'
           \<and> (\<forall>c. c \<notin> set cs \<longrightarrow> map_of data' c = map_of data c)
           \<and> (\<forall>c \<in> set cs.
                 if c \<in> set [''contexts'', ''context_variables'']
                 then map_of data' c = map_of data0 c
                 else expansion_of x data0 data' c)"
proof (induction cs arbitrary: data)
  case Nil
  then show ?case by simp
next
  case (Cons c cs)
  show ?case
  proof (cases "c \<in> set [''contexts'', ''context_variables'']")
    case True
    from Cons.prems have "distinct cs" "set cs \<subseteq> set (map fst data0)"
      "\<forall>c \<in> set cs. map_of data c = map_of data0 c" by auto
    from Cons.IH [OF Cons.prems(1) this] obtain data' where
      r: "expand_all x cs data = Inr data'" "keeps_ids data0 data'"
         "\<forall>c. c \<notin> set cs \<longrightarrow> map_of data' c = map_of data c"
         "\<forall>c \<in> set cs.
                 if c \<in> set [''contexts'', ''context_variables'']
                 then map_of data' c = map_of data0 c
                 else expansion_of x data0 data' c"
      by blast
    from Cons.prems(2) have notin: "c \<notin> set cs" by simp
    with r(3) Cons.prems(4) have "map_of data' c = map_of data0 c" by simp
    moreover have "expand_all x (c # cs) data = Inr data'" using True r(1) by simp
    ultimately show ?thesis using True r(2,3,4) by auto
  next
    case False
    from Cons.prems have c: "c \<in> set (map fst data0)" and same: "map_of data c = map_of data0 c"
      by auto
    from expand_relationship_spec [OF wf Cons.prems(1) c False same, of x] obtain data1 where
      s: "expand_relationship x c data = Inr data1" "keeps_ids data0 data1"
         "expansion_of x data0 data1 c"
         "\<forall>c'. c' \<noteq> c \<longrightarrow> map_of data1 c' = map_of data c'"
      by blast
    from Cons.prems(2) have notin: "c \<notin> set cs" and dist: "distinct cs" by simp_all
    have sub: "set cs \<subseteq> set (map fst data0)" using Cons.prems(3) by simp
    have rest: "\<forall>c' \<in> set cs. map_of data1 c' = map_of data0 c'"
      using s(4) notin Cons.prems(4) by auto
    from Cons.IH [OF s(2) dist sub rest] obtain data' where
      r: "expand_all x cs data1 = Inr data'" "keeps_ids data0 data'"
         "\<forall>c. c \<notin> set cs \<longrightarrow> map_of data' c = map_of data1 c"
         "\<forall>c \<in> set cs.
                 if c \<in> set [''contexts'', ''context_variables'']
                 then map_of data' c = map_of data0 c
                 else expansion_of x data0 data' c"
      by blast
    have run: "expand_all x (c # cs) data = Inr data'"
      using False s(1) r(1) by simp
    have "map_of data' c = map_of data1 c" using r(3) notin by simp
    then have here: "expansion_of x data0 data' c"
      using s(3) expansion_of_cong by blast
    have out: "\<forall>c'. c' \<notin> set (c # cs) \<longrightarrow> map_of data' c' = map_of data c'"
      using r(3) s(4) by simp
    show ?thesis
      using run r(2) out here r(4) False by auto
  qed
qed

lemma keeps_ids_refl:
  assumes "well_formed data0"
  shows "keeps_ids data0 data0"
  unfolding keeps_ids_def
proof (intro conjI allI impI)
  fix c v0 assume v0: "map_of data0 c = Some v0"
  then have "(c, v0) \<in> set data0" by (rule map_of_SomeD)
  with assms have "collection_ok v0" by (auto simp: well_formed_def list_all_iff)
  then have "same_ids v0 v0" by (cases v0) (simp_all add: collection_ok_def same_ids_def)
  with v0 show "\<exists>v. map_of data0 c = Some v \<and> same_ids v0 v" by blast
qed simp

lemma expand_relationships_spec:
  assumes wf: "well_formed data0"
  shows "\<exists>data'. expand_relationships x data0 = Inr data' \<and> map fst data' = map fst data0
           \<and> (\<forall>c \<in> set (map fst data0).
                 if c \<in> set [''contexts'', ''context_variables'']
                 then map_of data' c = map_of data0 c
                 else expansion_of x data0 data' c)"
proof -
  have d: "distinct (map fst data0)" using wf by (simp add: well_formed_def)
  from expand_all_spec [OF wf keeps_ids_refl [OF wf] d, of x] obtain data' where
    "expand_all x (map fst data0) data0 = Inr data'" "keeps_ids data0 data'"
    "\<forall>c \<in> set (map fst data0).
                 if c \<in> set [''contexts'', ''context_variables'']
                 then map_of data' c = map_of data0 c
                 else expansion_of x data0 data' c"
    by auto
  then show ?thesis
    by (auto simp: expand_relationships_def keeps_ids_def)
qed


lemma expansion_of_nth:
  assumes "expansion_of x data0 data' c" and "map_of data0 c = Some (JList ds)"
  shows "\<exists>ds'. map_of data' c = Some (JList ds') \<and> length ds' = length ds
           \<and> (\<forall>i < length ds. expanded x data0 (ds ! i) (ds' ! i))"
proof -
  from assms obtain v where v: "map_of data' c = Some v"
    by (cases "map_of data' c") (simp_all add: expansion_of_def)
  with assms obtain ds' where "v = JList ds'" "list_all2 (expanded x data0) ds ds'"
    by (cases v) (simp_all add: expansion_of_def)
  with v show ?thesis by (auto simp: list_all2_conv_all_nth)
qed

text \<open>
  C3.  On well-formed data the expander returns, and in every collection it expands (all
  but contexts and context variables) every reference of every record is resolved: a
  reference to an id no record of the pluralized target collection has is \<^verbatim>\<open>null\<close>,
  any other is a record with that \<^verbatim>\<open>_source_id\<close> and without \<^verbatim>\<open>_relationships\<close>,
  and a list of references is the list of these, in order.  A reference that cannot be
  resolved raises nothing.
\<close>

theorem relationships_resolved:
  assumes "well_formed data"
  shows "\<exists>data'. expand_relationships x data = Inr data'
    \<and> (\<forall>c ds i type' ids.
          c \<notin> set [''contexts'', ''context_variables''] \<and> map_of data c = Some (JList ds)
          \<and> i < length ds \<and> (type', ids) \<in> set (references (ds ! i)) \<longrightarrow>
          (\<exists>ds'. map_of data' c = Some (JList ds') \<and> length ds' = length ds
             \<and> kp_get (ds' ! i) [''_source_id''] = kp_get (ds ! i) [''_source_id'']
             \<and> resolved data type' ids (kp_get (ds' ! i) [''_relationships'', type'])))"
proof -
  from expand_relationships_spec [OF assms, of x] obtain data' where
    run: "expand_relationships x data = Inr data'" and
    all: "\<forall>c \<in> set (map fst data).
            if c \<in> set [''contexts'', ''context_variables'']
            then map_of data' c = map_of data c
            else expansion_of x data data' c"
    by blast
  have "\<exists>ds'. map_of data' c = Some (JList ds') \<and> length ds' = length ds
             \<and> kp_get (ds' ! i) [''_source_id''] = kp_get (ds ! i) [''_source_id'']
             \<and> resolved data type' ids (kp_get (ds' ! i) [''_relationships'', type'])"
    if h: "c \<notin> set [''contexts'', ''context_variables''] \<and> map_of data c = Some (JList ds)
          \<and> i < length ds \<and> (type', ids) \<in> set (references (ds ! i))"
    for c ds i type' ids
  proof -
    from h have "c \<in> set (map fst data)"
      by (metis map_of_eq_None_iff option.distinct(1) set_map)
    with all h have "expansion_of x data data' c" by auto
    from expansion_of_nth [OF this] h obtain ds' where
      ds': "map_of data' c = Some (JList ds')" "length ds' = length ds"
           "expanded x data (ds ! i) (ds' ! i)"
      by blast
    from ds'(3) h have "resolved data type' ids (kp_get (ds' ! i) [''_relationships'', type'])"
      by (auto simp: expanded_def list_all_iff simp del: kp_get.simps)
    with ds' show ?thesis by (auto simp: expanded_def simp del: kp_get.simps)
  qed
  with run show ?thesis by blast
qed

lemma small_graph_well_formed: "well_formed small_graph"
  by code_simp

lemma small_graph_run:
  "expand_relationships (plain_exporter False) small_graph = Inr small_graph_expanded"
  by code_simp

theorem relationships_resolved_witness:
  "well_formed small_graph
   \<and> expand_relationships (plain_exporter False) small_graph = Inr small_graph_expanded
   \<and> resolved small_graph ''space'' (JStr ''prj-9'') JNull
   \<and> resolved small_graph ''stack'' (JList [JStr ''ws-1'', JStr ''ws-3''])
        (JList [JObj [(''_source_id'', JStr ''ws-1''), (''name'', JStr ''net''),
                      (''_migration_id'', JStr ''net'')], JNull])"
proof -
  from relationships_resolved [OF small_graph_well_formed, of "plain_exporter False"]
  have "expand_relationships (plain_exporter False) small_graph = Inr small_graph_expanded"
    using small_graph_run by simp
  moreover have "resolved small_graph ''space'' (JStr ''prj-9'') JNull" by code_simp
  moreover have "resolved small_graph ''stack'' (JList [JStr ''ws-1'', JStr ''ws-3''])
        (JList [JObj [(''_source_id'', JStr ''ws-1''), (''name'', JStr ''net''),
                      (''_migration_id'', JStr ''net'')], JNull])" by code_simp
  ultimately show ?thesis using small_graph_well_formed by blast
qed

text \<open>
  C4, as the code has it.  In every collection the expander expands, each record has
  the \<^verbatim>\<open>_migration_id\<close> \<^verbatim>\<open>slugify(name).replace("-", "_")\<close>, so two records whose
  names do not collide under this generation have distinct migration ids.  The contexts
  and the context variables are left as the mapper made them.
\<close>

theorem migration_ids:
  assumes "well_formed data"
  shows "\<exists>data'. expand_relationships x data = Inr data'
    \<and> (\<forall>c ds. map_of data c = Some (JList ds) \<longrightarrow>
          (if c \<in> set [''contexts'', ''context_variables''] then map_of data' c = Some (JList ds)
           else (\<exists>ds'. map_of data' c = Some (JList ds') \<and> length ds' = length ds
                  \<and> (\<forall>i < length ds'. \<exists>name.
                        kp_get (ds' ! i) [''name''] = JStr name
                        \<and> kp_get (ds' ! i) [''_migration_id'']
                            = JStr (replace_char CHR ''-'' CHR ''_'' (slugify x name)))
                  \<and> (\<forall>i < length ds'. \<forall>j < length ds'.
                        generate_migration_id x [kp_get (ds' ! i) [''name'']]
                          \<noteq> generate_migration_id x [kp_get (ds' ! j) [''name'']] \<longrightarrow>
                        kp_get (ds' ! i) [''_migration_id''] \<noteq> kp_get (ds' ! j) [''_migration_id'']))))"
proof -
  from expand_relationships_spec [OF assms, of x] obtain data' where
    run: "expand_relationships x data = Inr data'" and
    all: "\<forall>c \<in> set (map fst data).
            if c \<in> set [''contexts'', ''context_variables'']
            then map_of data' c = map_of data c
            else expansion_of x data data' c"
    by blast
  have "if c \<in> set [''contexts'', ''context_variables''] then map_of data' c = Some (JList ds)
           else (\<exists>ds'. map_of data' c = Some (JList ds') \<and> length ds' = length ds
                  \<and> (\<forall>i < length ds'. \<exists>name.
                        kp_get (ds' ! i) [''name''] = JStr name
                        \<and> kp_get (ds' ! i) [''_migration_id'']
                            = JStr (replace_char CHR ''-'' CHR ''_'' (slugify x name)))
                  \<and> (\<forall>i < length ds'. \<forall>j < length ds'.
                        generate_migration_id x [kp_get (ds' ! i) [''name'']]
                          \<noteq> generate_migration_id x [kp_get (ds' ! j) [''name'']] \<longrightarrow>
                        kp_get (ds' ! i) [''_migration_id''] \<noteq> kp_get (ds' ! j) [''_migration_id'']))"
    if h: "map_of data c = Some (JList ds)" for c ds
  proof (cases "c \<in> set [''contexts'', ''context_variables'']")
    case True
    from h have "c \<in> set (map fst data)"
      by (metis map_of_eq_None_iff option.distinct(1) set_map)
    with all True h show ?thesis by auto
  next
    case False
    from h have "c \<in> set (map fst data)"
      by (metis map_of_eq_None_iff option.distinct(1) set_map)
    with all False have "expansion_of x data data' c" by auto
    from expansion_of_nth [OF this h] obtain ds' where
      ds': "map_of data' c = Some (JList ds')" "length ds' = length ds"
           "\<forall>i < length ds. expanded x data (ds ! i) (ds' ! i)"
      by blast
    have gen: "\<exists>name. kp_get (ds' ! i) [''name''] = JStr name
                 \<and> kp_get (ds' ! i) [''_migration_id'']
                     = JStr (replace_char CHR ''-'' CHR ''_'' (slugify x name))"
      if "i < length ds'" for i
    proof -
      from that ds' have e: "expanded x data (ds ! i) (ds' ! i)" by simp
      then obtain m where m: "generate_migration_id x [kp_get (ds ! i) [''name'']] = Inr m"
        "kp_get (ds' ! i) [''_migration_id''] = JStr m"
        "kp_get (ds' ! i) [''name''] = kp_get (ds ! i) [''name'']"
        by (auto simp: expanded_def split: sum.splits simp del: kp_get.simps)
      then obtain name where "kp_get (ds ! i) [''name''] = JStr name"
        by (cases "kp_get (ds ! i) [''name'']")
           (simp_all add: generate_migration_id_def del: kp_get.simps)
      with m show ?thesis by (simp add: generate_migration_id_def del: kp_get.simps)
    qed
    have "kp_get (ds' ! i) [''_migration_id''] \<noteq> kp_get (ds' ! j) [''_migration_id'']"
      if "i < length ds'" "j < length ds'"
        "generate_migration_id x [kp_get (ds' ! i) [''name'']]
           \<noteq> generate_migration_id x [kp_get (ds' ! j) [''name'']]" for i j
      using gen [OF that(1)] gen [OF that(2)] that(3)
      by (auto simp: generate_migration_id_def simp del: kp_get.simps)
    with False ds'(1,2) gen show ?thesis by (simp del: kp_get.simps)
  qed
  with run show ?thesis by blast
qed

theorem migration_ids_witness:
  "well_formed small_graph
   \<and> expand_relationships (plain_exporter False) small_graph = Inr small_graph_expanded
   \<and> map (\<lambda>d. kp_get d [''_migration_id'']) (target small_graph_expanded ''stack'')
       = [JStr ''net'', JStr ''db'']"
proof -
  from migration_ids [OF small_graph_well_formed, of "plain_exporter False"]
  have "expand_relationships (plain_exporter False) small_graph = Inr small_graph_expanded"
    using small_graph_run by simp
  moreover have "map (\<lambda>d. kp_get d [''_migration_id'']) (target small_graph_expanded ''stack'')
       = [JStr ''net'', JStr ''db'']" by code_simp
  ultimately show ?thesis using small_graph_well_formed by blast
qed

text \<open>
  The claim as it is written fails in the contexts: a variable set attached to two
  projects is mapped to two contexts with one \<^verbatim>\<open>_migration_id\<close>, generated from the id
  of the variable set and not from its name, and the expander leaves them so.
\<close>

theorem context_copies_share_migration_id:
  "map_contexts_data (plain_exporter False) (JObj [(''variable_sets'', JList [two_project_set])])
     = Inr two_project_contexts
   \<and> kp_get (two_project_contexts ! 0) [''_source_id''] \<noteq> kp_get (two_project_contexts ! 1) [''_source_id'']
   \<and> kp_get (two_project_contexts ! 0) [''_migration_id''] = JStr ''varset_1''
   \<and> kp_get (two_project_contexts ! 1) [''_migration_id''] = JStr ''varset_1''
   \<and> generate_migration_id (plain_exporter False) [kp_get (two_project_contexts ! 0) [''name'']]
       = Inr ''prod''
   \<and> expand_relationships (plain_exporter False)
        [(''spaces'', JList []), (''contexts'', JList two_project_contexts)]
       = Inr [(''spaces'', JList []), (''contexts'', JList two_project_contexts)]"
  by code_simp

section \<open>The enrichment saga\<close>

lemma quiet_refl: "quiet w w"
  by (simp add: quiet_def)

lemma quiet_trans: "quiet w w' \<Longrightarrow> quiet w' w'' \<Longrightarrow> quiet w w''"
  by (simp add: quiet_def)






















lemma server_agent: "agent_started (agent_seen (server failing run)) 0"
  by code_simp



lemma recover_values_armed:
  assumes "recover_values env pool_id i vars st data w = Some (r, st', data', w')"
    and "current_workspace_id st = Some i" and "armed st"
  shows "armed st' \<and> agent_pool_id st' = agent_pool_id st \<and> agent_container st' = agent_container st"
  using assms
  by (auto simp: recover_values_def armed_def Let_def
           split: prod.splits sum.splits option.splits)

lemma enrich_workspace_armed:
  assumes "enrich_workspace env pool_id i vars st data w = Some (r, st', data', w')" and "armed st"
  shows "armed st' \<and> agent_pool_id st' = agent_pool_id st \<and> agent_container st' = agent_container st"
proof -
  let ?st = "st\<lparr>current_workspace_id := Some i\<rparr>"
  have a: "armed ?st" using assms(2) by (auto simp: armed_def)
  show ?thesis
  proof (cases "find_workspace data (JStr i)")
    case (Inl e)
    with assms a show ?thesis by (auto simp: enrich_workspace_def Let_def)
  next
    case (Inr workspace)
    show ?thesis
    proof (cases "workspace = JNull
        \<or> kp_get workspace [''relationships'', ''current-configuration-version'', ''data'', ''id''] = JNull")
      case True
      with Inr assms a show ?thesis
        by (auto simp: enrich_workspace_def Let_def simp del: kp_get.simps split: if_splits)
    next
      case False
      with Inr assms(1) have "recover_values env pool_id i vars ?st data w = Some (r, st', data', w')"
        by (simp add: enrich_workspace_def Let_def del: kp_get.simps)
      from recover_values_armed [OF this _ a] show ?thesis by simp
    qed
  qed
qed

lemma enrich_workspaces_armed:
  "enrich_workspaces env pool_id workspaces st data w = Some (r, st', data', w') \<Longrightarrow> armed st \<Longrightarrow>
   armed st' \<and> agent_pool_id st' = agent_pool_id st \<and> agent_container st' = agent_container st"
proof (induction workspaces arbitrary: st data w)
  case Nil
  then show ?case by simp
next
  case (Cons item workspaces)
  obtain i vars where item: "item = (i, vars)" by (cases item)
  from Cons.prems(1) item obtain r1 st1 data1 w1 where
    one: "enrich_workspace env pool_id i vars st data w = Some (r1, st1, data1, w1)"
    by (auto split: option.splits)
  from enrich_workspace_armed [OF one Cons.prems(2)] have
    a1: "armed st1" "agent_pool_id st1 = agent_pool_id st" "agent_container st1 = agent_container st"
    by simp_all
  show ?case
  proof (cases r1)
    case (Some e)
    with Cons.prems(1) item one a1 show ?thesis by simp
  next
    case None
    with Cons.prems(1) item one have
      "enrich_workspaces env pool_id workspaces st1 data1 w1 = Some (r, st', data', w')" by simp
    from Cons.IH [OF this a1(1)] a1 show ?thesis by simp
  qed
qed

lemma try_block_armed:
  assumes "try_block env organization_id workspaces data w = Some (r, st, data', w1)"
  shows "armed st"
proof -
  have "armed st'" if "enrich_workspaces env pool_id workspaces st0 data w0 = Some (r', st', d', w')"
    "armed st0" for pool_id st0 w0 r' st' d' w'
    using enrich_workspaces_armed [OF that] by simp
  with assms show ?thesis
    by (auto simp: try_block_def Let_def armed_def
             split: prod.splits sum.splits option.splits bool.splits)
qed

section \<open>The cleanup of a saga\<close>

lemma attempted_clean:
  "\<not> list_ex failing ss \<Longrightarrow> attempted failing ss = map (\<lambda>s. (s, True)) ss"
  by (induction ss) auto

lemma attempted_failure:
  "list_ex failing ss \<Longrightarrow>
     \<exists>before s after. ss = before @ s # after \<and> \<not> list_ex failing before \<and> failing s
       \<and> attempted failing ss = map (\<lambda>s. (s, True)) before @ [(s, False)]"
proof (induction ss)
  case Nil
  then show ?case by simp
next
  case (Cons a ss)
  show ?case
  proof (cases "failing a")
    case True
    then have "a # ss = [] @ a # ss \<and> \<not> list_ex failing [] \<and> failing a
       \<and> attempted failing (a # ss) = map (\<lambda>s. (s, True)) [] @ [(a, False)]"
      by simp
    then show ?thesis by blast
  next
    case False
    with Cons.prems have "list_ex failing ss" by simp
    from Cons.IH [OF this] obtain before s after where
      "ss = before @ s # after" "\<not> list_ex failing before" "failing s"
      "attempted failing ss = map (\<lambda>s. (s, True)) before @ [(s, False)]"
      by blast
    with False have "a # ss = (a # before) @ s # after \<and> \<not> list_ex failing (a # before) \<and> failing s
       \<and> attempted failing (a # ss) = map (\<lambda>s. (s, True)) (a # before) @ [(s, False)]"
      by simp
    then show ?thesis by blast
  qed
qed

lemma finally_block_attempted:
  assumes "armed st"
  shows "\<exists>w2. finally_block env st w1
            = (if list_ex (fails env) (cleanup_sites st) then Some RuntimeError else None, w2)
          \<and> trace w2 = trace w1 @ attempted (fails env) (cleanup_sites st)"
  using assms
  by (cases "restored_agent st"; cases "current_workspace_id st"; cases "workspace_data_backup st";
      cases "agent_container st"; cases "agent_pool_id st")
     (simp_all add: finally_block_def armed_def cleanup_sites_def restore_workspace_exec_mode_def
        stop_agent_container_def remove_agent_pool_def call_def)

lemma varset_finally_block_attempted:
  assumes "varset_armed st"
  shows "\<exists>w2. varset_finally_block env st w1
            = (if list_ex (fails env) (varset_cleanup_sites st) then Some RuntimeError else None, w2)
          \<and> trace w2 = trace w1 @ attempted (fails env) (varset_cleanup_sites st)"
  using assms
  by (cases "new_workspace st"; cases "var_set_reset st"; cases "var_set_id st";
      cases "variable_set_relationship_backup st";
      cases "varset_agent_container st"; cases "varset_agent_pool_id st")
     (simp_all add: varset_finally_block_def varset_armed_def varset_cleanup_sites_def
        reset_variable_set_relationships_def delete_workspace_def
        stop_agent_container_def remove_agent_pool_def call_def split: option.splits)

lemma recover_varset_armed:
  assumes "recover_varset env workspace_id vs_id st variables w = Some (r, st', variables', w')"
    and "varset_armed st"
  shows "varset_armed st'"
  using assms
  by (auto simp: recover_varset_def varset_armed_def Let_def
           split: prod.splits sum.splits option.splits)

lemma recover_varsets_armed:
  assumes "recover_varsets env workspace_id var_sets st variables w = Some (r, st', variables', w')"
    and "varset_armed st"
  shows "varset_armed st'"
  using assms
proof (induction var_sets arbitrary: st variables w)
  case Nil
  then show ?case by simp
next
  case (Cons vs_id var_sets)
  show ?case
  proof (cases "recover_varset env workspace_id vs_id st variables w")
    case None
    with Cons.prems show ?thesis by simp
  next
    case (Some res)
    obtain r1 st1 v1 w1 where res: "res = (r1, st1, v1, w1)" by (cases res)
    from Some res Cons.prems(2) have a: "varset_armed st1"
      using recover_varset_armed by blast
    show ?thesis
    proof (cases r1)
      case None
      with Some res Cons.prems(1) have
        "recover_varsets env workspace_id var_sets st1 v1 w1 = Some (r, st', variables', w')"
        by simp
      from Cons.IH [OF this a] show ?thesis .
    next
      case (Some e)
      with \<open>recover_varset env workspace_id vs_id st variables w = Some res\<close> res Cons.prems(1) a
      show ?thesis by simp
    qed
  qed
qed

lemma varset_armed_update:
  "varset_armed (st\<lparr>varset_agent_pool_id := p\<rparr>) = varset_armed st"
  "varset_armed (st\<lparr>varset_agent_container := c\<rparr>) = varset_armed st"
  "varset_armed (st\<lparr>new_workspace := n\<rparr>) = varset_armed st"
  by (simp_all add: varset_armed_def)

lemma enrich_organization_varsets_armed:
  assumes "enrich_organization_varsets srv organization_id variable_sets st variables w
             = Some (r, st', variables', w')"
    and "varset_armed st"
  shows "varset_armed st'"
proof -
  have "varset_armed st2" if "recover_varsets env workspace_id var_sets st1 v1 w1 = Some (r2, st2, v2, w2)"
    "varset_armed st1" for env workspace_id var_sets st1 v1 w1 r2 st2 v2 w2
    using recover_varsets_armed [OF that] .
  then show ?thesis
    using assms
    by (auto simp: enrich_organization_varsets_def Let_def varset_armed_update
             split: prod.splits sum.splits option.splits bool.splits)
qed

lemma enrich_organizations_varsets_armed:
  assumes "enrich_organizations_varsets srv organizations variable_sets st variables w
             = Some (r, st', variables', w')"
    and "varset_armed st"
  shows "varset_armed st'"
  using assms
proof (induction organizations arbitrary: st variables w)
  case Nil
  then show ?case by simp
next
  case (Cons organization_id organizations)
  show ?case
  proof (cases "enrich_organization_varsets srv organization_id variable_sets st variables w")
    case None
    with Cons.prems show ?thesis by simp
  next
    case (Some res)
    obtain r1 st1 v1 w1 where res: "res = (r1, st1, v1, w1)" by (cases res)
    from Some res Cons.prems(2) have a: "varset_armed st1"
      using enrich_organization_varsets_armed by blast
    show ?thesis
    proof (cases r1)
      case None
      with Some res Cons.prems(1) have
        "enrich_organizations_varsets srv organizations variable_sets st1 v1 w1
           = Some (r, st', variables', w')"
        by simp
      from Cons.IH [OF this a] show ?thesis .
    next
      case (Some e)
      with \<open>enrich_organization_varsets srv organization_id variable_sets st variables w = Some res\<close>
        res Cons.prems(1) a
      show ?thesis by simp
    qed
  qed
qed

lemma varset_try_block_armed:
  assumes "varset_try_block srv organizations variable_sets variables w = Some (r, st, variables', w1)"
  shows "varset_armed st"
  using enrich_organizations_varsets_armed [OF assms [unfolded varset_try_block_def]]
  by (simp add: varset_armed_def)

lemma no_run_data_try_stop:
  "\<exists>w1. try_block (server [StopContainer] None) ''org-a'' [(''ws-1'', [(''var-1'', ''TOKEN'')])]
           one_workspace one_workspace_world
         = Some (Some TerraformExporterPlanError,
                 \<lparr>agent_pool_id = Some ''apool-1'', agent_container = Some ''smk-tfc-agent-org-a'',
                  current_workspace_id = Some ''ws-1'', workspace_data_backup = Some remote_settings,
                  restored_agent = False\<rparr>,
                 one_workspace, w1)
       \<and> trace w1 = [(CreatePool, True), (CreateToken, True), (DockerRun, True), (Backup ''ws-1'', True),
                      (Repoint ''ws-1'', True), (TriggerPlan ''ws-1'', True)]"
proof -
  have w: "find_workspace one_workspace (JStr ''ws-1'') = Inr (hd (case kp_get one_workspace [''workspaces''] of JList ws \<Rightarrow> ws | _ \<Rightarrow> []))"
    by (simp add: one_workspace_def find_workspace_def)
  have a: "agent_started (\<lambda>n. 2 \<le> n) 0"
    using server_agent [of "[]" None] by (simp add: server_def)
  show ?thesis
    by (simp add: try_block_def create_agent_pool_def start_agent_container_def call_def a
          Let_def enrich_workspace_def recover_values_def backup_workspace_def
          repoint_workspace_def trigger_plan_def one_workspace_world_def server_def w
          del: agent_started.simps)
       (simp add: one_workspace_def)
qed

lemma no_run_data_varset_try:
  "\<exists>w1. varset_try_block (varset_server [] [ResetFinally ''varset-1''] None) [''org-a'']
           [(''varset-1'', ''org-a'')] [(''varset-1'', ''TOKEN'', None)] one_varset_world
         = Some (Some TerraformExporterPlanError,
                 \<lparr>new_workspace = Some ''ws-smk'',
                  variable_set_relationship_backup = Some
                    \<lparr>attr_global = JBool False, attr_priority = JBool False,
                     rel_workspaces = JList [JObj [(''id'', JStr ''ws-1''), (''type'', JStr ''workspaces'')]],
                     rel_projects = JList []\<rparr>,
                  var_set_reset = False, var_set_id = Some ''varset-1'',
                  varset_agent_container = Some ''smk-tfc-agent-org-a'',
                  varset_agent_pool_id = Some ''apool-1''\<rparr>,
                 [(''varset-1'', ''TOKEN'', None)], w1)
       \<and> trace w1 = [(ListProjects, True), (CreatePool, True), (CreateToken, True), (DockerRun, True),
                      (CreateWorkspace, True), (PushConfiguration, True), (Repoint ''ws-smk'', True),
                      (BackupVarSet ''varset-1'', True), (AttachVarSet ''varset-1'', True),
                      (PlanVarSet ''varset-1'', True)]"
proof -
  have a: "agent_started (\<lambda>n. 2 \<le> n) 0"
    using server_agent [of "[]" None] by (simp add: server_def)
  show ?thesis
    by (simp add: varset_try_block_def enrich_organization_varsets_def varset_server_def
          list_projects_def create_agent_pool_def start_agent_container_def call_def a
          create_workspace_def push_configuration_def repoint_workspace_def
          Let_def recover_varset_def backup_variable_set_def attach_variable_set_def
          plan_variable_set_def one_varset_world_def server_def
          del: agent_started.simps)
qed

text \<open>
  C9, as the code has it, for the two sagas.  When the \<^verbatim>\<open>try\<close> block ends, with or
  without an exception, the \<^verbatim>\<open>finally\<close> block calls from each of its places once and
  in order, up to the first call that fails.  The places are, for the workspaces
  (lines 769-779), the restoration of the workspace when one is due, the stop of the
  container and the deletion of the agent pool when there is one; for the variable
  sets (lines 562-579), the deletion of the new workspace when there is one, the
  restoration of the variable set when one is due, the stop of the container and the
  deletion of the agent pool.  When no call fails, the saga ends as the \<^verbatim>\<open>try\<close> block
  did: an exception raised there is the one the caller gets.  When a call fails, its
  error is the one the caller gets, in place of the exception of the \<^verbatim>\<open>try\<close> block,
  and the calls after it are not made.
\<close>

theorem cleanup_runs_once:
  "(try_block env organization_id workspaces data w = Some (raised, st, data', w1) \<longrightarrow>
      (\<exists>w2. enrich_organization env organization_id workspaces data w
               = Some (if list_ex (fails env) (cleanup_sites st) then Some RuntimeError else raised,
                       data', w2)
            \<and> trace w2 = trace w1 @ attempted (fails env) (cleanup_sites st))
      \<and> cleanup_sites st
          = (if restored_agent st then [] else [RestoreFinally (the (current_workspace_id st))])
            @ (if agent_container st = None then [] else [StopContainer])
            @ (if agent_pool_id st = None \<or> agent_pool_id st = Some [] then [] else [DeletePool]))
   \<and> (varset_try_block srv organizations variable_sets variables vw
        = Some (vraised, vst, variables', vw1) \<longrightarrow>
      (\<exists>vw2. enrich_variable_set_data srv organizations variable_sets variables vw
                = Some (if list_ex (fails (at_end srv)) (varset_cleanup_sites vst)
                        then Some RuntimeError else vraised,
                        variables', vw2)
            \<and> trace vw2 = trace vw1 @ attempted (fails (at_end srv)) (varset_cleanup_sites vst))
      \<and> varset_cleanup_sites vst
          = (if new_workspace vst = None then [] else [DeleteWorkspace (the (new_workspace vst))])
            @ (if var_set_reset vst then [] else [ResetFinally (the (var_set_id vst))])
            @ (if varset_agent_container vst = None then [] else [StopContainer])
            @ (if varset_agent_pool_id vst = None \<or> varset_agent_pool_id vst = Some [] then []
               else [DeletePool]))"
proof (intro conjI impI)
  assume t: "try_block env organization_id workspaces data w = Some (raised, st, data', w1)"
  then have a: "armed st" by (rule try_block_armed)
  from finally_block_attempted [OF a, of env w1] obtain w2 where
    f: "finally_block env st w1
          = (if list_ex (fails env) (cleanup_sites st) then Some RuntimeError else None, w2)"
    and tr: "trace w2 = trace w1 @ attempted (fails env) (cleanup_sites st)"
    by blast
  have "enrich_organization env organization_id workspaces data w
          = Some (if list_ex (fails env) (cleanup_sites st) then Some RuntimeError else raised, data', w2)"
    using t f by (simp add: enrich_organization_def)
  with tr show "\<exists>w2. enrich_organization env organization_id workspaces data w
               = Some (if list_ex (fails env) (cleanup_sites st) then Some RuntimeError else raised,
                       data', w2)
            \<and> trace w2 = trace w1 @ attempted (fails env) (cleanup_sites st)"
    by blast
  show "cleanup_sites st
          = (if restored_agent st then [] else [RestoreFinally (the (current_workspace_id st))])
            @ (if agent_container st = None then [] else [StopContainer])
            @ (if agent_pool_id st = None \<or> agent_pool_id st = Some [] then [] else [DeletePool])"
    using a
    by (cases "restored_agent st"; cases "current_workspace_id st"; cases "agent_container st";
        cases "agent_pool_id st") (simp_all add: cleanup_sites_def armed_def)
next
  assume t: "varset_try_block srv organizations variable_sets variables vw
        = Some (vraised, vst, variables', vw1)"
  then have a: "varset_armed vst" by (rule varset_try_block_armed)
  from varset_finally_block_attempted [OF a, of "at_end srv" vw1] obtain vw2 where
    f: "varset_finally_block (at_end srv) vst vw1
          = (if list_ex (fails (at_end srv)) (varset_cleanup_sites vst) then Some RuntimeError else None,
             vw2)"
    and tr: "trace vw2 = trace vw1 @ attempted (fails (at_end srv)) (varset_cleanup_sites vst)"
    by blast
  have "enrich_variable_set_data srv organizations variable_sets variables vw
          = Some (if list_ex (fails (at_end srv)) (varset_cleanup_sites vst)
                  then Some RuntimeError else vraised,
                  variables', vw2)"
    using t f by (simp add: enrich_variable_set_data_def)
  with tr show "\<exists>vw2. enrich_variable_set_data srv organizations variable_sets variables vw
                = Some (if list_ex (fails (at_end srv)) (varset_cleanup_sites vst)
                        then Some RuntimeError else vraised,
                        variables', vw2)
            \<and> trace vw2 = trace vw1 @ attempted (fails (at_end srv)) (varset_cleanup_sites vst)"
    by blast
  show "varset_cleanup_sites vst
          = (if new_workspace vst = None then [] else [DeleteWorkspace (the (new_workspace vst))])
            @ (if var_set_reset vst then [] else [ResetFinally (the (var_set_id vst))])
            @ (if varset_agent_container vst = None then [] else [StopContainer])
            @ (if varset_agent_pool_id vst = None \<or> varset_agent_pool_id vst = Some [] then []
               else [DeletePool])"
    using a
    by (cases "new_workspace vst"; cases "var_set_reset vst"; cases "var_set_id vst";
        cases "varset_agent_container vst"; cases "varset_agent_pool_id vst")
       (simp_all add: varset_cleanup_sites_def varset_armed_def)
qed

theorem cleanup_runs_once_witness:
  "map_option (\<lambda>(raised, data', w'). (raised, trace w'))
     (enrich_organization (server [StopContainer] None) ''org-a'' [(''ws-1'', [(''var-1'', ''TOKEN'')])]
        one_workspace one_workspace_world)
   = Some (Some RuntimeError,
           [(CreatePool, True), (CreateToken, True), (DockerRun, True), (Backup ''ws-1'', True),
            (Repoint ''ws-1'', True), (TriggerPlan ''ws-1'', True),
            (RestoreFinally ''ws-1'', True), (StopContainer, False)])
   \<and> map_option (\<lambda>(raised, variables', w'). (raised, trace w'))
     (enrich_variable_set_data (varset_server [] [ResetFinally ''varset-1''] None) [''org-a'']
        [(''varset-1'', ''org-a'')] [(''varset-1'', ''TOKEN'', None)] one_varset_world)
   = Some (Some RuntimeError,
           [(ListProjects, True), (CreatePool, True), (CreateToken, True), (DockerRun, True),
            (CreateWorkspace, True), (PushConfiguration, True), (Repoint ''ws-smk'', True),
            (BackupVarSet ''varset-1'', True), (AttachVarSet ''varset-1'', True),
            (PlanVarSet ''varset-1'', True),
            (DeleteWorkspace ''ws-smk'', True), (ResetFinally ''varset-1'', False)])"
proof -
  from no_run_data_try_stop obtain w1 where
    t: "try_block (server [StopContainer] None) ''org-a'' [(''ws-1'', [(''var-1'', ''TOKEN'')])]
           one_workspace one_workspace_world
         = Some (Some TerraformExporterPlanError,
                 \<lparr>agent_pool_id = Some ''apool-1'', agent_container = Some ''smk-tfc-agent-org-a'',
                  current_workspace_id = Some ''ws-1'', workspace_data_backup = Some remote_settings,
                  restored_agent = False\<rparr>,
                 one_workspace, w1)"
    and tr: "trace w1 = [(CreatePool, True), (CreateToken, True), (DockerRun, True), (Backup ''ws-1'', True),
                      (Repoint ''ws-1'', True), (TriggerPlan ''ws-1'', True)]"
    by blast
  from no_run_data_varset_try obtain vw1 where
    vt: "varset_try_block (varset_server [] [ResetFinally ''varset-1''] None) [''org-a'']
           [(''varset-1'', ''org-a'')] [(''varset-1'', ''TOKEN'', None)] one_varset_world
         = Some (Some TerraformExporterPlanError,
                 \<lparr>new_workspace = Some ''ws-smk'',
                  variable_set_relationship_backup = Some
                    \<lparr>attr_global = JBool False, attr_priority = JBool False,
                     rel_workspaces = JList [JObj [(''id'', JStr ''ws-1''), (''type'', JStr ''workspaces'')]],
                     rel_projects = JList []\<rparr>,
                  var_set_reset = False, var_set_id = Some ''varset-1'',
                  varset_agent_container = Some ''smk-tfc-agent-org-a'',
                  varset_agent_pool_id = Some ''apool-1''\<rparr>,
                 [(''varset-1'', ''TOKEN'', None)], vw1)"
    and vtr: "trace vw1 = [(ListProjects, True), (CreatePool, True), (CreateToken, True), (DockerRun, True),
                      (CreateWorkspace, True), (PushConfiguration, True), (Repoint ''ws-smk'', True),
                      (BackupVarSet ''varset-1'', True), (AttachVarSet ''varset-1'', True),
                      (PlanVarSet ''varset-1'', True)]"
    by blast
  from cleanup_runs_once [THEN conjunct1, rule_format, OF t] tr
  have one: "map_option (\<lambda>(raised, data', w'). (raised, trace w'))
     (enrich_organization (server [StopContainer] None) ''org-a'' [(''ws-1'', [(''var-1'', ''TOKEN'')])]
        one_workspace one_workspace_world)
   = Some (Some RuntimeError,
           [(CreatePool, True), (CreateToken, True), (DockerRun, True), (Backup ''ws-1'', True),
            (Repoint ''ws-1'', True), (TriggerPlan ''ws-1'', True),
            (RestoreFinally ''ws-1'', True), (StopContainer, False)])"
    by (auto simp: cleanup_sites_def server_def)
  from cleanup_runs_once [THEN conjunct2, rule_format, OF vt] vtr
  have two: "map_option (\<lambda>(raised, variables', w'). (raised, trace w'))
     (enrich_variable_set_data (varset_server [] [ResetFinally ''varset-1''] None) [''org-a'']
        [(''varset-1'', ''org-a'')] [(''varset-1'', ''TOKEN'', None)] one_varset_world)
   = Some (Some RuntimeError,
           [(ListProjects, True), (CreatePool, True), (CreateToken, True), (DockerRun, True),
            (CreateWorkspace, True), (PushConfiguration, True), (Repoint ''ws-smk'', True),
            (BackupVarSet ''varset-1'', True), (AttachVarSet ''varset-1'', True),
            (PlanVarSet ''varset-1'', True),
            (DeleteWorkspace ''ws-smk'', True), (ResetFinally ''varset-1'', False)])"
    by (auto simp: varset_cleanup_sites_def varset_server_def server_def)
  from one two show ?thesis by blast
qed

text \<open>
  The claim as it is written fails: the calls of the \<^verbatim>\<open>finally\<close> blocks are not
  guarded.  In both sagas the plan request gives no run data here, which raises
  \<^verbatim>\<open>TerraformExporterPlanError\<close>.  For the workspaces the restoration in the
  \<^verbatim>\<open>finally\<close> block fails; for the variable sets the stop of the container does.  The
  caller gets the error of the call that failed, and the container and the agent pool
  are left behind.
\<close>

theorem cleanup_failure_masks_error:
  "map_option (\<lambda>(raised, st, data', w1). raised)
     (try_block (server [RestoreFinally ''ws-1''] None) ''org-a'' [(''ws-1'', [(''var-1'', ''TOKEN'')])]
        one_workspace one_workspace_world)
   = Some (Some TerraformExporterPlanError)
   \<and> map_option (\<lambda>(raised, data', w'). (raised, pools w', containers w', trace w'))
     (enrich_organization (server [RestoreFinally ''ws-1''] None) ''org-a''
        [(''ws-1'', [(''var-1'', ''TOKEN'')])] one_workspace one_workspace_world)
   = Some (Some RuntimeError, [''apool-1''], [''smk-tfc-agent-org-a''],
           [(CreatePool, True), (CreateToken, True), (DockerRun, True), (Backup ''ws-1'', True),
            (Repoint ''ws-1'', True), (TriggerPlan ''ws-1'', True), (RestoreFinally ''ws-1'', False)])
   \<and> map_option (\<lambda>(raised, st, variables', w1). raised)
     (varset_try_block (varset_server [] [StopContainer] None) [''org-a'']
        [(''varset-1'', ''org-a'')] [(''varset-1'', ''TOKEN'', None)] one_varset_world)
   = Some (Some TerraformExporterPlanError)
   \<and> map_option (\<lambda>(raised, variables', w'). (raised, pools w', containers w', trace w'))
     (enrich_variable_set_data (varset_server [] [StopContainer] None) [''org-a'']
        [(''varset-1'', ''org-a'')] [(''varset-1'', ''TOKEN'', None)] one_varset_world)
   = Some (Some RuntimeError, [''apool-1''], [''smk-tfc-agent-org-a''],
           [(ListProjects, True), (CreatePool, True), (CreateToken, True), (DockerRun, True),
            (CreateWorkspace, True), (PushConfiguration, True), (Repoint ''ws-smk'', True),
            (BackupVarSet ''varset-1'', True), (AttachVarSet ''varset-1'', True),
            (PlanVarSet ''varset-1'', True),
            (DeleteWorkspace ''ws-smk'', True), (ResetFinally ''varset-1'', True),
            (StopContainer, False)])"
  by code_simp

end
